theory Spec2Isabelle
  imports Complex_Main "HOL-Library.Multiset"
begin

section \<open>JavaScript strings\<close>

text \<open>
  A JavaScript string is a sequence of UTF-16 code units; a code unit is modelled as a
  natural number. \<open>js\<close> writes an ASCII literal, other literals are written as their
  code units.
\<close>

type_synonym jstring = "nat list"

definition js :: "string \<Rightarrow> jstring" where
  "js s = map of_char s"

text \<open>
  The characters that \<open>String.prototype.trim\<close> removes and that \<open>\s\<close> matches in a
  regular expression: WhiteSpace and LineTerminator of ECMAScript.
\<close>

definition isWhiteSpace :: "nat \<Rightarrow> bool" where
  "isWhiteSpace c =
     (c = 9 \<or> c = 10 \<or> c = 11 \<or> c = 12 \<or> c = 13 \<or> c = 32 \<or> c = 160 \<or> c = 5760 \<or>
      (8192 \<le> c \<and> c \<le> 8202) \<or> c = 8232 \<or> c = 8233 \<or> c = 8239 \<or> c = 8287 \<or>
      c = 12288 \<or> c = 65279)"

text \<open>The characters that \<open>.\<close> does not match: the line terminators.\<close>

definition isLineTerminator :: "nat \<Rightarrow> bool" where
  "isLineTerminator c = (c = 10 \<or> c = 13 \<or> c = 8232 \<or> c = 8233)"

text \<open>\<open>\d\<close>: the ASCII digits.\<close>

definition isDigit :: "nat \<Rightarrow> bool" where
  "isDigit c = (48 \<le> c \<and> c \<le> 57)"

definition trim :: "jstring \<Rightarrow> jstring" where
  "trim s = rev (dropWhile isWhiteSpace (rev (dropWhile isWhiteSpace s)))"

text \<open>\<open>s.startsWith(p)\<close>, \<open>s.includes(p)\<close>: receiver first, as in the source.\<close>

fun startsWith :: "jstring \<Rightarrow> jstring \<Rightarrow> bool" where
  "startsWith s [] = True"
| "startsWith [] (p # ps) = False"
| "startsWith (c # s) (p # ps) = (c = p \<and> startsWith s ps)"

fun includesStr :: "jstring \<Rightarrow> jstring \<Rightarrow> bool" where
  "includesStr [] p = (p = [])"
| "includesStr (c # s) p = (startsWith (c # s) p \<or> includesStr s p)"

text \<open>
  \<open>String.prototype.toLowerCase\<close> is the Unicode default lower-casing of the engine. It
  is a parameter \<open>lower\<close> of every function that calls it. \<open>lowerBasic\<close> is what it does
  on the Latin letters of ASCII and on the Cyrillic letters U+0400 to U+042F, and leaves
  every other code unit alone; it instantiates the parameter on concrete inputs.
\<close>

definition lowerUnit :: "nat \<Rightarrow> nat" where
  "lowerUnit c =
     (if 65 \<le> c \<and> c \<le> 90 then c + 32
      else if 1040 \<le> c \<and> c \<le> 1071 then c + 32
      else if 1024 \<le> c \<and> c \<le> 1039 then c + 80
      else c)"

definition lowerBasic :: "jstring \<Rightarrow> jstring" where
  "lowerBasic s = map lowerUnit s"


text \<open>
  \<open>String.prototype.localeCompare\<close> is the collation of the engine's locale. It is a
  parameter \<open>localeCompare\<close> of every function that calls it; what is assumed of it, where
  something is, is that it is a consistent comparator. \<open>codeUnitCompare\<close>, the comparison
  code unit by code unit, instantiates the parameter on concrete inputs.
\<close>

fun codeUnitCompare :: "jstring \<Rightarrow> jstring \<Rightarrow> int" where
  "codeUnitCompare [] [] = 0"
| "codeUnitCompare [] (y # ys) = - 1"
| "codeUnitCompare (x # xs) [] = 1"
| "codeUnitCompare (x # xs) (y # ys) =
     (if x < y then - 1 else if y < x then 1 else codeUnitCompare xs ys)"

section \<open>formatNegative.js\<close>

text \<open>
  \<^verbatim>\<open>
  export function formatNegative(text, matchType) {
    const t = (text || "").trim();
    if (!t) return "";
    if (matchType === "exact") return `[${t}]`;
    if (matchType === "phrase") return `"${t}"`;
    return t; // broad
  }
  \<close>
  An absent (undefined or null) argument is \<open>None\<close>. Code unit 34 is the double quote.
\<close>

definition orEmpty :: "jstring option \<Rightarrow> jstring" where
  "orEmpty v = (case v of None \<Rightarrow> [] | Some s \<Rightarrow> s)"

definition formatNegative :: "jstring option \<Rightarrow> jstring option \<Rightarrow> jstring" where
  "formatNegative text matchType =
     (let t = trim (orEmpty text) in
      if t = [] then []
      else if matchType = Some (js ''exact'') then js ''['' @ t @ js '']''
      else if matchType = Some (js ''phrase'') then [34] @ t @ [34]
      else t)"

section \<open>ReportTable: metric column detection\<close>

text \<open>
  The Cyrillic literals of the source, as code units:
  \<open>ru_stoim\<close> U+0441 U+0442 U+043E U+0438 U+043C;
  \<open>ru_konv\<close> U+043A U+043E U+043D U+0432;
  \<open>ru_raskhod\<close> U+0440 U+0430 U+0441 U+0445 U+043E U+0434;
  \<open>ru_stoimost\<close> U+0441 U+0442 U+043E U+0438 U+043C U+043E U+0441 U+0442 U+044C;
  \<open>ru_koef\<close> U+043A U+043E U+044D U+0444;
  \<open>ru_pokaz\<close> U+043F U+043E U+043A U+0430 U+0437;
  \<open>ru_klik\<close> U+043A U+043B U+0438 U+043A;
  \<open>ru_konv_koef\<close> is \<open>ru_konv\<close>, a full stop, a space and \<open>ru_koef\<close>;
  \<open>ru_konver\<close> is \<open>ru_konv\<close> U+0435 U+0440; \<open>ru_konvers\<close> is \<open>ru_konver\<close> U+0441.
\<close>

definition ru_stoim :: jstring where
  "ru_stoim = [1089, 1090, 1086, 1080, 1084]"

definition ru_konv :: jstring where
  "ru_konv = [1082, 1086, 1085, 1074]"

definition ru_raskhod :: jstring where
  "ru_raskhod = [1088, 1072, 1089, 1093, 1086, 1076]"

definition ru_stoimost :: jstring where
  "ru_stoimost = [1089, 1090, 1086, 1080, 1084, 1086, 1089, 1090, 1100]"

definition ru_koef :: jstring where
  "ru_koef = [1082, 1086, 1101, 1092]"

definition ru_pokaz :: jstring where
  "ru_pokaz = [1087, 1086, 1082, 1072, 1079]"

definition ru_klik :: jstring where
  "ru_klik = [1082, 1083, 1080, 1082]"

definition ru_konv_koef :: jstring where
  "ru_konv_koef = [1082, 1086, 1085, 1074, 46, 32, 1082, 1086, 1101, 1092]"

definition ru_konver :: jstring where
  "ru_konver = [1082, 1086, 1085, 1074, 1077, 1088]"

definition ru_konvers :: jstring where
  "ru_konvers = [1082, 1086, 1085, 1074, 1077, 1088, 1089]"

text \<open>
  \<^verbatim>\<open>function norm(s) { return String(s || "").trim().toLowerCase(); }\<close>
  A column label is a string.
\<close>

definition norm :: "(jstring \<Rightarrow> jstring) \<Rightarrow> jstring \<Rightarrow> jstring" where
  "norm lower s = lower (trim s)"

text \<open>
  \<^verbatim>\<open>
  function pickBestColumn(columns, scoreFn) {
    let best = null;
    let bestScore = 0;
    for (const col of columns || []) {
      const k = norm(col);
      const score = scoreFn(k);
      if (score > bestScore) { bestScore = score; best = col; }
    }
    return best;
  }
  \<close>
  The loop runs over the columns with the pair (best, bestScore) as its state.
\<close>

fun pickBestLoop ::
  "(jstring \<Rightarrow> jstring) \<Rightarrow> (jstring \<Rightarrow> int) \<Rightarrow> jstring list \<Rightarrow>
   jstring option \<times> int \<Rightarrow> jstring option \<times> int" where
  "pickBestLoop lower scoreFn [] st = st"
| "pickBestLoop lower scoreFn (col # cols) (best, bestScore) =
     (let k = norm lower col; score = scoreFn k in
      if score > bestScore then pickBestLoop lower scoreFn cols (Some col, score)
      else pickBestLoop lower scoreFn cols (best, bestScore))"

definition pickBestColumn ::
  "(jstring \<Rightarrow> jstring) \<Rightarrow> jstring list \<Rightarrow> (jstring \<Rightarrow> int) \<Rightarrow> jstring option" where
  "pickBestColumn lower columns scoreFn = fst (pickBestLoop lower scoreFn columns (None, 0))"

text \<open>
  The regular expression \<^verbatim>\<open>/cost\s*\/\s*conv/\<close>, tested anywhere in the key: at some
  position the key reads "cost", white space, a slash, white space, "conv". A slash and
  the letter c are no white space, so each \<^verbatim>\<open>\s*\<close> takes the whole run of white space.
\<close>

definition costSlashConvAt :: "jstring \<Rightarrow> bool" where
  "costSlashConvAt s =
     (startsWith s (js ''cost'') \<and>
      (let r = dropWhile isWhiteSpace (drop 4 s) in
       startsWith r (js ''/'') \<and>
       startsWith (dropWhile isWhiteSpace (drop 1 r)) (js ''conv'')))"

fun reCostSlashConv :: "jstring \<Rightarrow> bool" where
  "reCostSlashConv [] = False"
| "reCostSlashConv (c # s) = (costSlashConvAt (c # s) \<or> reCostSlashConv s)"

text \<open>
  The regular expressions \<^verbatim>\<open>/^cost\s*\(.+\)$/\<close>, \<^verbatim>\<open>/^...\s*\(.+\)$/\<close> for the two
  Russian words: the key is the word, white space, an opening parenthesis (code unit 40),
  at least one character other than a line terminator, and a closing parenthesis (code
  unit 41) as its last character.
\<close>

definition reWordParen :: "jstring \<Rightarrow> jstring \<Rightarrow> bool" where
  "reWordParen word k =
     (startsWith k word \<and>
      (case dropWhile isWhiteSpace (drop (length word) k) of
         [] \<Rightarrow> False
       | c # body \<Rightarrow>
           c = 40 \<and> body \<noteq> [] \<and> last body = 41 \<and> butlast body \<noteq> [] \<and>
           list_all (\<lambda>x. \<not> isLineTerminator x) (butlast body)))"

text \<open>
  \<^verbatim>\<open>
  function isCostPerConvKey(k) {
    return (
      /cost\s*\/\s*conv/.test(k) ||
      k.includes("cost/conv") ||
      k.includes("cost per conv") ||
      k.includes("cost per conversion") ||
      k.includes("cpa") ||
      (k.includes("<ru_stoim>") && k.includes("<ru_konv>")) ||
      (k.includes("<ru_raskhod>") && k.includes("<ru_konv>"))
    );
  }
  function isConversionRateKey(k) {
    return (
      k.includes("conv. rate") ||
      k.includes("conversion rate") ||
      k.includes("<ru_konv_koef>") ||
      (k.includes("<ru_konver>") && k.includes("<ru_koef>")) ||
      k.includes("%")
    );
  }
  \<close>
\<close>

definition isCostPerConvKey :: "jstring \<Rightarrow> bool" where
  "isCostPerConvKey k =
     (reCostSlashConv k \<or>
      includesStr k (js ''cost/conv'') \<or>
      includesStr k (js ''cost per conv'') \<or>
      includesStr k (js ''cost per conversion'') \<or>
      includesStr k (js ''cpa'') \<or>
      (includesStr k ru_stoim \<and> includesStr k ru_konv) \<or>
      (includesStr k ru_raskhod \<and> includesStr k ru_konv))"

definition isConversionRateKey :: "jstring \<Rightarrow> bool" where
  "isConversionRateKey k =
     (includesStr k (js ''conv. rate'') \<or>
      includesStr k (js ''conversion rate'') \<or>
      includesStr k ru_konv_koef \<or>
      (includesStr k ru_konver \<and> includesStr k ru_koef) \<or>
      includesStr k (js ''%''))"

text \<open>
  The five scoring functions that detectMetricColumnsStrong hands to pickBestColumn, in
  the order of the source.
  \<^verbatim>\<open>
  const costPerConv = pickBestColumn(cols, (k) => {
    if (isCostPerConvKey(k)) return 100;
    return 0;
  });
  const cost = pickBestColumn(cols, (k) => {
    if (isCostPerConvKey(k)) return 0;
    if (k === "cost") return 120;
    if (/^cost\s*\(.+\)$/.test(k)) return 115;
    if (k === "<ru_raskhod>" || /^<ru_raskhod>\s*\(.+\)$/.test(k)) return 120;
    if (k === "<ru_stoimost>" || /^<ru_stoimost>\s*\(.+\)$/.test(k)) return 120;
    if (k.includes("cost") && !k.includes("per") && !k.includes("conv") &&
        !k.includes("conversion") && !k.includes("rate") && !k.includes("/"))
      return 60;
    if ((k.includes("<ru_raskhod>") || k.includes("<ru_stoimost>")) &&
        !k.includes("<ru_konv>") && !k.includes("<ru_koef>") && !k.includes("/"))
      return 60;
    return 0;
  });
  const impr = pickBestColumn(cols, (k) => {
    if (k === "impr." || k === "impressions") return 110;
    if (k.startsWith("impr")) return 80;
    if (k.includes("impression")) return 80;
    if (k.includes("<ru_pokaz>")) return 90;
    return 0;
  });
  const clicks = pickBestColumn(cols, (k) => {
    if (k === "clicks" || k === "click") return 110;
    if (k.includes("click")) return 80;
    if (k.includes("<ru_klik>")) return 80;
    return 0;
  });
  const conv = pickBestColumn(cols, (k) => {
    if (isConversionRateKey(k)) return 0;
    if (k === "conversions") return 110;
    if (/^conv\.?$/.test(k)) return 105;
    if (k.includes("conversion")) return 80;
    if (k.includes("<ru_konvers>")) return 85;
    return 0;
  });
  return { cost, impr, clicks, conv, costPerConv };
  \<close>
\<close>

definition costPerConvScore :: "jstring \<Rightarrow> int" where
  "costPerConvScore k = (if isCostPerConvKey k then 100 else 0)"

definition costScore :: "jstring \<Rightarrow> int" where
  "costScore k =
     (if isCostPerConvKey k then 0
      else if k = js ''cost'' then 120
      else if reWordParen (js ''cost'') k then 115
      else if k = ru_raskhod \<or> reWordParen ru_raskhod k then 120
      else if k = ru_stoimost \<or> reWordParen ru_stoimost k then 120
      else if includesStr k (js ''cost'') \<and> \<not> includesStr k (js ''per'') \<and>
              \<not> includesStr k (js ''conv'') \<and> \<not> includesStr k (js ''conversion'') \<and>
              \<not> includesStr k (js ''rate'') \<and> \<not> includesStr k (js ''/'') then 60
      else if (includesStr k ru_raskhod \<or> includesStr k ru_stoimost) \<and>
              \<not> includesStr k ru_konv \<and> \<not> includesStr k ru_koef \<and>
              \<not> includesStr k (js ''/'') then 60
      else 0)"

definition imprScore :: "jstring \<Rightarrow> int" where
  "imprScore k =
     (if k = js ''impr.'' \<or> k = js ''impressions'' then 110
      else if startsWith k (js ''impr'') then 80
      else if includesStr k (js ''impression'') then 80
      else if includesStr k ru_pokaz then 90
      else 0)"

definition clicksScore :: "jstring \<Rightarrow> int" where
  "clicksScore k =
     (if k = js ''clicks'' \<or> k = js ''click'' then 110
      else if includesStr k (js ''click'') then 80
      else if includesStr k ru_klik then 80
      else 0)"

definition convScore :: "jstring \<Rightarrow> int" where
  "convScore k =
     (if isConversionRateKey k then 0
      else if k = js ''conversions'' then 110
      else if k = js ''conv'' \<or> k = js ''conv.'' then 105
      else if includesStr k (js ''conversion'') then 80
      else if includesStr k ru_konvers then 85
      else 0)"

record metricColumns =
  cost :: "jstring option"
  impr :: "jstring option"
  clicks :: "jstring option"
  conv :: "jstring option"
  costPerConv :: "jstring option"

definition detectMetricColumnsStrong ::
  "(jstring \<Rightarrow> jstring) \<Rightarrow> jstring list \<Rightarrow> metricColumns" where
  "detectMetricColumnsStrong lower columns =
     \<lparr> cost = pickBestColumn lower columns costScore,
       impr = pickBestColumn lower columns imprScore,
       clicks = pickBestColumn lower columns clicksScore,
       conv = pickBestColumn lower columns convScore,
       costPerConv = pickBestColumn lower columns costPerConvScore \<rparr>"

section \<open>JavaScript values, Numbers and Array.prototype.sort\<close>

text \<open>
  A property value of a row object is a string or, for the row identifier, a number.
  A row object is a map from property names to values; an absent property reads as
  undefined, which is \<open>None\<close>. The spread \<^verbatim>\<open>{...a, ...b}\<close> is \<open>a ++ b\<close>.
\<close>

datatype jsval = JStr jstring | JNum nat

type_synonym jsobj = "jstring \<rightharpoonup> jsval"

function natToString :: "nat \<Rightarrow> jstring" where
  "natToString n = (if n < 10 then [48 + n] else natToString (n div 10) @ [48 + n mod 10])"
  by pat_completeness auto
termination
  by (relation "measure id") auto

declare natToString.simps [simp del]

text \<open>\<open>String(v)\<close> for a value and for a possibly undefined or null one.\<close>

definition toStr :: "jsval \<Rightarrow> jstring" where
  "toStr v = (case v of JStr s \<Rightarrow> s | JNum n \<Rightarrow> natToString n)"

text \<open>
  A Number is NaN, an infinity, or a finite double. \<open>Fin q\<close> is the finite double whose
  exact value is the rational \<open>q\<close>; the two zeros, which \<open>===\<close>, \<open>>\<close> and
  \<open>Number.isFinite\<close> do not tell apart, are both \<open>Fin 0\<close>.
\<close>

datatype jsnum = NaN | PosInf | NegInf | Fin rat

text \<open>The operators \<open>===\<close> and \<open>>\<close> on Numbers.\<close>

fun numEq :: "jsnum \<Rightarrow> jsnum \<Rightarrow> bool" where
  "numEq NaN b = False"
| "numEq a NaN = False"
| "numEq a b = (a = b)"

fun numGt :: "jsnum \<Rightarrow> jsnum \<Rightarrow> bool" where
  "numGt NaN b = False"
| "numGt a NaN = False"
| "numGt PosInf b = (b \<noteq> PosInf)"
| "numGt NegInf b = False"
| "numGt (Fin x) PosInf = False"
| "numGt (Fin x) NegInf = True"
| "numGt (Fin x) (Fin y) = (y < x)"

definition pow2 :: "int \<Rightarrow> rat" where
  "pow2 e = (if 0 \<le> e then 2 ^ nat e else 1 / 2 ^ nat (- e))"

text \<open>The number of binary digits of a positive integer.\<close>

function bitLength :: "int \<Rightarrow> int" where
  "bitLength n = (if n \<le> 0 then 0 else 1 + bitLength (n div 2))"
  by pat_completeness auto
termination
  by (relation "measure nat") auto

declare bitLength.simps [simp del]

text \<open>
  The Number value of the fraction \<open>p / q\<close> (\<open>0 \<le> p\<close>, \<open>0 < q\<close>) with the sign \<open>neg\<close>:
  IEEE 754 binary64, round to nearest, ties to even. \<open>e\<close> is the binary exponent of
  \<open>p / q\<close>, \<open>2 ^ sh\<close> the spacing of the doubles at that exponent (the subnormal spacing
  below \<open>2 ^ -1022\<close>), \<open>m\<close> the fraction \<open>p / q / 2 ^ sh\<close> rounded to an integer. A result
  of \<open>2 ^ 1024\<close> or more is an infinity.
\<close>

definition roundToDouble :: "bool \<Rightarrow> int \<Rightarrow> int \<Rightarrow> jsnum" where
  "roundToDouble neg p q =
     (if p = 0 then Fin 0
      else
        (let e0 = bitLength p - bitLength q;
             e = (if (if 0 \<le> e0 then 2 ^ nat e0 * q \<le> p else q \<le> p * 2 ^ nat (- e0))
                  then e0 else e0 - 1);
             sh = max e (- 1022) - 52;
             N = (if 0 \<le> sh then p else p * 2 ^ nat (- sh));
             D = (if 0 \<le> sh then q * 2 ^ nat sh else q);
             f = N div D;
             r = N mod D;
             m = (if 2 * r < D then f else if D < 2 * r then f + 1
                  else if even f then f else f + 1);
             v = of_int m * pow2 sh
         in if pow2 1024 \<le> v then (if neg then NegInf else PosInf)
            else Fin (if neg then - v else v)))"

text \<open>The Number value of the decimal \<open>n * 10 ^ k\<close> with the sign \<open>neg\<close>.\<close>

definition toNumber :: "bool \<Rightarrow> int \<Rightarrow> int \<Rightarrow> jsnum" where
  "toNumber neg n k =
     (if 0 \<le> k then roundToDouble neg (n * 10 ^ nat k) 1
      else roundToDouble neg n (10 ^ nat (- k)))"

text \<open>
  \<open>Number.parseFloat\<close>: skip leading white space, read the longest prefix that is a
  StrDecimalLiteral (a sign, then "Infinity" or digits with an optional fraction and an
  optional exponent part), and return its Number value, NaN when there is no such
  prefix. Code units: 43 plus, 45 minus, 46 full stop, 69 and 101 the exponent letters.
\<close>

definition digitsValue :: "jstring \<Rightarrow> int" where
  "digitsValue ds = foldl (\<lambda>a d. 10 * a + (int d - 48)) 0 ds"

definition takeSign :: "jstring \<Rightarrow> bool \<times> jstring" where
  "takeSign s =
     (case s of
        [] \<Rightarrow> (False, [])
      | c # r \<Rightarrow> if c = 45 then (True, r) else if c = 43 then (False, r) else (False, s))"

definition exponentPart :: "jstring \<Rightarrow> int" where
  "exponentPart r =
     (case r of
        [] \<Rightarrow> 0
      | c # r1 \<Rightarrow>
          if c = 101 \<or> c = 69 then
            (let (neg, r2) = takeSign r1; ds = takeWhile isDigit r2 in
             if ds = [] then 0 else if neg then - digitsValue ds else digitsValue ds)
          else 0)"

definition Number_parseFloat :: "jstring \<Rightarrow> jsnum" where
  "Number_parseFloat str =
     (let (neg, s) = takeSign (dropWhile isWhiteSpace str) in
      if startsWith s (js ''Infinity'') then (if neg then NegInf else PosInf)
      else
        (let ip = takeWhile isDigit s;
             r1 = dropWhile isDigit s;
             hasDot = startsWith r1 (js ''.'');
             fp = (if hasDot then takeWhile isDigit (drop 1 r1) else []);
             r2 = (if hasDot then dropWhile isDigit (drop 1 r1) else r1)
         in if ip = [] \<and> fp = [] then NaN
            else toNumber neg (digitsValue (ip @ fp)) (exponentPart r2 - int (length fp))))"

text \<open>
  \<open>Array.prototype.sort\<close> with a comparator is a stable sort: for a consistent
  comparator its result is the one stable sorted arrangement of the array, which
  insertion from the right computes. An element goes before the first element that it
  does not compare greater than.
\<close>

fun insertSorted :: "('a \<Rightarrow> 'a \<Rightarrow> int) \<Rightarrow> 'a \<Rightarrow> 'a list \<Rightarrow> 'a list" where
  "insertSorted cmp x [] = [x]"
| "insertSorted cmp x (y # ys) =
     (if cmp x y \<le> 0 then x # y # ys else y # insertSorted cmp x ys)"

definition jsSort :: "('a \<Rightarrow> 'a \<Rightarrow> int) \<Rightarrow> 'a list \<Rightarrow> 'a list" where
  "jsSort cmp xs = foldr (insertSorted cmp) xs []"

section \<open>ReportTable: parseMetricNumber and the metric sort\<close>

text \<open>
  \<^verbatim>\<open>
  function safeParseFloat(s) {
    const n = Number.parseFloat(s);
    return Number.isFinite(n) ? n : Number.NEGATIVE_INFINITY;
  }
  \<close>
  \<open>NegInf\<close>, the value of \<open>Number.NEGATIVE_INFINITY\<close>, is the missing-value sentinel.
\<close>

definition safeParseFloat :: "jstring \<Rightarrow> jsnum" where
  "safeParseFloat s = (case Number_parseFloat s of Fin q \<Rightarrow> Fin q | _ \<Rightarrow> NegInf)"

text \<open>
  The string operations of parseMetricNumber. \<open>s.replace(/[^\d,.\-]/g, "")\<close> keeps the
  digits, the comma (44), the minus (45) and the full stop (46). \<open>s.lastIndexOf(c)\<close> is
  the last index of a character or -1. \<open>s.split(c)\<close> splits at every occurrence of a
  character, \<open>parts.join("")\<close> is \<open>concat\<close>, \<open>parts.pop()\<close> takes the last part away.
  \<open>s.replace(c, d)\<close> with a string pattern replaces the first occurrence only.
\<close>

definition stripNonNumeric :: "jstring \<Rightarrow> jstring" where
  "stripNonNumeric s = filter (\<lambda>c. isDigit c \<or> c = 44 \<or> c = 46 \<or> c = 45) s"

fun lastIndexOf :: "jstring \<Rightarrow> nat \<Rightarrow> int" where
  "lastIndexOf [] c = - 1"
| "lastIndexOf (x # s) c =
     (let r = lastIndexOf s c in if r \<noteq> - 1 then r + 1 else if x = c then 0 else - 1)"

fun splitOn :: "nat \<Rightarrow> jstring \<Rightarrow> jstring list" where
  "splitOn sep [] = [[]]"
| "splitOn sep (c # s) =
     (if c = sep then [] # splitOn sep s
      else (case splitOn sep s of [] \<Rightarrow> [[c]] | p # ps \<Rightarrow> (c # p) # ps))"

fun replaceFirst :: "nat \<Rightarrow> nat \<Rightarrow> jstring \<Rightarrow> jstring" where
  "replaceFirst c d [] = []"
| "replaceFirst c d (x # s) = (if x = c then d # s else x # replaceFirst c d s)"

text \<open>
  \<^verbatim>\<open>
  function parseMetricNumber(value) {
    if (value == null) return Number.NEGATIVE_INFINITY;
    let s = String(value).trim();
    if (!s || s === "<U+2014>" || s === "-") return Number.NEGATIVE_INFINITY;
    s = s.replace(/[^\d,.\-]/g, "");
    const lastDot = s.lastIndexOf(".");
    const lastComma = s.lastIndexOf(",");
    if (lastDot !== -1 && lastComma !== -1) {
      const decSep = lastDot > lastComma ? "." : ",";
      const thouSep = decSep === "." ? "," : ".";
      s = s.split(thouSep).join("");
      if (decSep === ",") s = s.replace(",", ".");
      return safeParseFloat(s);
    }
    if (lastComma !== -1 && lastDot === -1) {
      const after = s.length - lastComma - 1;
      if (after >= 1 && after <= 2) {
        const parts = s.split(",");
        const dec = parts.pop();
        s = parts.join("") + "." + dec;
        return safeParseFloat(s);
      }
      s = s.split(",").join("");
      return safeParseFloat(s);
    }
    if (lastDot !== -1 && lastComma === -1) {
      const after = s.length - lastDot - 1;
      if (after >= 1 && after <= 2) {
        const parts = s.split(".");
        const dec = parts.pop();
        s = parts.join("") + "." + dec;
        return safeParseFloat(s);
      }
      s = s.split(".").join("");
      return safeParseFloat(s);
    }
    return safeParseFloat(s);
  }
  \<close>
  Code unit 8212 is the em dash.
\<close>

definition parseMetricNumber :: "jsval option \<Rightarrow> jsnum" where
  "parseMetricNumber value =
     (case value of
        None \<Rightarrow> NegInf
      | Some v \<Rightarrow>
          (let s0 = trim (toStr v) in
           if s0 = [] \<or> s0 = [8212] \<or> s0 = js ''-'' then NegInf
           else
             (let s = stripNonNumeric s0;
                  lastDot = lastIndexOf s 46;
                  lastComma = lastIndexOf s 44
              in if lastDot \<noteq> - 1 \<and> lastComma \<noteq> - 1 then
                   (let decSep = (if lastDot > lastComma then 46 else (44::nat));
                        thouSep = (if decSep = 46 then 44 else (46::nat));
                        s1 = concat (splitOn thouSep s);
                        s2 = (if decSep = 44 then replaceFirst 44 46 s1 else s1)
                    in safeParseFloat s2)
                 else if lastComma \<noteq> - 1 \<and> lastDot = - 1 then
                   (let after = int (length s) - lastComma - 1 in
                    if after \<ge> 1 \<and> after \<le> 2 then
                      (let parts = splitOn 44 s; dec = last parts in
                       safeParseFloat (concat (butlast parts) @ js ''.'' @ dec))
                    else safeParseFloat (concat (splitOn 44 s)))
                 else if lastDot \<noteq> - 1 \<and> lastComma = - 1 then
                   (let after = int (length s) - lastDot - 1 in
                    if after \<ge> 1 \<and> after \<le> 2 then
                      (let parts = splitOn 46 s; dec = last parts in
                       safeParseFloat (concat (butlast parts) @ js ''.'' @ dec))
                    else safeParseFloat (concat (splitOn 46 s)))
                 else safeParseFloat s)))"

text \<open>
  The comparator of the metric sort in visibleRows and the sort it drives:
  \<^verbatim>\<open>
  const mul = sortDir === "asc" ? 1 : -1;
  dataRows = [...dataRows].sort((a, b) => {
    const av = parseMetricNumber(a?.[colName]);
    const bv = parseMetricNumber(b?.[colName]);
    const aMiss = av === Number.NEGATIVE_INFINITY;
    const bMiss = bv === Number.NEGATIVE_INFINITY;
    if (aMiss && bMiss) return 0;
    if (aMiss) return 1;
    if (bMiss) return -1;
    if (av === bv) return 0;
    return av > bv ? 1 * mul : -1 * mul;
  });
  \<close>
\<close>

definition metricCompare :: "int \<Rightarrow> jstring \<Rightarrow> jsobj \<Rightarrow> jsobj \<Rightarrow> int" where
  "metricCompare mul colName a b =
     (let av = parseMetricNumber (a colName);
          bv = parseMetricNumber (b colName);
          aMiss = numEq av NegInf;
          bMiss = numEq bv NegInf
      in if aMiss \<and> bMiss then 0
         else if aMiss then 1
         else if bMiss then - 1
         else if numEq av bv then 0
         else if numGt av bv then 1 * mul else - 1 * mul)"

definition sortDataRows :: "jstring \<Rightarrow> jstring \<Rightarrow> jsobj list \<Rightarrow> jsobj list" where
  "sortDataRows sortDir colName dataRows =
     (let mul = (if sortDir = js ''asc'' then 1 else - 1) in
      jsSort (metricCompare mul colName) dataRows)"

section \<open>The separator rules of the number parser, as the specification words them\<close>

text \<open>
  The rules are written with the positions of the separators instead of split and join.
  \<open>afterLast c s\<close> is the trailing run of \<open>s\<close> after the last occurrence of \<open>c\<close>,
  \<open>beforeLast c s\<close> what precedes that occurrence, \<open>removeSep c s\<close> is \<open>s\<close> without any
  \<open>c\<close>. The separator \<open>c\<close> occurs later in the string than \<open>d\<close> when its trailing run
  is the shorter one.
\<close>

definition afterLast :: "nat \<Rightarrow> jstring \<Rightarrow> jstring" where
  "afterLast c s = rev (takeWhile (\<lambda>x. x \<noteq> c) (rev s))"

definition beforeLast :: "nat \<Rightarrow> jstring \<Rightarrow> jstring" where
  "beforeLast c s = rev (drop 1 (dropWhile (\<lambda>x. x \<noteq> c) (rev s)))"

definition removeSep :: "nat \<Rightarrow> jstring \<Rightarrow> jstring" where
  "removeSep c s = filter (\<lambda>x. x \<noteq> c) s"

definition occursLater :: "nat \<Rightarrow> nat \<Rightarrow> jstring \<Rightarrow> bool" where
  "occursLater c d s = (length (afterLast c s) < length (afterLast d s))"

text \<open>
  The two readings of "a trailing run of 1-2": one or two digits, as the specification
  says, and one or two characters of any kind.
\<close>

definition digitRun :: "jstring \<Rightarrow> bool" where
  "digitRun r = (1 \<le> length r \<and> length r \<le> 2 \<and> list_all isDigit r)"

definition shortRun :: "jstring \<Rightarrow> bool" where
  "shortRun r = (1 \<le> length r \<and> length r \<le> 2)"

text \<open>
  One separator kind \<open>c\<close> only: a trailing run that \<open>runOk\<close> accepts makes the last \<open>c\<close>
  the decimal point and removes the earlier ones; otherwise every \<open>c\<close> is removed.
\<close>

definition oneSeparator :: "(jstring \<Rightarrow> bool) \<Rightarrow> nat \<Rightarrow> jstring \<Rightarrow> jstring" where
  "oneSeparator runOk c s =
     (if runOk (afterLast c s) then removeSep c (beforeLast c s) @ js ''.'' @ afterLast c s
      else removeSep c s)"

text \<open>
  Both kinds: the one occurring later is the decimal separator, the other one is
  removed, and a decimal comma is rewritten to a full stop.
\<close>

definition commaToDot :: "nat \<Rightarrow> nat" where
  "commaToDot x = (if x = 44 then 46 else x)"

definition separatorRules :: "(jstring \<Rightarrow> bool) \<Rightarrow> jstring \<Rightarrow> jstring" where
  "separatorRules runOk s =
     (if 46 \<in> set s \<and> 44 \<in> set s then
        (if occursLater 46 44 s then removeSep 44 s
         else map commaToDot (removeSep 46 s))
      else if 44 \<in> set s then oneSeparator runOk 44 s
      else if 46 \<in> set s then oneSeparator runOk 46 s
      else s)"

definition parseMetricNumber_rules :: "(jstring \<Rightarrow> bool) \<Rightarrow> jsval option \<Rightarrow> jsnum" where
  "parseMetricNumber_rules runOk value =
     (case value of
        None \<Rightarrow> NegInf
      | Some v \<Rightarrow>
          if toStr v = [] \<or> toStr v = [8212] \<or> toStr v = js ''-'' then NegInf
          else safeParseFloat (separatorRules runOk (stripNonNumeric (toStr v))))"

section \<open>parseSearchTermsCsv.js: header detection and column roles\<close>

text \<open>
  \<^verbatim>\<open>
  function stripBom(s) { return String(s || "").replace(/^\uFEFF/, ""); }
  function normalizeHeader(h) { return stripBom(String(h || "")).trim().toLowerCase(); }
  \<close>
  Code unit 65279 is the byte order mark.
\<close>

definition stripBom :: "jstring \<Rightarrow> jstring" where
  "stripBom s = (case s of [] \<Rightarrow> [] | c # r \<Rightarrow> if c = 65279 then r else s)"

definition normalizeHeader :: "(jstring \<Rightarrow> jstring) \<Rightarrow> jstring \<Rightarrow> jstring" where
  "normalizeHeader lower h = lower (trim (stripBom h))"

text \<open>
  The Cyrillic literals of this file, as code units. The six exact header labels:
  \<open>ru_poiskovyi_zapros\<close>, \<open>ru_poiskovye_zaprosy\<close>, \<open>ru_poiskovyi_termin\<close>,
  \<open>ru_poiskovye_terminy\<close>, \<open>ru_poiskovaya_fraza\<close>, \<open>ru_poiskovye_frazy\<close>; the roots
  \<open>ru_poisk\<close> U+043F U+043E U+0438 U+0441 U+043A, \<open>ru_poiskov\<close> (the same and U+043E
  U+0432), \<open>ru_zapros\<close> U+0437 U+0430 U+043F U+0440 U+043E U+0441, \<open>ru_termin\<close> U+0442
  U+0435 U+0440 U+043C U+0438 U+043D, \<open>ru_fraz\<close> U+0444 U+0440 U+0430 U+0437; the total
  labels \<open>ru_itogo\<close> U+0438 U+0442 U+043E U+0433 U+043E and a colon, \<open>ru_vsego\<close> U+0432
  U+0441 U+0435 U+0433 U+043E and a colon; the campaign labels \<open>ru_kampaniya\<close>,
  \<open>ru_kampanii\<close>, \<open>ru_imya_kampanii\<close> and the root \<open>ru_kampan\<close>; the ad group labels
  \<open>ru_gruppa_obyavlenii\<close>, \<open>ru_gruppy_obyavlenii\<close>, \<open>ru_gruppa\<close> and the roots
  \<open>ru_grupp\<close>, \<open>ru_obyav\<close>.
\<close>

definition ru_poiskovyi_zapros :: jstring where
  "ru_poiskovyi_zapros =
     [1087, 1086, 1080, 1089, 1082, 1086, 1074, 1099, 1081, 32, 1079, 1072, 1087, 1088, 1086, 1089]"

definition ru_poiskovye_zaprosy :: jstring where
  "ru_poiskovye_zaprosy =
     [1087, 1086, 1080, 1089, 1082, 1086, 1074, 1099, 1077, 32, 1079, 1072, 1087, 1088, 1086, 1089,
      1099]"

definition ru_poiskovyi_termin :: jstring where
  "ru_poiskovyi_termin =
     [1087, 1086, 1080, 1089, 1082, 1086, 1074, 1099, 1081, 32, 1090, 1077, 1088, 1084, 1080, 1085]"

definition ru_poiskovye_terminy :: jstring where
  "ru_poiskovye_terminy =
     [1087, 1086, 1080, 1089, 1082, 1086, 1074, 1099, 1077, 32, 1090, 1077, 1088, 1084, 1080, 1085,
      1099]"

definition ru_poiskovaya_fraza :: jstring where
  "ru_poiskovaya_fraza =
     [1087, 1086, 1080, 1089, 1082, 1086, 1074, 1072, 1103, 32, 1092, 1088, 1072, 1079, 1072]"

definition ru_poiskovye_frazy :: jstring where
  "ru_poiskovye_frazy =
     [1087, 1086, 1080, 1089, 1082, 1086, 1074, 1099, 1077, 32, 1092, 1088, 1072, 1079, 1099]"

definition ru_poisk :: jstring where
  "ru_poisk = [1087, 1086, 1080, 1089, 1082]"

definition ru_poiskov :: jstring where
  "ru_poiskov = [1087, 1086, 1080, 1089, 1082, 1086, 1074]"

definition ru_zapros :: jstring where
  "ru_zapros = [1079, 1072, 1087, 1088, 1086, 1089]"

definition ru_termin :: jstring where
  "ru_termin = [1090, 1077, 1088, 1084, 1080, 1085]"

definition ru_fraz :: jstring where
  "ru_fraz = [1092, 1088, 1072, 1079]"

definition ru_itogo :: jstring where
  "ru_itogo = [1080, 1090, 1086, 1075, 1086, 58]"

definition ru_vsego :: jstring where
  "ru_vsego = [1074, 1089, 1077, 1075, 1086, 58]"

definition ru_kampaniya :: jstring where
  "ru_kampaniya = [1082, 1072, 1084, 1087, 1072, 1085, 1080, 1103]"

definition ru_kampanii :: jstring where
  "ru_kampanii = [1082, 1072, 1084, 1087, 1072, 1085, 1080, 1080]"

definition ru_imya_kampanii :: jstring where
  "ru_imya_kampanii = [1080, 1084, 1103, 32, 1082, 1072, 1084, 1087, 1072, 1085, 1080, 1080]"

definition ru_kampan :: jstring where
  "ru_kampan = [1082, 1072, 1084, 1087, 1072, 1085]"

definition ru_gruppa_obyavlenii :: jstring where
  "ru_gruppa_obyavlenii =
     [1075, 1088, 1091, 1087, 1087, 1072, 32, 1086, 1073, 1098, 1103, 1074, 1083, 1077, 1085, 1080,
      1081]"

definition ru_gruppy_obyavlenii :: jstring where
  "ru_gruppy_obyavlenii =
     [1075, 1088, 1091, 1087, 1087, 1099, 32, 1086, 1073, 1098, 1103, 1074, 1083, 1077, 1085, 1080,
      1081]"

definition ru_gruppa :: jstring where
  "ru_gruppa = [1075, 1088, 1091, 1087, 1087, 1072]"

definition ru_grupp :: jstring where
  "ru_grupp = [1075, 1088, 1091, 1087, 1087]"

definition ru_obyav :: jstring where
  "ru_obyav = [1086, 1073, 1098, 1103, 1074]"

text \<open>
  The exact candidates and the two heuristics occur twice in the source, word for word:
  in isSearchTermHeaderKey and in detectSearchTermColumn.
  \<^verbatim>\<open>
  function isSearchTermHeaderKey(key) {
    const exactCandidates = new Set(["search term", "search terms", "customer search term",
      "search query", "queries", <the six Russian labels>]);
    if (exactCandidates.has(key)) return true;
    const en = key.includes("search") && (key.includes("term") || key.includes("query"));
    const ru = (key.includes("<ru_poisk>") || key.includes("<ru_poiskov>")) &&
      (key.includes("<ru_zapros>") || key.includes("<ru_termin>") || key.includes("<ru_fraz>"));
    return en || ru;
  }
  \<close>
\<close>

definition exactCandidates :: "jstring list" where
  "exactCandidates =
     [js ''search term'', js ''search terms'', js ''customer search term'', js ''search query'',
      js ''queries'', ru_poiskovyi_zapros, ru_poiskovye_zaprosy, ru_poiskovyi_termin,
      ru_poiskovye_terminy, ru_poiskovaya_fraza, ru_poiskovye_frazy]"

definition enHeuristic :: "jstring \<Rightarrow> bool" where
  "enHeuristic key =
     (includesStr key (js ''search'') \<and>
      (includesStr key (js ''term'') \<or> includesStr key (js ''query'')))"

definition ruHeuristic :: "jstring \<Rightarrow> bool" where
  "ruHeuristic key =
     ((includesStr key ru_poisk \<or> includesStr key ru_poiskov) \<and>
      (includesStr key ru_zapros \<or> includesStr key ru_termin \<or> includesStr key ru_fraz))"

definition isSearchTermHeaderKey :: "jstring \<Rightarrow> bool" where
  "isSearchTermHeaderKey key =
     (if key \<in> set exactCandidates then True else enHeuristic key \<or> ruHeuristic key)"

text \<open>
  \<^verbatim>\<open>
  function findHeaderRowIndex(rows) {
    for (let i = 0; i < (rows || []).length; i += 1) {
      const row = rows[i];
      if (!Array.isArray(row)) continue;
      if (row.length < 3) continue;
      const normCells = row.map((c) => normalizeHeader(c));
      const hasSearchTerm = normCells.some((k) => isSearchTermHeaderKey(k));
      if (hasSearchTerm) return i;
    }
    return -1;
  }
  \<close>
  The rows come from the CSV library, parsing without a header: each is an array of
  strings. The loop is a recursion over the rows that carries the index.
\<close>

fun findHeaderFrom :: "(jstring \<Rightarrow> jstring) \<Rightarrow> jstring list list \<Rightarrow> int \<Rightarrow> int" where
  "findHeaderFrom lower [] i = - 1"
| "findHeaderFrom lower (row # rows) i =
     (if length row < 3 then findHeaderFrom lower rows (i + 1)
      else if list_ex isSearchTermHeaderKey (map (normalizeHeader lower) row) then i
      else findHeaderFrom lower rows (i + 1))"

definition findHeaderRowIndex :: "(jstring \<Rightarrow> jstring) \<Rightarrow> jstring list list \<Rightarrow> int" where
  "findHeaderRowIndex lower rows = findHeaderFrom lower rows 0"

text \<open>
  \<^verbatim>\<open>
  function detectSearchTermColumn(cols) {
    if (!cols || !cols.length) return "Search term";
    const normalized = cols.map((c) => ({ original: c, key: normalizeHeader(c) }));
    const exactCandidates = new Set([...]);
    const exact = normalized.find((x) => exactCandidates.has(x.key));
    if (exact) return exact.original;
    const enHeuristic = normalized.find(
      (x) => x.key.includes("search") && (x.key.includes("term") || x.key.includes("query")));
    if (enHeuristic) return enHeuristic.original;
    const ruHeuristic = normalized.find((x) => { ... });
    if (ruHeuristic) return ruHeuristic.original;
    return cols[0];
  }
  \<close>
\<close>

fun detectSearchTermColumn :: "(jstring \<Rightarrow> jstring) \<Rightarrow> jstring list \<Rightarrow> jstring" where
  "detectSearchTermColumn lower [] = js ''Search term''"
| "detectSearchTermColumn lower (c0 # cs) =
     (case find (\<lambda>c. normalizeHeader lower c \<in> set exactCandidates) (c0 # cs) of
        Some c \<Rightarrow> c
      | None \<Rightarrow>
          (case find (\<lambda>c. enHeuristic (normalizeHeader lower c)) (c0 # cs) of
             Some c \<Rightarrow> c
           | None \<Rightarrow>
               (case find (\<lambda>c. ruHeuristic (normalizeHeader lower c)) (c0 # cs) of
                  Some c \<Rightarrow> c
                | None \<Rightarrow> c0)))"

text \<open>
  The rule of detectSearchTermColumn that a column label matches first: 3 for an exact
  candidate, 2 for the English heuristic, 1 for the Russian heuristic, 0 for none. The
  function looks for a column of tier 3, then of tier 2, then of tier 1.
\<close>

definition searchTermTier :: "(jstring \<Rightarrow> jstring) \<Rightarrow> jstring \<Rightarrow> nat" where
  "searchTermTier lower c =
     (if normalizeHeader lower c \<in> set exactCandidates then 3
      else if enHeuristic (normalizeHeader lower c) then 2
      else if ruHeuristic (normalizeHeader lower c) then 1
      else 0)"

text \<open>
  \<^verbatim>\<open>
  function detectCampaignColumn(cols) {
    if (!cols || !cols.length) return null;
    const normalized = cols.map((c) => ({ original: c, key: normalizeHeader(c) }));
    const exactCandidates = new Set(["campaign", "campaign name", "campaigns",
      "<ru_kampaniya>", "<ru_kampanii>", "<ru_imya_kampanii>"]);
    const exact = normalized.find((x) => exactCandidates.has(x.key));
    if (exact) return exact.original;
    const heuristic = normalized.find(
      (x) => x.key.includes("campaign") || x.key.includes("<ru_kampan>"));
    return heuristic?.original ?? null;
  }
  function detectAdGroupColumn(cols) {
    if (!cols || !cols.length) return null;
    const normalized = cols.map((c) => ({ original: c, key: normalizeHeader(c) }));
    const exactCandidates = new Set(["ad group", "adgroup", "ad group name", "ad groups",
      "<ru_gruppa_obyavlenii>", "<ru_gruppy_obyavlenii>", "<ru_gruppa>"]);
    const exact = normalized.find((x) => exactCandidates.has(x.key));
    if (exact) return exact.original;
    const heuristic = normalized.find((x) => {
      const k = x.key;
      return k.includes("ad group") || k.includes("adgroup") ||
        (k.includes("<ru_grupp>") && k.includes("<ru_obyav>"));
    });
    return heuristic?.original ?? null;
  }
  \<close>
\<close>

definition campaignCandidates :: "jstring list" where
  "campaignCandidates =
     [js ''campaign'', js ''campaign name'', js ''campaigns'', ru_kampaniya, ru_kampanii,
      ru_imya_kampanii]"

definition detectCampaignColumn :: "(jstring \<Rightarrow> jstring) \<Rightarrow> jstring list \<Rightarrow> jstring option" where
  "detectCampaignColumn lower cols =
     (case find (\<lambda>c. normalizeHeader lower c \<in> set campaignCandidates) cols of
        Some c \<Rightarrow> Some c
      | None \<Rightarrow>
          find (\<lambda>c. includesStr (normalizeHeader lower c) (js ''campaign'') \<or>
                    includesStr (normalizeHeader lower c) ru_kampan) cols)"

definition adGroupCandidates :: "jstring list" where
  "adGroupCandidates =
     [js ''ad group'', js ''adgroup'', js ''ad group name'', js ''ad groups'',
      ru_gruppa_obyavlenii, ru_gruppy_obyavlenii, ru_gruppa]"

definition detectAdGroupColumn :: "(jstring \<Rightarrow> jstring) \<Rightarrow> jstring list \<Rightarrow> jstring option" where
  "detectAdGroupColumn lower cols =
     (case find (\<lambda>c. normalizeHeader lower c \<in> set adGroupCandidates) cols of
        Some c \<Rightarrow> Some c
      | None \<Rightarrow>
          find (\<lambda>c. includesStr (normalizeHeader lower c) (js ''ad group'') \<or>
                    includesStr (normalizeHeader lower c) (js ''adgroup'') \<or>
                    (includesStr (normalizeHeader lower c) ru_grupp \<and>
                     includesStr (normalizeHeader lower c) ru_obyav)) cols)"

section \<open>parseSearchTermsCsv.js: total rows\<close>

text \<open>
  \<^verbatim>\<open>
  function isTotalLabel(term) {
    const k = normalizeHeader(term);
    return k.startsWith("total:") || k.startsWith("<ru_itogo>") || k.startsWith("<ru_vsego>");
  }
  function totalBucket(term) {
    const cleaned = String(term || "").trim();
    const parts = cleaned.split(":");
    if (parts.length < 2) return normalizeHeader(cleaned);
    return normalizeHeader(parts.slice(1).join(":").trim());
  }
  \<close>
  Code unit 58 is the colon. \<open>joinWith sep parts\<close> is \<open>parts.join(sep)\<close>.
\<close>

definition isTotalLabel :: "(jstring \<Rightarrow> jstring) \<Rightarrow> jstring \<Rightarrow> bool" where
  "isTotalLabel lower term =
     (let k = normalizeHeader lower term in
      startsWith k (js ''total:'') \<or> startsWith k ru_itogo \<or> startsWith k ru_vsego)"

fun joinWith :: "jstring \<Rightarrow> jstring list \<Rightarrow> jstring" where
  "joinWith sep [] = []"
| "joinWith sep [p] = p"
| "joinWith sep (p # q # ps) = p @ sep @ joinWith sep (q # ps)"

definition totalBucket :: "(jstring \<Rightarrow> jstring) \<Rightarrow> jstring \<Rightarrow> jstring" where
  "totalBucket lower term =
     (let cleaned = trim term; parts = splitOn 58 cleaned in
      if length parts < 2 then normalizeHeader lower cleaned
      else normalizeHeader lower (trim (joinWith (js '':'') (drop 1 parts))))"

text \<open>
  \<^verbatim>\<open>
  function sortTotals(totalRows, searchTermCol) {
    const order = ["performance max", "display", "demand gen", "account",
      "filtered search terms", "search"];
    const rank = (row) => {
      const label = String(row?.[searchTermCol] ?? row?.searchTerm ?? "");
      const bucket = totalBucket(label);
      const idx = order.indexOf(bucket);
      return idx === -1 ? 999 : idx;
    };
    return [...(totalRows || [])].sort((a, b) => {
      const ra = rank(a);
      const rb = rank(b);
      if (ra !== rb) return ra - rb;
      const ba = totalBucket(String(a?.[searchTermCol] ?? a?.searchTerm ?? ""));
      const bb = totalBucket(String(b?.[searchTermCol] ?? b?.searchTerm ?? ""));
      return ba.localeCompare(bb);
    });
  }
  \<close>
  \<open>String.prototype.localeCompare\<close> is the collation of the engine's locale; it is the
  parameter \<open>localeCompare\<close>.
\<close>

definition order :: "jstring list" where
  "order =
     [js ''performance max'', js ''display'', js ''demand gen'', js ''account'',
      js ''filtered search terms'', js ''search'']"

fun indexOf :: "'a list \<Rightarrow> 'a \<Rightarrow> int" where
  "indexOf [] x = - 1"
| "indexOf (y # ys) x =
     (if y = x then 0 else (let r = indexOf ys x in if r = - 1 then - 1 else r + 1))"

definition totalLabel :: "jstring \<Rightarrow> jsobj \<Rightarrow> jstring" where
  "totalLabel searchTermCol row =
     (case row searchTermCol of
        Some v \<Rightarrow> toStr v
      | None \<Rightarrow> (case row (js ''searchTerm'') of Some v \<Rightarrow> toStr v | None \<Rightarrow> []))"

definition rank :: "(jstring \<Rightarrow> jstring) \<Rightarrow> jstring \<Rightarrow> jsobj \<Rightarrow> int" where
  "rank lower searchTermCol row =
     (let label = totalLabel searchTermCol row;
          bucket = totalBucket lower label;
          idx = indexOf order bucket
      in if idx = - 1 then 999 else idx)"

definition totalsCompare ::
  "(jstring \<Rightarrow> jstring) \<Rightarrow> (jstring \<Rightarrow> jstring \<Rightarrow> int) \<Rightarrow> jstring \<Rightarrow> jsobj \<Rightarrow> jsobj \<Rightarrow> int" where
  "totalsCompare lower localeCompare searchTermCol a b =
     (let ra = rank lower searchTermCol a; rb = rank lower searchTermCol b in
      if ra \<noteq> rb then ra - rb
      else
        (let ba = totalBucket lower (totalLabel searchTermCol a);
             bb = totalBucket lower (totalLabel searchTermCol b)
         in localeCompare ba bb))"

definition sortTotals ::
  "(jstring \<Rightarrow> jstring) \<Rightarrow> (jstring \<Rightarrow> jstring \<Rightarrow> int) \<Rightarrow> jsobj list \<Rightarrow> jstring \<Rightarrow> jsobj list" where
  "sortTotals lower localeCompare totalRows searchTermCol =
     jsSort (totalsCompare lower localeCompare searchTermCol) totalRows"

section \<open>parseSearchTermsCsv.js: the report\<close>

text \<open>
  The CSV library Papa Parse is not part of the repository. Its two uses are parameters:
  \<open>papaRows text\<close> is \<^verbatim>\<open>Papa.parse(text, { header: false, skipEmptyLines: true, ... })\<close>,
  the rows as arrays of strings and the messages of the errors (a message may be
  absent); \<open>papaObjects text\<close> is \<^verbatim>\<open>Papa.parse(text, { header: true, ... })\<close>, the
  rows as objects keyed by the fields of the first row, those fields (already passed
  through the transformHeader callback, which strips the byte order mark and trims), and
  the error messages. Row objects are modelled by their own properties; the properties
  every object inherits from Object.prototype (a column labelled \<open>__proto__\<close>, say) are
  outside the model.
\<close>

record papaScan =
  scanData :: "jstring list list"
  scanErrors :: "jstring option list"

record papaParsed =
  parsedData :: "jsobj list"
  parsedFields :: "jstring list"
  parsedErrors :: "jstring option list"

record reportMeta =
  preambleLines :: "jstring list"
  dateRange :: "jstring option"

record report =
  columns :: "jstring list"
  rows :: "jsobj list"
  searchTermColumnName :: jstring
  campaignColumnName :: "jstring option"
  adGroupColumnName :: "jstring option"
  warnings :: "jstring list"
  meta :: reportMeta

text \<open>
  \<^verbatim>\<open>
  function joinRowCells(row) {
    if (!Array.isArray(row)) return String(row || "").trim();
    return row.map((x) => String(x ?? "").trim()).filter(Boolean).join(", ").trim();
  }
  function normalizeColumns(headerCells) {
    const cols = Array.isArray(headerCells) ? headerCells : [headerCells];
    return cols.map((h, i) => {
      const cleaned = stripBom(String(h ?? "")).trim();
      return cleaned || `Column ${i + 1}`;
    });
  }
  function mapRowToObject(columns, cells) {
    const arr = Array.isArray(cells) ? cells : [cells];
    const obj = {};
    for (let i = 0; i < columns.length; i += 1) obj[columns[i]] = arr[i] ?? "";
    return obj;
  }
  function emptyObjectForColumns(columns) {
    const obj = {};
    for (const c of columns || []) obj[c] = "";
    return obj;
  }
  \<close>
\<close>

definition joinRowCells :: "jstring list \<Rightarrow> jstring" where
  "joinRowCells row = trim (joinWith (js '', '') (filter (\<lambda>x. x \<noteq> []) (map trim row)))"

fun normalizeColumnsFrom :: "jstring list \<Rightarrow> nat \<Rightarrow> jstring list" where
  "normalizeColumnsFrom [] i = []"
| "normalizeColumnsFrom (h # hs) i =
     (let cleaned = trim (stripBom h) in
      if cleaned \<noteq> [] then cleaned else js ''Column '' @ natToString (i + 1))
     # normalizeColumnsFrom hs (i + 1)"

definition normalizeColumns :: "jstring list \<Rightarrow> jstring list" where
  "normalizeColumns headerCells = normalizeColumnsFrom headerCells 0"

fun mapRowLoop :: "jstring list \<Rightarrow> jstring list \<Rightarrow> jsobj \<Rightarrow> jsobj" where
  "mapRowLoop [] arr obj = obj"
| "mapRowLoop (c # cs) arr obj =
     mapRowLoop cs (tl arr) (obj(c \<mapsto> JStr (case arr of [] \<Rightarrow> [] | x # _ \<Rightarrow> x)))"

definition mapRowToObject :: "jstring list \<Rightarrow> jstring list \<Rightarrow> jsobj" where
  "mapRowToObject cols cells = mapRowLoop cols cells Map.empty"

definition emptyObjectForColumns :: "jstring list \<Rightarrow> jsobj" where
  "emptyObjectForColumns cols = foldl (\<lambda>obj c. obj(c \<mapsto> JStr [])) Map.empty cols"

text \<open>
  \<^verbatim>\<open>
  function extractDateRange(lines) {
    const candidates = (lines || []).map((x) => String(x || "").trim()).filter(Boolean);
    const dateRangeRegex =
      /(\d{1,2}\s+[A-Za-z<U+0410>-<U+042F><U+0430>-<U+044F>]+\s+\d{4})\s*[-<U+2013><U+2014>]\s*
       (\d{1,2}\s+[A-Za-z<U+0410>-<U+042F><U+0430>-<U+044F>]+\s+\d{4})/;
    const hit = candidates.find((l) => dateRangeRegex.test(l));
    if (hit) return hit;
    const loose = candidates.find((l) => /\d{4}/.test(l) && /[-<U+2013><U+2014>]/.test(l));
    return loose || null;
  }
  \<close>
  One "day month year" group of the regular expression, read from the start of a string:
  one or two digits and then white space (so the run of digits has length one or two),
  letters and then white space, and four digits. \<open>dateGroup\<close> returns what follows the
  group. Between the two groups stand white space, one dash and white space. Every
  repetition is followed by a character outside its class, so it takes its whole run.
\<close>

definition isDateLetter :: "nat \<Rightarrow> bool" where
  "isDateLetter c =
     ((65 \<le> c \<and> c \<le> 90) \<or> (97 \<le> c \<and> c \<le> 122) \<or> (1040 \<le> c \<and> c \<le> 1071) \<or>
      (1072 \<le> c \<and> c \<le> 1103))"

definition isDash :: "nat \<Rightarrow> bool" where
  "isDash c = (c = 45 \<or> c = 8211 \<or> c = 8212)"

definition dateGroup :: "jstring \<Rightarrow> jstring option" where
  "dateGroup s =
     (let day = takeWhile isDigit s;
          r1 = dropWhile isDigit s;
          r2 = dropWhile isWhiteSpace r1;
          month = takeWhile isDateLetter r2;
          r3 = dropWhile isDateLetter r2;
          r4 = dropWhile isWhiteSpace r3
      in if 1 \<le> length day \<and> length day \<le> 2 \<and> takeWhile isWhiteSpace r1 \<noteq> [] \<and>
            month \<noteq> [] \<and> takeWhile isWhiteSpace r3 \<noteq> [] \<and>
            length (take 4 r4) = 4 \<and> list_all isDigit (take 4 r4)
         then Some (drop 4 r4) else None)"

definition dateRangeAt :: "jstring \<Rightarrow> bool" where
  "dateRangeAt s =
     (case dateGroup s of
        None \<Rightarrow> False
      | Some r \<Rightarrow>
          (case dropWhile isWhiteSpace r of
             [] \<Rightarrow> False
           | c # r' \<Rightarrow> isDash c \<and> dateGroup (dropWhile isWhiteSpace r') \<noteq> None))"

fun dateRangeRegex :: "jstring \<Rightarrow> bool" where
  "dateRangeRegex [] = False"
| "dateRangeRegex (c # s) = (dateRangeAt (c # s) \<or> dateRangeRegex s)"

fun hasFourDigits :: "jstring \<Rightarrow> bool" where
  "hasFourDigits [] = False"
| "hasFourDigits (c # s) =
     ((length (take 4 (c # s)) = 4 \<and> list_all isDigit (take 4 (c # s))) \<or> hasFourDigits s)"

definition extractDateRange :: "jstring list \<Rightarrow> jstring option" where
  "extractDateRange lines =
     (let candidates = filter (\<lambda>x. x \<noteq> []) (map trim lines) in
      case find dateRangeRegex candidates of
        Some hit \<Rightarrow> Some hit
      | None \<Rightarrow> find (\<lambda>l. hasFourDigits l \<and> list_ex isDash l) candidates)"

text \<open>
  \<open>String(r?.[k] ?? "")\<close> for a row object, and the warning of a parse:
  \<^verbatim>\<open>
  if (parsed?.errors?.length) {
    const top = parsed.errors[0];
    warnings.push(`CSV parse warning: ${top?.message || "Unknown parsing issue"}`);
  }
  \<close>
\<close>

definition getStr :: "jsobj \<Rightarrow> jstring \<Rightarrow> jstring" where
  "getStr r k = (case r k of None \<Rightarrow> [] | Some v \<Rightarrow> toStr v)"

definition parseWarning :: "jstring option list \<Rightarrow> jstring list" where
  "parseWarning errors =
     (case errors of
        [] \<Rightarrow> []
      | err # _ \<Rightarrow>
          [js ''CSV parse warning: '' @
           (case err of
              None \<Rightarrow> js ''Unknown parsing issue''
            | Some m \<Rightarrow> if m \<noteq> [] then m else js ''Unknown parsing issue'')])"

text \<open>
  The derived fields of a row. \<open>campaignCol ? String(r?.[campaignCol] ?? "") : ""\<close> reads
  the column when the column name is neither null nor empty.
\<close>

definition optionalField :: "jstring option \<Rightarrow> jsobj \<Rightarrow> jstring" where
  "optionalField col r =
     (case col of None \<Rightarrow> [] | Some c \<Rightarrow> if c \<noteq> [] then getStr r c else [])"

text \<open>
  \<^verbatim>\<open>
  function parseSimpleHeaderCsv(textRaw, inheritedWarnings = []) {
    const parsed = Papa.parse(textRaw, { header: true, ... });
    const rawRows = parsed.data || [];
    const rawCols = parsed.meta?.fields || [];
    const warnings = [...(inheritedWarnings || [])];
    if (parsed?.errors?.length) { ... warnings.push(...) }
    const searchTermCol = detectSearchTermColumn(rawCols);
    const campaignCol = detectCampaignColumn(rawCols);
    const adGroupCol = detectAdGroupColumn(rawCols);
    const rows = rawRows.map((r, i) => {
      const normalizedRow = r || {};
      return {
        __rowId: i + 1,
        __rowType: isTotalLabel(String(normalizedRow?.[searchTermCol] ?? "")) ? "total" : "data",
        ...normalizedRow,
        searchTerm: String(normalizedRow?.[searchTermCol] ?? ""),
        campaign: campaignCol ? String(normalizedRow?.[campaignCol] ?? "") : "",
        adGroup: adGroupCol ? String(normalizedRow?.[adGroupCol] ?? "") : "",
      };
    });
    return {
      columns: rawCols.length ? rawCols : [searchTermCol || "Search term"],
      rows,
      searchTermColumnName: searchTermCol,
      campaignColumnName: campaignCol,
      adGroupColumnName: adGroupCol,
      warnings,
      meta: { preambleLines: [], dateRange: null },
    };
  }
  \<close>
\<close>

definition simpleRow ::
  "(jstring \<Rightarrow> jstring) \<Rightarrow> jstring \<Rightarrow> jstring option \<Rightarrow> jstring option \<Rightarrow> nat \<Rightarrow> jsobj \<Rightarrow> jsobj" where
  "simpleRow lower searchTermCol campaignCol adGroupCol i r =
     ([js ''__rowId'' \<mapsto> JNum (i + 1),
       js ''__rowType'' \<mapsto>
         JStr (if isTotalLabel lower (getStr r searchTermCol) then js ''total'' else js ''data'')]
      ++ r)
     (js ''searchTerm'' \<mapsto> JStr (getStr r searchTermCol),
      js ''campaign'' \<mapsto> JStr (optionalField campaignCol r),
      js ''adGroup'' \<mapsto> JStr (optionalField adGroupCol r))"

definition parseSimpleHeaderCsv ::
  "(jstring \<Rightarrow> jstring) \<Rightarrow> (jstring \<Rightarrow> papaParsed) \<Rightarrow> jstring \<Rightarrow> jstring list \<Rightarrow> report" where
  "parseSimpleHeaderCsv lower papaObjects textRaw inheritedWarnings =
     (let parsed = papaObjects textRaw;
          rawRows = parsedData parsed;
          rawCols = parsedFields parsed;
          searchTermCol = detectSearchTermColumn lower rawCols;
          campaignCol = detectCampaignColumn lower rawCols;
          adGroupCol = detectAdGroupColumn lower rawCols
      in \<lparr> columns =
             (if rawCols \<noteq> [] then rawCols
              else [if searchTermCol \<noteq> [] then searchTermCol else js ''Search term'']),
           rows =
             map (\<lambda>(i, r). simpleRow lower searchTermCol campaignCol adGroupCol i r)
               (zip [0..<length rawRows] rawRows),
           searchTermColumnName = searchTermCol,
           campaignColumnName = campaignCol,
           adGroupColumnName = adGroupCol,
           warnings = inheritedWarnings @ parseWarning (parsedErrors parsed),
           meta = \<lparr> preambleLines = [], dateRange = None \<rparr> \<rparr>)"

text \<open>
  \<^verbatim>\<open>
  export async function parseSearchTermsCsv(file) {
    const textRaw0 = await file.text();
    const textRaw = stripBom(String(textRaw0 || ""));
    const scan = Papa.parse(textRaw, { header: false, skipEmptyLines: true, ... });
    const scanRows = (scan.data || []).filter(Boolean);
    const warnings = [];
    if (scan?.errors?.length) { ... warnings.push(...) }
    const headerRowIndex = findHeaderRowIndex(scanRows);
    if (headerRowIndex === -1) {
      return parseSimpleHeaderCsv(textRaw, warnings);
    }
    const preambleLines = scanRows.slice(0, headerRowIndex).map(joinRowCells).filter(Boolean);
    const columns = normalizeColumns(scanRows[headerRowIndex]);
    const tableRows = scanRows.slice(headerRowIndex + 1);
    const rawRows = tableRows.map((cells) => mapRowToObject(columns, cells));
    const searchTermCol = detectSearchTermColumn(columns);
    const campaignCol = detectCampaignColumn(columns);
    const adGroupCol = detectAdGroupColumn(columns);
    const dateRange = extractDateRange(preambleLines);
    const metaRows = [];
    if (dateRange) {
      const metaObj = emptyObjectForColumns(columns);
      metaObj[searchTermCol || columns[0]] = dateRange;
      metaRows.push({
        __rowId: "meta-date-range", __rowType: "meta", ...metaObj,
        searchTerm: String(dateRange || ""), campaign: "", adGroup: "",
      });
    }
    const dataRows = [];
    const totalRows = [];
    rawRows.forEach((r, idx) => {
      const term = String(r?.[searchTermCol] ?? "");
      const rowOut = {
        __rowId: idx + 1, ...r, searchTerm: term,
        campaign: campaignCol ? String(r?.[campaignCol] ?? "") : "",
        adGroup: adGroupCol ? String(r?.[adGroupCol] ?? "") : "",
      };
      if (isTotalLabel(term)) totalRows.push({ ...rowOut, __rowType: "total" });
      else dataRows.push({ ...rowOut, __rowType: "data" });
    });
    const orderedTotals = sortTotals(totalRows, searchTermCol);
    return {
      columns, rows: [...metaRows, ...dataRows, ...orderedTotals],
      searchTermColumnName: searchTermCol, campaignColumnName: campaignCol,
      adGroupColumnName: adGroupCol, warnings,
      meta: { preambleLines, dateRange: dateRange || null },
    };
  }
  \<close>
  The text of the file is the argument. A scan row is an array, so the filter keeps
  every row; the header row exists when the index is not -1.
\<close>

definition metaRow :: "jstring list \<Rightarrow> jstring \<Rightarrow> jstring \<Rightarrow> jsobj" where
  "metaRow cols searchTermCol d =
     (let metaObj =
            (emptyObjectForColumns cols)
              ((if searchTermCol \<noteq> [] then searchTermCol
                else (case cols of [] \<Rightarrow> js ''undefined'' | c # _ \<Rightarrow> c)) \<mapsto> JStr d)
      in ([js ''__rowId'' \<mapsto> JStr (js ''meta-date-range''),
           js ''__rowType'' \<mapsto> JStr (js ''meta'')] ++ metaObj)
         (js ''searchTerm'' \<mapsto> JStr d,
          js ''campaign'' \<mapsto> JStr [],
          js ''adGroup'' \<mapsto> JStr []))"

definition rowOut ::
  "jstring \<Rightarrow> jstring option \<Rightarrow> jstring option \<Rightarrow> nat \<Rightarrow> jsobj \<Rightarrow> jsobj" where
  "rowOut searchTermCol campaignCol adGroupCol idx r =
     ([js ''__rowId'' \<mapsto> JNum (idx + 1)] ++ r)
     (js ''searchTerm'' \<mapsto> JStr (getStr r searchTermCol),
      js ''campaign'' \<mapsto> JStr (optionalField campaignCol r),
      js ''adGroup'' \<mapsto> JStr (optionalField adGroupCol r))"

definition parseSearchTermsCsv ::
  "(jstring \<Rightarrow> jstring) \<Rightarrow> (jstring \<Rightarrow> jstring \<Rightarrow> int) \<Rightarrow> (jstring \<Rightarrow> papaScan) \<Rightarrow>
   (jstring \<Rightarrow> papaParsed) \<Rightarrow> jstring \<Rightarrow> report" where
  "parseSearchTermsCsv lower localeCompare papaRows papaObjects textRaw0 =
     (let textRaw = stripBom textRaw0;
          scan = papaRows textRaw;
          scanRows = scanData scan;
          warns = parseWarning (scanErrors scan);
          headerRowIndex = findHeaderRowIndex lower scanRows
      in if headerRowIndex = - 1 then parseSimpleHeaderCsv lower papaObjects textRaw warns
         else
           (let h = nat headerRowIndex;
                preamble = filter (\<lambda>x. x \<noteq> []) (map joinRowCells (take h scanRows));
                cols = (if h < length scanRows then normalizeColumns (scanRows ! h)
                        else [js ''Column 1'']);
                tableRows = drop (h + 1) scanRows;
                rawRows = map (mapRowToObject cols) tableRows;
                searchTermCol = detectSearchTermColumn lower cols;
                campaignCol = detectCampaignColumn lower cols;
                adGroupCol = detectAdGroupColumn lower cols;
                found = extractDateRange preamble;
                metaRows =
                  (case found of
                     None \<Rightarrow> []
                   | Some d \<Rightarrow> if d \<noteq> [] then [metaRow cols searchTermCol d] else []);
                outs =
                  map (\<lambda>(idx, r).
                         (getStr r searchTermCol, rowOut searchTermCol campaignCol adGroupCol idx r))
                    (zip [0..<length rawRows] rawRows);
                totalRows =
                  map (\<lambda>(term, out). out(js ''__rowType'' \<mapsto> JStr (js ''total'')))
                    (filter (\<lambda>(term, out). isTotalLabel lower term) outs);
                dataRows =
                  map (\<lambda>(term, out). out(js ''__rowType'' \<mapsto> JStr (js ''data'')))
                    (filter (\<lambda>(term, out). \<not> isTotalLabel lower term) outs);
                orderedTotals = sortTotals lower localeCompare totalRows searchTermCol
            in \<lparr> columns = cols,
                 rows = metaRows @ dataRows @ orderedTotals,
                 searchTermColumnName = searchTermCol,
                 campaignColumnName = campaignCol,
                 adGroupColumnName = adGroupCol,
                 warnings = warns,
                 meta = \<lparr> preambleLines = preamble,
                          dateRange = (case found of None \<Rightarrow> None
                                       | Some d \<Rightarrow> if d \<noteq> [] then Some d else None) \<rparr> \<rparr>))"

section \<open>App: the state and its reducer\<close>

text \<open>
  \<^verbatim>\<open>
  const initialState = {
    report: { columns: [], rows: [], filename: null, searchTermColumnName: null,
      campaignColumnName: null, adGroupColumnName: null, warnings: [], error: null },
    negatives: {
      items: [], // Account mode: { id, text, matchType }
      byCampaign: {}, // Campaign mode: { [campaignName]: Array<{ id, text, matchType }> }
    },
    ui: { markedRowIds: new Set(), mode: "account", selectedCampaign: "" },
  };
  \<close>
  The fields of \<open>state.report\<close> carry the prefix \<open>st\<close> where the report of the parser
  has a field of the same name; the fields \<open>id\<close>, \<open>text\<close> and \<open>matchType\<close> of a negative
  keyword are \<open>negId\<close>, \<open>negText\<close> and \<open>negMatchType\<close>.
\<close>

record negative =
  negId :: jstring
  negText :: jstring
  negMatchType :: jstring

record reportState =
  stColumns :: "jstring list"
  stRows :: "jsobj list"
  filename :: "jstring option"
  stSearchTermColumnName :: "jstring option"
  stCampaignColumnName :: "jstring option"
  stAdGroupColumnName :: "jstring option"
  stWarnings :: "jstring list"
  stError :: "jstring option"

record negatives =
  items :: "negative list"
  byCampaign :: "jstring \<rightharpoonup> negative list"

record ui =
  markedRowIds :: "jsval set"
  mode :: jstring
  selectedCampaign :: jstring

record state =
  report :: reportState
  negatives :: negatives
  ui :: ui

definition initialState :: state where
  "initialState =
     \<lparr> report =
         \<lparr> stColumns = [], stRows = [], filename = None, stSearchTermColumnName = None,
           stCampaignColumnName = None, stAdGroupColumnName = None, stWarnings = [],
           stError = None \<rparr>,
       negatives = \<lparr> items = [], byCampaign = Map.empty \<rparr>,
       ui = \<lparr> markedRowIds = {}, mode = js ''account'', selectedCampaign = [] \<rparr> \<rparr>"

text \<open>
  \<^verbatim>\<open>
  const UNKNOWN_CAMPAIGN = "Unknown campaign";
  function normKey(s) { return String(s || "").trim().toLowerCase(); }
  function normCampaignName(s) {
    const c = String(s || "").trim();
    return c || UNKNOWN_CAMPAIGN;
  }
  \<close>
  \<open>strOrEmpty\<close> is \<open>String(v || "")\<close> for a property of a row, where a falsy value (undefined,
  the empty string, the number 0) gives the empty string.
\<close>

definition UNKNOWN_CAMPAIGN :: jstring where
  "UNKNOWN_CAMPAIGN = js ''Unknown campaign''"

definition normKey :: "(jstring \<Rightarrow> jstring) \<Rightarrow> jstring \<Rightarrow> jstring" where
  "normKey lower s = lower (trim s)"

definition normCampaignName :: "jstring \<Rightarrow> jstring" where
  "normCampaignName s = (let c = trim s in if c \<noteq> [] then c else UNKNOWN_CAMPAIGN)"

definition isTruthy :: "jsval \<Rightarrow> bool" where
  "isTruthy v = (case v of JStr s \<Rightarrow> s \<noteq> [] | JNum n \<Rightarrow> n \<noteq> 0)"

definition strOrEmpty :: "jsval option \<Rightarrow> jstring" where
  "strOrEmpty v = (case v of None \<Rightarrow> [] | Some x \<Rightarrow> if isTruthy x then toStr x else [])"

text \<open>
  \<^verbatim>\<open>
  function extractCampaigns(rows) {
    const set = new Set();
    for (const r of rows || []) {
      if (r?.__rowType && r.__rowType !== "data") continue;
      const raw = String(r?.campaign ?? "").trim();
      if (!raw) continue;
      set.add(raw);
    }
    const arr = Array.from(set);
    arr.sort((a, b) => a.localeCompare(b));
    return arr.length ? arr : [UNKNOWN_CAMPAIGN];
  }
  \<close>
  A Set keeps its elements in the order of their first insertion.
\<close>

definition addUnique :: "'a \<Rightarrow> 'a list \<Rightarrow> 'a list" where
  "addUnique x xs = (if x \<in> set xs then xs else xs @ [x])"

definition extractCampaigns :: "(jstring \<Rightarrow> jstring \<Rightarrow> int) \<Rightarrow> jsobj list \<Rightarrow> jstring list" where
  "extractCampaigns localeCompare rws =
     (let collected =
            foldl
              (\<lambda>acc r.
                 if (case r (js ''__rowType'') of
                       None \<Rightarrow> False
                     | Some v \<Rightarrow> isTruthy v \<and> v \<noteq> JStr (js ''data''))
                 then acc
                 else (let raw = trim (getStr r (js ''campaign'')) in
                       if raw = [] then acc else addUnique raw acc))
              [] rws;
          arr = jsSort localeCompare collected
      in if arr \<noteq> [] then arr else [UNKNOWN_CAMPAIGN])"

text \<open>\<open>campaigns[0] || UNKNOWN_CAMPAIGN\<close>.\<close>

definition firstCampaign :: "jstring list \<Rightarrow> jstring" where
  "firstCampaign campaigns =
     (case campaigns of [] \<Rightarrow> UNKNOWN_CAMPAIGN | c # _ \<Rightarrow> if c \<noteq> [] then c else UNKNOWN_CAMPAIGN)"

text \<open>
  The actions. The payload of REPORT_LOADED is the report of the parser and the file
  name; of REPORT_ERROR the file name and the error text, either of which may be absent.
  ADD_NEGATIVE carries, next to its payload, the identifier that \<open>crypto.randomUUID()\<close>
  returns for it. A payload field that may be undefined or null is an option.
\<close>

record addPayload =
  addText :: "jstring option"
  addMatchType :: "jstring option"
  addScope :: "jstring option"
  addCampaign :: "jstring option"
  markRow :: bool
  addRowId :: "jsval option"

record removeByTextPayload =
  rmText :: "jstring option"
  rmScope :: "jstring option"
  rmCampaign :: "jstring option"
  unmarkRow :: bool
  rmRowId :: "jsval option"

record removePayload =
  delId :: jstring
  delScope :: "jstring option"
  delCampaign :: "jstring option"

record updatePayload =
  updId :: jstring
  updMatchType :: jstring
  updScope :: "jstring option"
  updCampaign :: "jstring option"

datatype action =
    REPORT_LOADED report jstring
  | REPORT_ERROR "jstring option" "jstring option"
  | SET_MODE jstring
  | SET_SELECTED_CAMPAIGN jstring
  | ADD_NEGATIVE addPayload jstring
  | REMOVE_NEGATIVE_BY_TEXT removeByTextPayload
  | REMOVE_NEGATIVE removePayload
  | UPDATE_NEGATIVE_MATCH_TYPE updatePayload
  | OTHER_ACTION

text \<open>
  \<open>state.negatives.byCampaign[campaign] || []\<close> and the array method called on the
  result. \<open>byCampaign\<close> is a plain object: a campaign without a list of its own reads as
  undefined, and the list is empty, unless the campaign has the name of a property of
  Object.prototype; then the read gives that property, a function or the prototype
  object, which is truthy and has none of the array methods \<open>some\<close>, \<open>filter\<close>, \<open>find\<close>,
  \<open>map\<close>, so the call throws a TypeError.
\<close>

datatype exn = TypeError

definition objectPrototypeKeys :: "jstring list" where
  "objectPrototypeKeys =
     [js ''constructor'', js ''__defineGetter__'', js ''__defineSetter__'',
      js ''hasOwnProperty'', js ''__lookupGetter__'', js ''__lookupSetter__'',
      js ''isPrototypeOf'', js ''propertyIsEnumerable'', js ''toString'', js ''valueOf'',
      js ''__proto__'', js ''toLocaleString'']"

definition campaignList :: "(jstring \<rightharpoonup> negative list) \<Rightarrow> jstring \<Rightarrow> exn + negative list" where
  "campaignList byC campaign =
     (case byC campaign of
        Some l \<Rightarrow> Inr l
      | None \<Rightarrow> if campaign \<in> set objectPrototypeKeys then Inl TypeError else Inr [])"

text \<open>\<open>x || d\<close> for an optional string.\<close>

definition orElse :: "jstring option \<Rightarrow> jstring \<Rightarrow> jstring" where
  "orElse v d = (case v of None \<Rightarrow> d | Some s \<Rightarrow> if s \<noteq> [] then s else d)"

text \<open>
  \<^verbatim>\<open>
  case "ADD_NEGATIVE": {
    const text = action.payload.text?.trim();
    if (!text) return state;
    const matchType = action.payload.matchType || "phrase";
    const scope = action.payload.scope || state.ui.mode;
    const campaign = normCampaignName(action.payload.campaign);
    const existsInList = (list) => list.some((x) => normKey(x.text) === normKey(text));
    const nextMarked = new Set(state.ui.markedRowIds);
    if (action.payload.markRow && action.payload.rowId != null) {
      nextMarked.add(action.payload.rowId);
    }
    if (scope === "campaign") {
      const current = state.negatives.byCampaign[campaign] || [];
      if (existsInList(current)) {
        return { ...state, ui: { ...state.ui, markedRowIds: nextMarked } };
      }
      const next = [...current, { id: crypto.randomUUID(), text, matchType }];
      return {
        ...state,
        negatives: { ...state.negatives,
          byCampaign: { ...state.negatives.byCampaign, [campaign]: next } },
        ui: { ...state.ui, markedRowIds: nextMarked },
      };
    }
    if (existsInList(state.negatives.items)) {
      return { ...state, ui: { ...state.ui, markedRowIds: nextMarked } };
    }
    const nextItems = [...state.negatives.items, { id: crypto.randomUUID(), text, matchType }];
    return { ...state, negatives: { ...state.negatives, items: nextItems },
      ui: { ...state.ui, markedRowIds: nextMarked } };
  }
  \<close>
\<close>

definition existsInList :: "(jstring \<Rightarrow> jstring) \<Rightarrow> jstring \<Rightarrow> negative list \<Rightarrow> bool" where
  "existsInList lower t list = list_ex (\<lambda>x. normKey lower (negText x) = normKey lower t) list"

definition addNegative :: "(jstring \<Rightarrow> jstring) \<Rightarrow> state \<Rightarrow> addPayload \<Rightarrow> jstring \<Rightarrow> exn + state" where
  "addNegative lower st p uuid =
     (let t = trim (orEmpty (addText p)) in
      if t = [] then Inr st
      else
        (let mt = orElse (addMatchType p) (js ''phrase'');
             scope = orElse (addScope p) (mode (ui st));
             campaign = normCampaignName (orEmpty (addCampaign p));
             nextMarked =
               (case addRowId p of
                  None \<Rightarrow> markedRowIds (ui st)
                | Some rid \<Rightarrow>
                    if markRow p then insert rid (markedRowIds (ui st))
                    else markedRowIds (ui st))
         in if scope = js ''campaign'' then
              (case campaignList (byCampaign (negatives st)) campaign of
                 Inl e \<Rightarrow> Inl e
               | Inr current \<Rightarrow>
                   if existsInList lower t current
                   then Inr (st\<lparr> ui := (ui st)\<lparr> markedRowIds := nextMarked \<rparr> \<rparr>)
                   else
                     (let next = current @ [\<lparr> negId = uuid, negText = t, negMatchType = mt \<rparr>] in
                      Inr (st\<lparr> negatives :=
                                 (negatives st)
                                   \<lparr> byCampaign := (byCampaign (negatives st))(campaign \<mapsto> next) \<rparr>,
                               ui := (ui st)\<lparr> markedRowIds := nextMarked \<rparr> \<rparr>)))
            else if existsInList lower t (items (negatives st))
            then Inr (st\<lparr> ui := (ui st)\<lparr> markedRowIds := nextMarked \<rparr> \<rparr>)
            else
              (let nextItems =
                     items (negatives st) @ [\<lparr> negId = uuid, negText = t, negMatchType = mt \<rparr>]
               in Inr (st\<lparr> negatives := (negatives st)\<lparr> items := nextItems \<rparr>,
                          ui := (ui st)\<lparr> markedRowIds := nextMarked \<rparr> \<rparr>))))"

text \<open>
  \<^verbatim>\<open>
  case "REMOVE_NEGATIVE_BY_TEXT": {
    const text = (action.payload.text || "").trim().toLowerCase();
    if (!text) return state;
    const scope = action.payload.scope || state.ui.mode;
    const campaign = normCampaignName(action.payload.campaign);
    const removeFromList = (list) => list.filter((x) => normKey(x.text) !== normKey(text));
    const nextMarked = new Set(state.ui.markedRowIds);
    if (action.payload.unmarkRow && action.payload.rowId != null) {
      nextMarked.delete(action.payload.rowId);
    }
    if (scope === "campaign") {
      const current = state.negatives.byCampaign[campaign] || [];
      const next = removeFromList(current);
      return { ...state,
        negatives: { ...state.negatives,
          byCampaign: { ...state.negatives.byCampaign, [campaign]: next } },
        ui: { ...state.ui, markedRowIds: nextMarked } };
    }
    const nextItems = removeFromList(state.negatives.items);
    return { ...state, negatives: { ...state.negatives, items: nextItems },
      ui: { ...state.ui, markedRowIds: nextMarked } };
  }
  \<close>
\<close>

definition removeNegativeByText ::
  "(jstring \<Rightarrow> jstring) \<Rightarrow> state \<Rightarrow> removeByTextPayload \<Rightarrow> exn + state" where
  "removeNegativeByText lower st p =
     (let t = lower (trim (orEmpty (rmText p))) in
      if t = [] then Inr st
      else
        (let scope = orElse (rmScope p) (mode (ui st));
             campaign = normCampaignName (orEmpty (rmCampaign p));
             removeFromList = filter (\<lambda>x. normKey lower (negText x) \<noteq> normKey lower t);
             nextMarked =
               (case rmRowId p of
                  None \<Rightarrow> markedRowIds (ui st)
                | Some rid \<Rightarrow>
                    if unmarkRow p then markedRowIds (ui st) - {rid}
                    else markedRowIds (ui st))
         in if scope = js ''campaign'' then
              (case campaignList (byCampaign (negatives st)) campaign of
                 Inl e \<Rightarrow> Inl e
               | Inr current \<Rightarrow>
                   Inr (st\<lparr> negatives :=
                              (negatives st)
                                \<lparr> byCampaign :=
                                    (byCampaign (negatives st))(campaign \<mapsto> removeFromList current) \<rparr>,
                            ui := (ui st)\<lparr> markedRowIds := nextMarked \<rparr> \<rparr>))
            else
              Inr (st\<lparr> negatives :=
                         (negatives st)\<lparr> items := removeFromList (items (negatives st)) \<rparr>,
                       ui := (ui st)\<lparr> markedRowIds := nextMarked \<rparr> \<rparr>)))"

text \<open>
  \<^verbatim>\<open>
  case "REMOVE_NEGATIVE": {
    const { id } = action.payload;
    const scope = action.payload.scope || state.ui.mode;
    const campaign = normCampaignName(action.payload.campaign);
    let removed = null;
    let nextItems = state.negatives.items;
    let nextByCampaign = state.negatives.byCampaign;
    if (scope === "campaign") {
      const current = state.negatives.byCampaign[campaign] || [];
      removed = current.find((x) => x.id === id) || null;
      const next = current.filter((x) => x.id !== id);
      nextByCampaign = { ...state.negatives.byCampaign, [campaign]: next };
    } else {
      removed = state.negatives.items.find((x) => x.id === id) || null;
      nextItems = state.negatives.items.filter((x) => x.id !== id);
    }
    const nextMarked = new Set(state.ui.markedRowIds);
    if (removed) {
      state.report.rows.forEach((r) => {
        const sameText = normKey(r.searchTerm) === normKey(removed.text);
        const sameCampaign = scope !== "campaign" || normCampaignName(r.campaign) === campaign;
        if (sameText && sameCampaign) nextMarked.delete(r.__rowId);
      });
    }
    return { ...state,
      negatives: { ...state.negatives, items: nextItems, byCampaign: nextByCampaign },
      ui: { ...state.ui, markedRowIds: nextMarked } };
  }
  \<close>
\<close>

definition unmarkRows ::
  "(jstring \<Rightarrow> jstring) \<Rightarrow> jstring \<Rightarrow> jstring \<Rightarrow> negative option \<Rightarrow> jsobj list \<Rightarrow> jsval set \<Rightarrow>
   jsval set" where
  "unmarkRows lower scope campaign removed rws marked =
     (case removed of
        None \<Rightarrow> marked
      | Some item \<Rightarrow>
          foldl
            (\<lambda>acc r.
               if normKey lower (strOrEmpty (r (js ''searchTerm''))) = normKey lower (negText item) \<and>
                  (scope \<noteq> js ''campaign'' \<or>
                   normCampaignName (strOrEmpty (r (js ''campaign''))) = campaign)
               then (case r (js ''__rowId'') of None \<Rightarrow> acc | Some rid \<Rightarrow> acc - {rid})
               else acc)
            marked rws)"

definition removeNegative :: "(jstring \<Rightarrow> jstring) \<Rightarrow> state \<Rightarrow> removePayload \<Rightarrow> exn + state" where
  "removeNegative lower st p =
     (let scope = orElse (delScope p) (mode (ui st));
          campaign = normCampaignName (orEmpty (delCampaign p))
      in if scope = js ''campaign'' then
           (case campaignList (byCampaign (negatives st)) campaign of
              Inl e \<Rightarrow> Inl e
            | Inr current \<Rightarrow>
                (let removed = find (\<lambda>x. negId x = delId p) current;
                     next = filter (\<lambda>x. negId x \<noteq> delId p) current
                 in Inr (st\<lparr> negatives :=
                               (negatives st)
                                 \<lparr> items := items (negatives st),
                                   byCampaign := (byCampaign (negatives st))(campaign \<mapsto> next) \<rparr>,
                             ui := (ui st)
                                 \<lparr> markedRowIds :=
                                     unmarkRows lower scope campaign removed (stRows (report st))
                                       (markedRowIds (ui st)) \<rparr> \<rparr>)))
         else
           (let removed = find (\<lambda>x. negId x = delId p) (items (negatives st));
                nextItems = filter (\<lambda>x. negId x \<noteq> delId p) (items (negatives st))
            in Inr (st\<lparr> negatives :=
                          (negatives st)
                            \<lparr> items := nextItems, byCampaign := byCampaign (negatives st) \<rparr>,
                        ui := (ui st)
                            \<lparr> markedRowIds :=
                                unmarkRows lower scope campaign removed (stRows (report st))
                                  (markedRowIds (ui st)) \<rparr> \<rparr>)))"

text \<open>
  \<^verbatim>\<open>
  case "UPDATE_NEGATIVE_MATCH_TYPE": {
    const { id, matchType } = action.payload;
    const scope = action.payload.scope || state.ui.mode;
    const campaign = normCampaignName(action.payload.campaign);
    if (scope === "campaign") {
      const current = state.negatives.byCampaign[campaign] || [];
      const next = current.map((x) => (x.id === id ? { ...x, matchType } : x));
      return { ...state, negatives: { ...state.negatives,
        byCampaign: { ...state.negatives.byCampaign, [campaign]: next } } };
    }
    const nextItems = state.negatives.items.map((x) => x.id === id ? { ...x, matchType } : x);
    return { ...state, negatives: { ...state.negatives, items: nextItems } };
  }
  \<close>
\<close>

definition updateNegativeMatchType :: "state \<Rightarrow> updatePayload \<Rightarrow> exn + state" where
  "updateNegativeMatchType st p =
     (let scope = orElse (updScope p) (mode (ui st));
          campaign = normCampaignName (orEmpty (updCampaign p));
          change = map (\<lambda>x. if negId x = updId p then x\<lparr> negMatchType := updMatchType p \<rparr> else x)
      in if scope = js ''campaign'' then
           (case campaignList (byCampaign (negatives st)) campaign of
              Inl e \<Rightarrow> Inl e
            | Inr current \<Rightarrow>
                Inr (st\<lparr> negatives :=
                           (negatives st)
                             \<lparr> byCampaign := (byCampaign (negatives st))(campaign \<mapsto> change current) \<rparr> \<rparr>))
         else Inr (st\<lparr> negatives := (negatives st)\<lparr> items := change (items (negatives st)) \<rparr> \<rparr>))"

text \<open>
  \<^verbatim>\<open>
  function reducer(state, action) {
    switch (action.type) {
      case "REPORT_LOADED": {
        const campaigns = extractCampaigns(action.payload.rows);
        return { ...state,
          report: { columns: action.payload.columns, rows: action.payload.rows,
            filename: action.payload.filename,
            searchTermColumnName: action.payload.searchTermColumnName,
            campaignColumnName: action.payload.campaignColumnName,
            adGroupColumnName: action.payload.adGroupColumnName,
            warnings: action.payload.warnings || [], error: null },
          ui: { ...state.ui, markedRowIds: new Set(),
            selectedCampaign:
              state.ui.mode === "campaign" ? (campaigns[0] || UNKNOWN_CAMPAIGN) : "" },
          negatives: { items: [], byCampaign: {} } };
      }
      case "REPORT_ERROR": {
        return { ...state,
          report: { columns: [], rows: [], filename: action.payload.filename || null,
            searchTermColumnName: null, campaignColumnName: null, adGroupColumnName: null,
            warnings: [], error: action.payload.error || "Failed to load report" },
          ui: { ...state.ui, markedRowIds: new Set(), selectedCampaign: "" },
          negatives: { items: [], byCampaign: {} } };
      }
      case "SET_MODE": {
        const mode = action.payload.mode;
        if (mode !== "account" && mode !== "campaign") return state;
        let selectedCampaign = state.ui.selectedCampaign;
        if (mode === "campaign") {
          const campaigns = extractCampaigns(state.report.rows);
          if (!campaigns.includes(selectedCampaign)) {
            selectedCampaign = campaigns[0] || UNKNOWN_CAMPAIGN;
          }
        }
        return { ...state, ui: { ...state.ui, mode, selectedCampaign } };
      }
      case "SET_SELECTED_CAMPAIGN": {
        return { ...state, ui: { ...state.ui, selectedCampaign: action.payload.campaign } };
      }
      case "ADD_NEGATIVE": ...
      case "REMOVE_NEGATIVE_BY_TEXT": ...
      case "REMOVE_NEGATIVE": ...
      case "UPDATE_NEGATIVE_MATCH_TYPE": ...
      default:
        return state;
    }
  }
  \<close>
\<close>

fun reducer ::
  "(jstring \<Rightarrow> jstring) \<Rightarrow> (jstring \<Rightarrow> jstring \<Rightarrow> int) \<Rightarrow> state \<Rightarrow> action \<Rightarrow> exn + state" where
  "reducer lower localeCompare st (REPORT_LOADED p fname) =
     (let campaigns = extractCampaigns localeCompare (rows p) in
      Inr (st\<lparr> report :=
                 \<lparr> stColumns = columns p, stRows = rows p, filename = Some fname,
                   stSearchTermColumnName = Some (searchTermColumnName p),
                   stCampaignColumnName = campaignColumnName p,
                   stAdGroupColumnName = adGroupColumnName p,
                   stWarnings = warnings p, stError = None \<rparr>,
               ui := (ui st)
                   \<lparr> markedRowIds := {},
                     selectedCampaign :=
                       (if mode (ui st) = js ''campaign'' then firstCampaign campaigns else []) \<rparr>,
               negatives := \<lparr> items = [], byCampaign = Map.empty \<rparr> \<rparr>))"
| "reducer lower localeCompare st (REPORT_ERROR fname err) =
     Inr (st\<lparr> report :=
                \<lparr> stColumns = [], stRows = [],
                  filename = (case fname of None \<Rightarrow> None
                              | Some f \<Rightarrow> if f \<noteq> [] then Some f else None),
                  stSearchTermColumnName = None, stCampaignColumnName = None,
                  stAdGroupColumnName = None, stWarnings = [],
                  stError = Some (orElse err (js ''Failed to load report'')) \<rparr>,
              ui := (ui st)\<lparr> markedRowIds := {}, selectedCampaign := [] \<rparr>,
              negatives := \<lparr> items = [], byCampaign = Map.empty \<rparr> \<rparr>)"
| "reducer lower localeCompare st (SET_MODE m) =
     (if m \<noteq> js ''account'' \<and> m \<noteq> js ''campaign'' then Inr st
      else
        (let selected =
               (if m = js ''campaign'' then
                  (let campaigns = extractCampaigns localeCompare (stRows (report st)) in
                   if selectedCampaign (ui st) \<notin> set campaigns then firstCampaign campaigns
                   else selectedCampaign (ui st))
                else selectedCampaign (ui st))
         in Inr (st\<lparr> ui := (ui st)\<lparr> mode := m, selectedCampaign := selected \<rparr> \<rparr>)))"
| "reducer lower localeCompare st (SET_SELECTED_CAMPAIGN c) =
     Inr (st\<lparr> ui := (ui st)\<lparr> selectedCampaign := c \<rparr> \<rparr>)"
| "reducer lower localeCompare st (ADD_NEGATIVE p uuid) = addNegative lower st p uuid"
| "reducer lower localeCompare st (REMOVE_NEGATIVE_BY_TEXT p) = removeNegativeByText lower st p"
| "reducer lower localeCompare st (REMOVE_NEGATIVE p) = removeNegative lower st p"
| "reducer lower localeCompare st (UPDATE_NEGATIVE_MATCH_TYPE p) = updateNegativeMatchType st p"
| "reducer lower localeCompare st OTHER_ACTION = Inr st"

text \<open>
  The states that \<open>useReducer(reducer, initialState)\<close> can hold: the initial state and
  every state that the reducer returns from one of them. A call that throws returns no
  state.
\<close>

inductive reachable :: "(jstring \<Rightarrow> jstring) \<Rightarrow> (jstring \<Rightarrow> jstring \<Rightarrow> int) \<Rightarrow> state \<Rightarrow> bool"
  for lower :: "jstring \<Rightarrow> jstring" and localeCompare :: "jstring \<Rightarrow> jstring \<Rightarrow> int" where
  initial: "reachable lower localeCompare initialState"
| step: "reachable lower localeCompare st \<Longrightarrow> reducer lower localeCompare st a = Inr st' \<Longrightarrow>
         reachable lower localeCompare st'"

text \<open>
  The texts of a list of negative keywords are unique up to case when their normalized
  forms are pairwise different; a state has unique texts when the account list and
  every campaign list have.
\<close>

abbreviation textsUnique :: "(jstring \<Rightarrow> jstring) \<Rightarrow> negative list \<Rightarrow> bool" where
  "textsUnique lower l \<equiv> distinct (map (\<lambda>x. normKey lower (negText x)) l)"

abbreviation listsUnique :: "(jstring \<Rightarrow> jstring) \<Rightarrow> state \<Rightarrow> bool" where
  "listsUnique lower st \<equiv>
     textsUnique lower (items (negatives st)) \<and>
     (\<forall>c l. byCampaign (negatives st) c = Some l \<longrightarrow> textsUnique lower l)"

section \<open>Properties of formatNegative\<close>

text \<open>
  C9. formatNegative returns the empty string exactly when its text argument trims to
  empty; otherwise it returns the trimmed text in square brackets for match type
  "exact", in double quotes for "phrase", and the bare trimmed text for every other
  match type, absent ones included.
\<close>

theorem formatNegative_cases:
  "(formatNegative text matchType = [] \<longleftrightarrow> trim (orEmpty text) = []) \<and>
   (trim (orEmpty text) \<noteq> [] \<longrightarrow>
      (matchType = Some (js ''exact'') \<longrightarrow>
         formatNegative text matchType = js ''['' @ trim (orEmpty text) @ js '']'') \<and>
      (matchType = Some (js ''phrase'') \<longrightarrow>
         formatNegative text matchType = [34] @ trim (orEmpty text) @ [34]) \<and>
      (matchType \<noteq> Some (js ''exact'') \<and> matchType \<noteq> Some (js ''phrase'') \<longrightarrow>
         formatNegative text matchType = trim (orEmpty text)))"
  by (simp add: formatNegative_def Let_def js_def)

theorem formatNegative_cases_witness:
  "trim (orEmpty (Some (js '' red shoes ''))) = js ''red shoes'' \<and>
   formatNegative (Some (js '' red shoes '')) (Some (js ''exact'')) = js ''[red shoes]'' \<and>
   formatNegative (Some (js '' red shoes '')) (Some (js ''phrase'')) = [34] @ js ''red shoes'' @ [34] \<and>
   formatNegative (Some (js '' red shoes '')) (Some (js ''broad'')) = js ''red shoes'' \<and>
   formatNegative (Some (js '' red shoes '')) None = js ''red shoes'' \<and>
   formatNegative (Some (js ''  '')) (Some (js ''exact'')) = [] \<and>
   formatNegative None (Some (js ''phrase'')) = []"
proof -
  have t: "trim (orEmpty (Some (js '' red shoes ''))) = js ''red shoes''"
    by (simp add: trim_def orEmpty_def js_def isWhiteSpace_def)
  have e1: "trim (orEmpty (Some (js ''  ''))) = []"
    by (simp add: trim_def orEmpty_def js_def isWhiteSpace_def)
  have e2: "trim (orEmpty None) = []"
    by (simp add: trim_def orEmpty_def)
  have ne: "js ''red shoes'' \<noteq> []"
    by (simp add: js_def)
  show ?thesis
    using formatNegative_cases [of "Some (js '' red shoes '')" "Some (js ''exact'')"]
      formatNegative_cases [of "Some (js '' red shoes '')" "Some (js ''phrase'')"]
      formatNegative_cases [of "Some (js '' red shoes '')" "Some (js ''broad'')"]
      formatNegative_cases [of "Some (js '' red shoes '')" None]
      formatNegative_cases [of "Some (js ''  '')" "Some (js ''exact'')"]
      formatNegative_cases [of None "Some (js ''phrase'')"]
    by (simp add: t e1 e2 ne) (simp add: js_def)
qed

section \<open>Properties of the metric column detection\<close>

lemma pickBestLoop_positive:
  assumes "pickBestLoop lower scoreFn cols (best, bestScore) = (Some c, s)"
    and "0 \<le> bestScore"
    and "\<And>b. best = Some b \<Longrightarrow> b \<in> A \<and> 0 < scoreFn (norm lower b)"
  shows "(c \<in> A \<or> c \<in> set cols) \<and> 0 < scoreFn (norm lower c)"
  using assms
proof (induction cols arbitrary: best bestScore A)
  case Nil
  then show ?case by simp
next
  case (Cons col cols)
  show ?case
  proof (cases "scoreFn (norm lower col) > bestScore")
    case True
    with Cons.prems(1) have
      step: "pickBestLoop lower scoreFn cols (Some col, scoreFn (norm lower col)) = (Some c, s)"
      by (simp add: Let_def)
    from True Cons.prems(2) have pos: "0 < scoreFn (norm lower col)" by simp
    have "(c \<in> insert col A \<or> c \<in> set cols) \<and> 0 < scoreFn (norm lower c)"
    proof (rule Cons.IH [OF step])
      show "0 \<le> scoreFn (norm lower col)" using pos by simp
    next
      fix b assume "Some col = Some b"
      then show "b \<in> insert col A \<and> 0 < scoreFn (norm lower b)" using pos by auto
    qed
    then show ?thesis by auto
  next
    case False
    with Cons.prems(1) have
      step: "pickBestLoop lower scoreFn cols (best, bestScore) = (Some c, s)"
      by (simp add: Let_def)
    have "(c \<in> A \<or> c \<in> set cols) \<and> 0 < scoreFn (norm lower c)"
      by (rule Cons.IH [OF step Cons.prems(2)]) (rule Cons.prems(3))
    then show ?thesis by auto
  qed
qed

lemma pickBestColumn_positive:
  assumes "pickBestColumn lower cols scoreFn = Some c"
  shows "c \<in> set cols \<and> 0 < scoreFn (norm lower c)"
proof -
  obtain s where "pickBestLoop lower scoreFn cols (None, 0) = (Some c, s)"
    using assms by (cases "pickBestLoop lower scoreFn cols (None, 0)")
      (simp add: pickBestColumn_def)
  from pickBestLoop_positive [OF this, of "{}"] show ?thesis by simp
qed

text \<open>
  C1. The cost scorer returns 0 for every key that satisfies the cost-per-conversion
  predicate, and for every list of column labels the column that
  detectMetricColumnsStrong gives the cost role is a column of the list whose normalized
  label does not satisfy that predicate.
\<close>

theorem cost_never_costPerConv:
  "(isCostPerConvKey k \<longrightarrow> costScore k = 0) \<and>
   (cost (detectMetricColumnsStrong lower cols) = Some c \<longrightarrow>
      c \<in> set cols \<and> \<not> isCostPerConvKey (norm lower c))"
proof (intro conjI impI)
  assume "isCostPerConvKey k"
  then show "costScore k = 0" by (simp add: costScore_def)
next
  assume "cost (detectMetricColumnsStrong lower cols) = Some c"
  then have "pickBestColumn lower cols costScore = Some c"
    by (simp add: detectMetricColumnsStrong_def)
  from pickBestColumn_positive [OF this]
  have c: "c \<in> set cols" and pos: "0 < costScore (norm lower c)" by simp_all
  from c show "c \<in> set cols" .
  from pos show "\<not> isCostPerConvKey (norm lower c)"
    by (auto simp: costScore_def)
qed


lemmas ru_defs =
  ru_stoim_def ru_konv_def ru_raskhod_def ru_stoimost_def ru_koef_def ru_pokaz_def
  ru_klik_def ru_konv_koef_def ru_konver_def ru_konvers_def

lemmas norm_defs = norm_def trim_def lowerBasic_def lowerUnit_def js_def isWhiteSpace_def

lemma norm_Cost: "norm lowerBasic (js ''Cost'') = js ''cost''"
  by (simp add: norm_defs)

lemma norm_Cost_conv: "norm lowerBasic (js ''Cost / conv.'') = js ''cost / conv.''"
  by (simp add: norm_defs)

lemma key_cost: "\<not> isCostPerConvKey (js ''cost'')"
  by (simp add: isCostPerConvKey_def costSlashConvAt_def js_def ru_defs)

lemma key_cost_conv: "isCostPerConvKey (js ''cost / conv.'')"
  by (simp add: isCostPerConvKey_def costSlashConvAt_def js_def ru_defs isWhiteSpace_def)

lemma costScore_cost: "costScore (js ''cost'') = 120"
  by (simp add: costScore_def key_cost)

lemma costScore_cost_conv: "costScore (js ''cost / conv.'') = 0"
  by (simp add: costScore_def key_cost_conv)

lemma detect_cost_example:
  "cost (detectMetricColumnsStrong lowerBasic [js ''Cost / conv.'', js ''Cost'']) =
   Some (js ''Cost'')"
  by (simp add: detectMetricColumnsStrong_def pickBestColumn_def Let_def
      norm_Cost norm_Cost_conv costScore_cost costScore_cost_conv)

theorem cost_never_costPerConv_witness:
  "isCostPerConvKey (js ''cost / conv.'') \<and> costScore (js ''cost / conv.'') = 0 \<and>
   cost (detectMetricColumnsStrong lowerBasic [js ''Cost / conv.'', js ''Cost'']) =
     Some (js ''Cost'') \<and>
   js ''Cost'' \<in> set [js ''Cost / conv.'', js ''Cost''] \<and>
   \<not> isCostPerConvKey (norm lowerBasic (js ''Cost''))"
  using cost_never_costPerConv [of "js ''cost / conv.''" lowerBasic
      "[js ''Cost / conv.'', js ''Cost'']" "js ''Cost''"]
    key_cost_conv detect_cost_example
  by simp

text \<open>
  C2. detectMetricColumnsStrong is meant to give every role the same column label on
  every permutation of the column list. It does not when two different labels reach the
  same highest score for a role: pickBestColumn keeps the first of them. The labels
  "Impr." and "Impressions" both score 110 for the impressions role, and the role goes
  to whichever comes first.
\<close>

lemma norm_Impr: "norm lowerBasic (js ''Impr.'') = js ''impr.''"
  by (simp add: norm_defs)

lemma norm_Impressions: "norm lowerBasic (js ''Impressions'') = js ''impressions''"
  by (simp add: norm_defs)

lemma imprScore_examples: "imprScore (js ''impr.'') = 110" "imprScore (js ''impressions'') = 110"
  by (simp_all add: imprScore_def)

theorem detectMetricColumnsStrong_order_dependent:
  "mset [js ''Impressions'', js ''Impr.''] = mset [js ''Impr.'', js ''Impressions''] \<and>
   impr (detectMetricColumnsStrong lowerBasic [js ''Impr.'', js ''Impressions'']) =
     Some (js ''Impr.'') \<and>
   impr (detectMetricColumnsStrong lowerBasic [js ''Impressions'', js ''Impr.'']) =
     Some (js ''Impressions'') \<and>
   js ''Impr.'' \<noteq> js ''Impressions''"
  by (simp add: detectMetricColumnsStrong_def pickBestColumn_def Let_def
      norm_Impr norm_Impressions imprScore_examples) (simp add: js_def)

section \<open>Properties of the number parser\<close>

subsection \<open>Split and join against positions\<close>

lemma afterLast_notin: "c \<notin> set s \<Longrightarrow> afterLast c s = s"
proof -
  assume "c \<notin> set s"
  then have "takeWhile (\<lambda>x. x \<noteq> c) (rev s) = rev s"
    by (auto simp: takeWhile_eq_all_conv)
  then show ?thesis unfolding afterLast_def by (simp only: rev_rev_ident)
qed

lemma afterLast_Cons:
  "afterLast c (x # s) = (if c \<in> set s then afterLast c s else if x = c then s else x # s)"
proof (cases "c \<in> set s")
  case True
  then have "takeWhile (\<lambda>x. x \<noteq> c) (rev s @ [x]) = takeWhile (\<lambda>x. x \<noteq> c) (rev s)"
    by (intro takeWhile_append1 [of c]) auto
  with True show ?thesis by (simp add: afterLast_def)
next
  case False
  then have "takeWhile (\<lambda>x. x \<noteq> c) (rev s @ [x]) = rev s @ takeWhile (\<lambda>x. x \<noteq> c) [x]"
    by (intro takeWhile_append2) auto
  with False show ?thesis by (simp add: afterLast_def)
qed

lemma beforeLast_Cons:
  "beforeLast c (x # s) = (if c \<in> set s then x # beforeLast c s else [])"
proof (cases "c \<in> set s")
  case True
  then have a: "dropWhile (\<lambda>x. x \<noteq> c) (rev s @ [x]) = dropWhile (\<lambda>x. x \<noteq> c) (rev s) @ [x]"
    by (intro dropWhile_append1 [of c]) auto
  from True have "dropWhile (\<lambda>x. x \<noteq> c) (rev s) \<noteq> []"
    by (auto simp: dropWhile_eq_Nil_conv)
  then obtain y ys where "dropWhile (\<lambda>x. x \<noteq> c) (rev s) = y # ys"
    by (cases "dropWhile (\<lambda>x. x \<noteq> c) (rev s)") auto
  with a True show ?thesis by (simp add: beforeLast_def)
next
  case False
  then have "dropWhile (\<lambda>x. x \<noteq> c) (rev s @ [x]) = dropWhile (\<lambda>x. x \<noteq> c) [x]"
    by (intro dropWhile_append2) auto
  with False show ?thesis by (simp add: beforeLast_def)
qed

lemma lastIndexOf_notin: "lastIndexOf s c = - 1 \<longleftrightarrow> c \<notin> set s"
proof (induction s)
  case Nil
  show ?case by simp
next
  case (Cons x s)
  have "- 1 \<le> lastIndexOf s c" by (induction s) (auto simp: Let_def)
  with Cons show ?case by (auto simp: Let_def)
qed

lemma lastIndexOf_afterLast:
  "c \<in> set s \<Longrightarrow> lastIndexOf s c = int (length s) - 1 - int (length (afterLast c s))"
proof (induction s)
  case Nil
  then show ?case by simp
next
  case (Cons x s)
  show ?case
  proof (cases "c \<in> set s")
    case True
    with Cons.IH have "lastIndexOf s c = int (length s) - 1 - int (length (afterLast c s))"
      by simp
    moreover from True have "lastIndexOf s c \<noteq> - 1" by (simp add: lastIndexOf_notin)
    ultimately show ?thesis using True by (simp add: Let_def afterLast_Cons)
  next
    case False
    with Cons.prems have "x = c" by simp
    moreover from False have "lastIndexOf s c = - 1" by (simp add: lastIndexOf_notin)
    ultimately show ?thesis using False by (simp add: afterLast_Cons)
  qed
qed

lemma splitOn_length: "length (splitOn c s) = Suc (length (filter (\<lambda>x. x = c) s))"
  by (induction s) (auto split: list.splits)

lemma splitOn_nonempty: "splitOn c s \<noteq> []"
  using splitOn_length [of c s] by auto

lemma splitOn_notin: "c \<notin> set s \<Longrightarrow> splitOn c s = [s]"
  by (induction s) (auto split: list.splits)

lemma splitOn_in: "c \<in> set s \<Longrightarrow> \<exists>p q qs. splitOn c s = p # q # qs"
proof -
  assume "c \<in> set s"
  then have "filter (\<lambda>x. x = c) s \<noteq> []" by (auto simp: filter_empty_conv)
  then have "2 \<le> length (splitOn c s)" by (cases "filter (\<lambda>x. x = c) s") (auto simp: splitOn_length)
  then show ?thesis
    by (cases "splitOn c s") (auto simp: Suc_le_eq neq_Nil_conv numeral_2_eq_2 Suc_le_length_iff)
qed

lemma concat_splitOn: "concat (splitOn c s) = removeSep c s"
  by (induction s) (auto simp: removeSep_def split: list.splits)

lemma last_splitOn: "last (splitOn c s) = afterLast c s"
proof (induction s)
  case Nil
  show ?case by (simp add: afterLast_def)
next
  case (Cons x s)
  show ?case
  proof (cases "c \<in> set s")
    case True
    from splitOn_in [OF True] obtain p q qs where "splitOn c s = p # q # qs" by blast
    with Cons True show ?thesis by (auto simp: afterLast_Cons)
  next
    case False
    then show ?thesis by (simp add: afterLast_Cons splitOn_notin)
  qed
qed

lemma butlast_splitOn:
  "c \<in> set s \<Longrightarrow> concat (butlast (splitOn c s)) = removeSep c (beforeLast c s)"
proof (induction s)
  case Nil
  then show ?case by simp
next
  case (Cons x s)
  show ?case
  proof (cases "c \<in> set s")
    case True
    from splitOn_in [OF True] obtain p q qs where "splitOn c s = p # q # qs" by blast
    with Cons.IH True show ?thesis by (auto simp: beforeLast_Cons removeSep_def)
  next
    case False
    with Cons.prems have "x = c" by simp
    with False show ?thesis by (simp add: beforeLast_Cons splitOn_notin removeSep_def)
  qed
qed

subsection \<open>The float parser does not look past a second separator\<close>

lemma takeWhile_stop: "\<not> P y \<Longrightarrow> takeWhile P (xs @ y # ys) = takeWhile P xs"
  by (induction xs) auto

lemma takeSign_append:
  "takeSign (b @ 46 # y) = (fst (takeSign b), snd (takeSign b) @ 46 # y)"
  by (cases b) (auto simp: takeSign_def)

lemma startsWith_append_dot:
  "46 \<notin> set w \<Longrightarrow> startsWith (b @ 46 # y) w = startsWith b w"
proof (induction b w rule: startsWith.induct)
  case (1 s)
  show ?case by simp
next
  case (2 p ps)
  then show ?case by auto
next
  case (3 c s p ps)
  then show ?case by auto
qed

lemma startsWith_dot: "startsWith s (js ''.'') = (\<exists>r. s = 46 # r)"
  by (cases s) (auto simp: js_def)

lemma isDigit_commaToDot: "isDigit (commaToDot x) = isDigit x"
  by (auto simp: commaToDot_def isDigit_def)

lemma takeWhile_digits_map: "takeWhile isDigit (map commaToDot x) = takeWhile isDigit x"
  by (induction x) (auto simp: isDigit_commaToDot, auto simp: commaToDot_def isDigit_def)

lemma dropWhile_digits_map:
  "dropWhile isDigit (map commaToDot x) = map commaToDot (dropWhile isDigit x)"
  by (induction x) (auto simp: isDigit_commaToDot)

lemma takeSign_map:
  "takeSign (map commaToDot x) = (fst (takeSign x), map commaToDot (snd (takeSign x)))"
  by (cases x) (auto simp: takeSign_def commaToDot_def)

lemma exponentPart_map: "exponentPart (map commaToDot x) = exponentPart x"
proof (cases x)
  case Nil
  then show ?thesis by simp
next
  case (Cons c r)
  have "commaToDot c = 101 \<longleftrightarrow> c = 101" "commaToDot c = 69 \<longleftrightarrow> c = 69"
    by (auto simp: commaToDot_def)
  with Cons show ?thesis
    by (simp add: exponentPart_def takeSign_map takeWhile_digits_map split_beta Let_def)
qed

lemma exponentPart_tail: "exponentPart (e @ 46 # y) = exponentPart (e @ 46 # y')"
  by (cases e) (simp_all add: exponentPart_def takeSign_append takeWhile_stop isDigit_def Let_def)

lemma not_digit_dot: "\<not> isDigit 46" by (simp add: isDigit_def)
lemma not_ws_dot: "\<not> isWhiteSpace 46" by (simp add: isWhiteSpace_def)

lemma parseFloat_tail:
  "Number_parseFloat (a @ 46 # map commaToDot x) = Number_parseFloat (a @ 46 # x)"
proof -
  define b where "b = snd (takeSign (dropWhile isWhiteSpace a))"
  define n where "n = fst (takeSign (dropWhile isWhiteSpace a))"
  define d where "d = dropWhile isDigit b"
  have sign: "takeSign (dropWhile isWhiteSpace (a @ 46 # y)) = (n, b @ 46 # y)" for y
    by (simp add: dropWhile_append3 not_ws_dot takeSign_append b_def n_def)
  have inf: "startsWith (b @ 46 # y) (js ''Infinity'') = startsWith b (js ''Infinity'')" for y
    by (rule startsWith_append_dot) (simp add: js_def)
  have ip: "takeWhile isDigit (b @ 46 # y) = takeWhile isDigit b" for y
    by (simp add: takeWhile_stop not_digit_dot)
  have r1: "dropWhile isDigit (b @ 46 # y) = d @ 46 # y" for y
    by (simp add: dropWhile_append3 not_digit_dot d_def)
  show ?thesis
  proof (cases d)
    case Nil
    show ?thesis
      by (simp add: Number_parseFloat_def sign inf ip r1 Nil startsWith_dot Let_def
          takeWhile_digits_map dropWhile_digits_map exponentPart_map)
  next
    case (Cons c d')
    have fp: "takeWhile isDigit (d' @ 46 # y) = takeWhile isDigit d'" for y
      by (simp add: takeWhile_stop not_digit_dot)
    have r2: "dropWhile isDigit (d' @ 46 # y) = dropWhile isDigit d' @ 46 # y" for y
      by (simp add: dropWhile_append3 not_digit_dot)
    have e1: "exponentPart (dropWhile isDigit d' @ 46 # map commaToDot x) =
              exponentPart (dropWhile isDigit d' @ 46 # x)"
      by (rule exponentPart_tail)
    have e2: "exponentPart (c # d' @ 46 # map commaToDot x) = exponentPart (c # d' @ 46 # x)"
      using exponentPart_tail [of "c # d'"] by simp
    show ?thesis
      by (auto simp: Number_parseFloat_def sign inf ip r1 Cons startsWith_dot Let_def fp r2 e1 e2)
  qed
qed

subsection \<open>The source against the rules\<close>

lemma replaceFirst_notin: "c \<notin> set t \<Longrightarrow> replaceFirst c d t = t"
  by (induction t) auto

lemma replaceFirst_split: "c \<notin> set a \<Longrightarrow> replaceFirst c d (a @ c # x) = a @ d # x"
  by (induction a) auto

lemma map_commaToDot_notin: "44 \<notin> set a \<Longrightarrow> map commaToDot a = a"
  by (induction a) (auto simp: commaToDot_def)

lemma parseFloat_replaceFirst:
  "Number_parseFloat (replaceFirst 44 46 t) = Number_parseFloat (map commaToDot t)"
proof (cases "44 \<in> set t")
  case False
  then show ?thesis by (simp add: replaceFirst_notin map_commaToDot_notin)
next
  case True
  then obtain a x where t: "t = a @ 44 # x" and a: "44 \<notin> set a"
    by (auto dest: split_list_first)
  have "Number_parseFloat (replaceFirst 44 46 t) = Number_parseFloat (a @ 46 # x)"
    by (simp add: t replaceFirst_split [OF a])
  also have "\<dots> = Number_parseFloat (a @ 46 # map commaToDot x)"
    by (rule parseFloat_tail [symmetric])
  also have "\<dots> = Number_parseFloat (map commaToDot t)"
    by (simp add: t map_commaToDot_notin [OF a] commaToDot_def)
  finally show ?thesis .
qed

lemma filter_dropWhile_disjoint:
  "(\<And>x. Q x \<Longrightarrow> \<not> P x) \<Longrightarrow> filter P (dropWhile Q xs) = filter P xs"
  by (induction xs) auto

lemma ws_not_numeric: "isWhiteSpace c \<Longrightarrow> \<not> (isDigit c \<or> c = 44 \<or> c = 46 \<or> c = 45)"
  by (auto simp: isWhiteSpace_def isDigit_def)

lemma stripNonNumeric_trim: "stripNonNumeric (trim v) = stripNonNumeric v"
proof -
  let ?P = "\<lambda>c. isDigit c \<or> c = 44 \<or> c = 46 \<or> c = 45"
  have "filter ?P (trim v) = rev (filter ?P (dropWhile isWhiteSpace (rev (dropWhile isWhiteSpace v))))"
    by (simp add: trim_def rev_filter)
  also have "\<dots> = rev (filter ?P (rev (dropWhile isWhiteSpace v)))"
    by (subst filter_dropWhile_disjoint) (use ws_not_numeric in auto)
  also have "\<dots> = filter ?P (dropWhile isWhiteSpace v)"
    by (simp add: rev_filter)
  also have "\<dots> = filter ?P v"
    by (subst filter_dropWhile_disjoint) (use ws_not_numeric in auto)
  finally show ?thesis by (simp add: stripNonNumeric_def)
qed

lemma safeParseFloat_empty: "safeParseFloat [] = NegInf" "safeParseFloat (js ''-'') = NegInf"
  by (simp_all add: safeParseFloat_def Number_parseFloat_def takeSign_def js_def Let_def)

lemma separatorRules_plain: "44 \<notin> set s \<Longrightarrow> 46 \<notin> set s \<Longrightarrow> separatorRules runOk s = s"
  by (simp add: separatorRules_def)

lemma trim_fixed: "trim [] = []" "trim [8212] = [8212]" "trim (js ''-'') = js ''-''"
  by (simp_all add: trim_def isWhiteSpace_def js_def)

lemma after_length:
  "c \<in> set s \<Longrightarrow> int (length s) - lastIndexOf s c - 1 = int (length (afterLast c s))"
  by (simp add: lastIndexOf_afterLast)

text \<open>The body of parseMetricNumber after the guard, on the stripped string.\<close>

lemma parseMetricNumber_Some:
  "parseMetricNumber (Some v) =
     (if trim (toStr v) = [] \<or> trim (toStr v) = [8212] \<or> trim (toStr v) = js ''-'' then NegInf
      else safeParseFloat (separatorRules shortRun (stripNonNumeric (toStr v))))"
proof -
  define s where "s = stripNonNumeric (toStr v)"
  have s: "stripNonNumeric (trim (toStr v)) = s"
    by (simp add: s_def stripNonNumeric_trim)
  have both: "safeParseFloat (replaceFirst 44 46 (removeSep 46 s)) =
              safeParseFloat (map commaToDot (removeSep 46 s))"
    by (simp add: safeParseFloat_def parseFloat_replaceFirst)
  have later: "46 \<in> set s \<Longrightarrow> 44 \<in> set s \<Longrightarrow>
      lastIndexOf s 46 > lastIndexOf s 44 \<longleftrightarrow> occursLater 46 44 s"
    by (auto simp: lastIndexOf_afterLast occursLater_def)
  have one: "c \<in> set s \<Longrightarrow>
      (let after = int (length s) - lastIndexOf s c - 1 in
       if after \<ge> 1 \<and> after \<le> 2 then
         (let parts = splitOn c s; dec = last parts in
          safeParseFloat (concat (butlast parts) @ js ''.'' @ dec))
       else safeParseFloat (concat (splitOn c s))) =
      safeParseFloat (oneSeparator shortRun c s)" for c
    by (auto simp: Let_def after_length oneSeparator_def shortRun_def last_splitOn
        butlast_splitOn concat_splitOn)
  show ?thesis
    unfolding parseMetricNumber_def option.case Let_def s
    using one [of 44] one [of 46] both later
    by (auto simp: Let_def separatorRules_def lastIndexOf_notin concat_splitOn s_def [symmetric])
qed

subsection \<open>Evaluation on the test vectors\<close>

lemmas pf_defs = safeParseFloat_def Number_parseFloat_def takeSign_def exponentPart_def
  digitsValue_def isDigit_def isWhiteSpace_def js_def Let_def

lemmas rules_defs = separatorRules_def oneSeparator_def shortRun_def digitRun_def
  occursLater_def afterLast_def beforeLast_def removeSep_def commaToDot_def
  stripNonNumeric_def

lemmas round_defs = toNumber_def roundToDouble_def pow2_def bitLength.simps Let_def

lemma number_1234_56: "toNumber False 123456 (- 2) = Fin (2714826150374277 / 2199023255552)"
  by (simp add: round_defs)

lemma number_1234: "toNumber False 1234 0 = Fin 1234"
  by (simp add: round_defs)

lemma number_1_23: "toNumber False 123 (- 2) = Fin (2769713770832855 / 2251799813685248)"
  by (simp add: round_defs)

lemma number_1_2: "toNumber False 12 (- 1) = Fin (5404319552844595 / 4503599627370496)"
  by (simp add: round_defs)

lemma number_12: "toNumber False 12 0 = Fin 12"
  by (simp add: round_defs)

lemma vector_comma_thousands_dot_decimal:
  "parseMetricNumber (Some (JStr (js ''1,234.56''))) = toNumber False 123456 (- 2)"
proof -
  have "stripNonNumeric (js ''1,234.56'') = js ''1,234.56''"
    by (simp add: stripNonNumeric_def isDigit_def js_def)
  moreover have "separatorRules shortRun (js ''1,234.56'') = js ''1234.56''"
    by (simp add: rules_defs js_def)
  moreover have "Number_parseFloat (js ''1234.56'') = toNumber False 123456 (- 2)"
    by (simp add: pf_defs)
  moreover have "trim (js ''1,234.56'') = js ''1,234.56''"
    by (simp add: trim_def js_def isWhiteSpace_def)
  ultimately show ?thesis
    by (simp add: parseMetricNumber_Some toStr_def safeParseFloat_def number_1234_56)
      (simp add: js_def)
qed

lemma vector_space_thousands_comma_decimal:
  "parseMetricNumber (Some (JStr (js ''1 234,56''))) = toNumber False 123456 (- 2)"
proof -
  have "stripNonNumeric (js ''1 234,56'') = js ''1234,56''"
    by (simp add: stripNonNumeric_def isDigit_def js_def)
  moreover have "separatorRules shortRun (js ''1234,56'') = js ''1234.56''"
    by (simp add: rules_defs js_def)
  moreover have "Number_parseFloat (js ''1234.56'') = toNumber False 123456 (- 2)"
    by (simp add: pf_defs)
  moreover have "trim (js ''1 234,56'') = js ''1 234,56''"
    by (simp add: trim_def js_def isWhiteSpace_def)
  ultimately show ?thesis
    by (simp add: parseMetricNumber_Some toStr_def safeParseFloat_def number_1234_56)
      (simp add: js_def)
qed

lemma vector_currency_thousands:
  "parseMetricNumber (Some (JStr (8364 # js ''1,234''))) = toNumber False 1234 0"
proof -
  have "stripNonNumeric (8364 # js ''1,234'') = js ''1,234''"
    by (simp add: stripNonNumeric_def isDigit_def js_def)
  moreover have "separatorRules shortRun (js ''1,234'') = js ''1234''"
    by (simp add: rules_defs js_def)
  moreover have "Number_parseFloat (js ''1234'') = toNumber False 1234 0"
    by (simp add: pf_defs)
  moreover have "trim (8364 # js ''1,234'') = 8364 # js ''1,234''"
    by (simp add: trim_def js_def isWhiteSpace_def)
  ultimately show ?thesis
    by (simp add: parseMetricNumber_Some toStr_def safeParseFloat_def number_1234)
      (simp add: js_def)
qed

lemma vector_decimal_comma:
  "parseMetricNumber (Some (JStr (js ''1,23''))) = toNumber False 123 (- 2)"
proof -
  have "stripNonNumeric (js ''1,23'') = js ''1,23''"
    by (simp add: stripNonNumeric_def isDigit_def js_def)
  moreover have "separatorRules shortRun (js ''1,23'') = js ''1.23''"
    by (simp add: rules_defs js_def)
  moreover have "Number_parseFloat (js ''1.23'') = toNumber False 123 (- 2)"
    by (simp add: pf_defs)
  moreover have "trim (js ''1,23'') = js ''1,23''"
    by (simp add: trim_def js_def isWhiteSpace_def)
  ultimately show ?thesis
    by (simp add: parseMetricNumber_Some toStr_def safeParseFloat_def number_1_23)
      (simp add: js_def)
qed

lemma trailing_minus_source:
  "parseMetricNumber (Some (JStr (js ''1,2-''))) = toNumber False 12 (- 1)"
proof -
  have "stripNonNumeric (js ''1,2-'') = js ''1,2-''"
    by (simp add: stripNonNumeric_def isDigit_def js_def)
  moreover have "separatorRules shortRun (js ''1,2-'') = js ''1.2-''"
    by (simp add: rules_defs js_def)
  moreover have "Number_parseFloat (js ''1.2-'') = toNumber False 12 (- 1)"
    by (simp add: pf_defs)
  moreover have "trim (js ''1,2-'') = js ''1,2-''"
    by (simp add: trim_def js_def isWhiteSpace_def)
  ultimately show ?thesis
    by (simp add: parseMetricNumber_Some toStr_def safeParseFloat_def number_1_2)
      (simp add: js_def)
qed

lemma trailing_minus_rules:
  "parseMetricNumber_rules digitRun (Some (JStr (js ''1,2-''))) = toNumber False 12 0"
proof -
  have "stripNonNumeric (js ''1,2-'') = js ''1,2-''"
    by (simp add: stripNonNumeric_def isDigit_def js_def)
  moreover have "separatorRules digitRun (js ''1,2-'') = js ''12-''"
    by (simp add: rules_defs js_def isDigit_def)
  moreover have "Number_parseFloat (js ''12-'') = toNumber False 12 0"
    by (simp add: pf_defs)
  ultimately show ?thesis
    by (simp add: parseMetricNumber_rules_def toStr_def safeParseFloat_def number_12)
      (simp add: js_def)
qed

lemma parseMetricNumber_eq_rules:
  "parseMetricNumber value = parseMetricNumber_rules shortRun value"
proof (cases "value")
  case None
  then show ?thesis by (simp add: parseMetricNumber_def parseMetricNumber_rules_def)
next
  case (Some v)
  let ?t = "trim (toStr v)"
  show ?thesis
  proof (cases "?t = [] \<or> ?t = [8212] \<or> ?t = js ''-''")
    case True
    have "stripNonNumeric (toStr v) = stripNonNumeric ?t"
      by (simp add: stripNonNumeric_trim)
    with True have "stripNonNumeric (toStr v) = [] \<or> stripNonNumeric (toStr v) = js ''-''"
      by (auto simp: stripNonNumeric_def isDigit_def js_def)
    then have "safeParseFloat (separatorRules shortRun (stripNonNumeric (toStr v))) = NegInf"
      using safeParseFloat_empty by (auto simp: separatorRules_plain js_def)
    with True Some show ?thesis
      by (simp add: parseMetricNumber_Some parseMetricNumber_rules_def)
  next
    case False
    then have "\<not> (toStr v = [] \<or> toStr v = [8212] \<or> toStr v = js ''-'')"
      using trim_fixed by auto
    with False Some show ?thesis
      by (simp add: parseMetricNumber_Some parseMetricNumber_rules_def)
  qed
qed

text \<open>
  C3, as stated, asks for a trailing run of one or two digits. The source counts the
  characters after the last separator and does not look at what they are: in "1,2-" the
  run after the comma is "2-", the source reads the comma as a decimal point and
  returns 1.2, where the stated rule removes the comma and gives 12.
\<close>

theorem parseMetricNumber_digit_run_counterexample:
  "parseMetricNumber (Some (JStr (js ''1,2-''))) = Fin (5404319552844595 / 4503599627370496) \<and>
   parseMetricNumber_rules digitRun (Some (JStr (js ''1,2-''))) = Fin 12 \<and>
   parseMetricNumber (Some (JStr (js ''1,2-''))) \<noteq>
     parseMetricNumber_rules digitRun (Some (JStr (js ''1,2-'')))"
  by (simp add: trailing_minus_source trailing_minus_rules number_1_2 number_12)

text \<open>
  C3, amended. parseMetricNumber follows the separator rules with a trailing run of one
  or two characters: an absent value and a value that is empty, an em dash or a minus
  give the missing-value sentinel; otherwise every character other than a digit, a
  comma, a full stop and a minus is removed; when both separators occur, the one
  occurring later is the decimal separator and the other one is removed; when one kind
  occurs, a trailing run of one or two characters after its last occurrence makes that
  occurrence the decimal point and removes the earlier ones, and any other trailing run
  removes them all. "1,234.56" and "1 234,56" yield the Number 1234.56, the euro sign
  with "1,234" yields 1234, "1,23" yields 1.23, and the empty string, the em dash, the
  minus and null yield the sentinel.
\<close>

theorem parseMetricNumber_follows_rules:
  "parseMetricNumber value = parseMetricNumber_rules shortRun value \<and>
   parseMetricNumber (Some (JStr (js ''1,234.56''))) = toNumber False 123456 (- 2) \<and>
   parseMetricNumber (Some (JStr (js ''1 234,56''))) = toNumber False 123456 (- 2) \<and>
   toNumber False 123456 (- 2) = Fin (2714826150374277 / 2199023255552) \<and>
   parseMetricNumber (Some (JStr (8364 # js ''1,234''))) = Fin 1234 \<and>
   parseMetricNumber (Some (JStr (js ''1,23''))) = toNumber False 123 (- 2) \<and>
   toNumber False 123 (- 2) = Fin (2769713770832855 / 2251799813685248) \<and>
   parseMetricNumber (Some (JStr [])) = NegInf \<and>
   parseMetricNumber (Some (JStr [8212])) = NegInf \<and>
   parseMetricNumber (Some (JStr (js ''-''))) = NegInf \<and>
   parseMetricNumber None = NegInf"
proof -
  have missing: "parseMetricNumber (Some (JStr [])) = NegInf"
    "parseMetricNumber (Some (JStr [8212])) = NegInf"
    "parseMetricNumber (Some (JStr (js ''-''))) = NegInf"
    "parseMetricNumber None = NegInf"
    by (simp_all add: parseMetricNumber_def toStr_def trim_fixed)
  show ?thesis
    by (simp add: parseMetricNumber_eq_rules [symmetric] missing
        vector_comma_thousands_dot_decimal vector_space_thousands_comma_decimal
        vector_currency_thousands vector_decimal_comma number_1234_56 number_1234 number_1_23)
qed

section \<open>Properties of the stable sort\<close>

lemma set_insertSorted: "set (insertSorted cmp x ys) = insert x (set ys)"
  by (induction ys) auto

lemma mset_insertSorted: "mset (insertSorted cmp x ys) = add_mset x (mset ys)"
  by (induction ys) auto

lemma mset_jsSort: "mset (jsSort cmp xs) = mset xs"
  by (induction xs) (simp_all add: jsSort_def mset_insertSorted)

lemma insertSorted_sorted_wrt:
  assumes trans: "\<And>a b c. R a b \<Longrightarrow> R b c \<Longrightarrow> R a c"
    and le: "\<And>y. cmp x y \<le> 0 \<Longrightarrow> R x y"
    and gt: "\<And>y. 0 < cmp x y \<Longrightarrow> R y x"
    and sorted: "sorted_wrt R ys"
  shows "sorted_wrt R (insertSorted cmp x ys)"
  using sorted
proof (induction ys)
  case Nil
  show ?case by simp
next
  case (Cons y ys)
  show ?case
  proof (cases "cmp x y \<le> 0")
    case True
    then have "R x y" by (rule le)
    moreover from Cons.prems have "\<forall>z\<in>set ys. R y z" by simp
    ultimately have "\<forall>z\<in>set (y # ys). R x z" using trans by auto
    with True Cons.prems show ?thesis by simp
  next
    case False
    then have "R y x" using gt [of y] by simp
    with False Cons show ?thesis by (auto simp: set_insertSorted)
  qed
qed

lemma jsSort_sorted_wrt:
  assumes "\<And>a b c. R a b \<Longrightarrow> R b c \<Longrightarrow> R a c"
    and "\<And>x y. cmp x y \<le> 0 \<Longrightarrow> R x y"
    and "\<And>x y. 0 < cmp x y \<Longrightarrow> R y x"
  shows "sorted_wrt R (jsSort cmp xs)"
proof (induction xs)
  case Nil
  show ?case by (simp add: jsSort_def)
next
  case (Cons x xs)
  have "sorted_wrt R (insertSorted cmp x (jsSort cmp xs))"
    by (rule insertSorted_sorted_wrt) (use assms Cons in blast)+
  then show ?case by (simp add: jsSort_def)
qed

lemma filter_insertSorted:
  assumes "P x \<Longrightarrow> \<forall>y\<in>set ys. P y \<longrightarrow> cmp x y \<le> 0"
  shows "filter P (insertSorted cmp x ys) = (if P x then x # filter P ys else filter P ys)"
  using assms
proof (induction ys)
  case Nil
  show ?case by simp
next
  case (Cons y ys)
  show ?case
  proof (cases "cmp x y \<le> 0")
    case True
    then show ?thesis by simp
  next
    case False
    with Cons.prems have n: "\<not> (P x \<and> P y)" by auto
    have "filter P (insertSorted cmp x ys) = (if P x then x # filter P ys else filter P ys)"
      by (rule Cons.IH) (use Cons.prems in simp)
    with False n show ?thesis by auto
  qed
qed

lemma filter_jsSort:
  assumes "\<And>x y. P x \<Longrightarrow> P y \<Longrightarrow> cmp x y \<le> 0"
  shows "filter P (jsSort cmp xs) = filter P xs"
proof (induction xs)
  case Nil
  show ?case by (simp add: jsSort_def)
next
  case (Cons x xs)
  have "filter P (insertSorted cmp x (jsSort cmp xs)) =
        (if P x then x # filter P (jsSort cmp xs) else filter P (jsSort cmp xs))"
    by (rule filter_insertSorted) (use assms in blast)
  with Cons show ?case by (simp add: jsSort_def)
qed

section \<open>Properties of the metric sort\<close>

lemma safeParseFloat_cases: "safeParseFloat s = NegInf \<or> (\<exists>q. safeParseFloat s = Fin q)"
  by (simp add: safeParseFloat_def split: jsnum.splits)

lemma parseMetricNumber_cases:
  "parseMetricNumber v = NegInf \<or> (\<exists>q. parseMetricNumber v = Fin q)"
proof (cases v)
  case None
  then show ?thesis by (simp add: parseMetricNumber_def)
next
  case (Some x)
  then show ?thesis
    using safeParseFloat_cases by (simp add: parseMetricNumber_Some)
qed

lemma metricCompare_missing_finite:
  assumes "parseMetricNumber (a colName) = NegInf" and "parseMetricNumber (b colName) \<noteq> NegInf"
  shows "metricCompare mul colName a b = 1" and "metricCompare mul colName b a = - 1"
proof -
  from assms(2) parseMetricNumber_cases [of "b colName"]
  obtain q where "parseMetricNumber (b colName) = Fin q" by auto
  with assms(1) show "metricCompare mul colName a b = 1" "metricCompare mul colName b a = - 1"
    by (simp_all add: metricCompare_def)
qed

lemma metricCompare_missing_missing:
  assumes "parseMetricNumber (a colName) = NegInf" and "parseMetricNumber (b colName) = NegInf"
  shows "metricCompare mul colName a b = 0"
  using assms by (simp add: metricCompare_def)

lemma sortDataRows_missing_last:
  "sorted_wrt (\<lambda>a b. parseMetricNumber (a colName) = NegInf \<longrightarrow>
                      parseMetricNumber (b colName) = NegInf)
     (sortDataRows sortDir colName dataRows)"
  unfolding sortDataRows_def Let_def
proof (rule jsSort_sorted_wrt)
  fix x y :: jsobj and mul :: int
  let ?mul = "if sortDir = js ''asc'' then 1 else - 1 :: int"
  show "metricCompare ?mul colName x y \<le> 0 \<Longrightarrow>
        parseMetricNumber (x colName) = NegInf \<longrightarrow> parseMetricNumber (y colName) = NegInf"
    using metricCompare_missing_finite(1) [of x colName y ?mul] by auto
  show "0 < metricCompare ?mul colName x y \<Longrightarrow>
        parseMetricNumber (y colName) = NegInf \<longrightarrow> parseMetricNumber (x colName) = NegInf"
    using metricCompare_missing_finite(2) [of y colName x ?mul] by auto
qed auto

text \<open>
  C4. In the comparator of the metric sort a row whose metric value parses to the
  missing-value sentinel compares greater than every row whose value is a finite number,
  whatever the direction multiplier, and two such rows compare equal; so in the sorted
  data rows, ascending or descending, no row with a missing value stands before a row
  with a finite one.
\<close>

theorem missing_sorts_last:
  "(parseMetricNumber (a colName) = NegInf \<and> parseMetricNumber (b colName) \<noteq> NegInf \<longrightarrow>
      metricCompare mul colName a b = 1 \<and> metricCompare mul colName b a = - 1) \<and>
   (parseMetricNumber (a colName) = NegInf \<and> parseMetricNumber (b colName) = NegInf \<longrightarrow>
      metricCompare mul colName a b = 0) \<and>
   mset (sortDataRows sortDir colName dataRows) = mset dataRows \<and>
   (\<forall>i j. i < j \<and> j < length (sortDataRows sortDir colName dataRows) \<and>
      parseMetricNumber ((sortDataRows sortDir colName dataRows ! i) colName) = NegInf \<longrightarrow>
      parseMetricNumber ((sortDataRows sortDir colName dataRows ! j) colName) = NegInf)"
proof (intro conjI impI allI)
  assume "parseMetricNumber (a colName) = NegInf \<and> parseMetricNumber (b colName) \<noteq> NegInf"
  then show "metricCompare mul colName a b = 1" "metricCompare mul colName b a = - 1"
    using metricCompare_missing_finite by blast+
next
  assume "parseMetricNumber (a colName) = NegInf \<and> parseMetricNumber (b colName) = NegInf"
  then show "metricCompare mul colName a b = 0"
    using metricCompare_missing_missing by blast
next
  show "mset (sortDataRows sortDir colName dataRows) = mset dataRows"
    by (simp add: sortDataRows_def Let_def mset_jsSort)
next
  fix i j
  let ?out = "sortDataRows sortDir colName dataRows"
  assume "i < j \<and> j < length ?out \<and> parseMetricNumber ((?out ! i) colName) = NegInf"
  with sortDataRows_missing_last [of colName sortDir dataRows]
  show "parseMetricNumber ((?out ! j) colName) = NegInf"
    by (auto simp: sorted_wrt_iff_nth_less)
qed

lemma number_5: "toNumber False 5 0 = Fin 5"
  by (simp add: round_defs)

lemma parse_five: "parseMetricNumber (Some (JStr (js ''5''))) = Fin 5"
proof -
  have "stripNonNumeric (js ''5'') = js ''5''"
    by (simp add: stripNonNumeric_def isDigit_def js_def)
  moreover have "separatorRules shortRun (js ''5'') = js ''5''"
    by (simp add: rules_defs js_def)
  moreover have "Number_parseFloat (js ''5'') = toNumber False 5 0"
    by (simp add: pf_defs)
  moreover have "trim (js ''5'') = js ''5''"
    by (simp add: trim_def js_def isWhiteSpace_def)
  ultimately show ?thesis
    by (simp add: parseMetricNumber_Some toStr_def safeParseFloat_def number_5)
      (simp add: js_def)
qed

lemma parse_dash: "parseMetricNumber (Some (JStr [8212])) = NegInf"
  by (simp add: parseMetricNumber_def toStr_def trim_fixed)

theorem missing_sorts_last_witness:
  "parseMetricNumber ([js ''Cost'' \<mapsto> JStr [8212]] (js ''Cost'')) = NegInf \<and>
   parseMetricNumber ([js ''Cost'' \<mapsto> JStr (js ''5'')] (js ''Cost'')) = Fin 5 \<and>
   metricCompare 1 (js ''Cost'') [js ''Cost'' \<mapsto> JStr [8212]]
     [js ''Cost'' \<mapsto> JStr (js ''5'')] = 1 \<and>
   metricCompare (- 1) (js ''Cost'') [js ''Cost'' \<mapsto> JStr [8212]]
     [js ''Cost'' \<mapsto> JStr (js ''5'')] = 1 \<and>
   metricCompare 1 (js ''Cost'') [js ''Cost'' \<mapsto> JStr (js ''5'')]
     [js ''Cost'' \<mapsto> JStr [8212]] = - 1 \<and>
   metricCompare (- 1) (js ''Cost'') [js ''Cost'' \<mapsto> JStr (js ''5'')]
     [js ''Cost'' \<mapsto> JStr [8212]] = - 1 \<and>
   metricCompare 1 (js ''Cost'') [js ''Cost'' \<mapsto> JStr [8212]]
     [js ''Cost'' \<mapsto> JStr [8212]] = 0 \<and>
   sortDataRows (js ''asc'') (js ''Cost'')
     [[js ''Cost'' \<mapsto> JStr [8212]], [js ''Cost'' \<mapsto> JStr (js ''5'')]] =
     [[js ''Cost'' \<mapsto> JStr (js ''5'')], [js ''Cost'' \<mapsto> JStr [8212]]] \<and>
   sortDataRows (js ''desc'') (js ''Cost'')
     [[js ''Cost'' \<mapsto> JStr [8212]], [js ''Cost'' \<mapsto> JStr (js ''5'')]] =
     [[js ''Cost'' \<mapsto> JStr (js ''5'')], [js ''Cost'' \<mapsto> JStr [8212]]]"
proof -
  let ?dash = "[js ''Cost'' \<mapsto> JStr [8212]]"
  let ?five = "[js ''Cost'' \<mapsto> JStr (js ''5'')]"
  have d: "parseMetricNumber (?dash (js ''Cost'')) = NegInf"
    by (simp add: parse_dash)
  have f: "parseMetricNumber (?five (js ''Cost'')) = Fin 5"
    by (simp add: parse_five)
  have c: "metricCompare mul (js ''Cost'') ?dash ?five = 1"
    "metricCompare mul (js ''Cost'') ?five ?dash = - 1"
    "metricCompare mul (js ''Cost'') ?dash ?dash = 0" for mul
    using missing_sorts_last [of ?dash "js ''Cost''" ?five mul]
      missing_sorts_last [of ?dash "js ''Cost''" ?dash mul] d f
    by simp_all
  have s: "sortDataRows sortDir (js ''Cost'') [?dash, ?five] = [?five, ?dash]" for sortDir
    by (simp add: sortDataRows_def jsSort_def Let_def c)
  show ?thesis
    using d f c s by simp
qed

section \<open>Properties of the header detection\<close>

lemma findHeaderFrom_none:
  "(\<forall>r\<in>set rws. \<not> (3 \<le> length r \<and> (\<exists>c\<in>set r. isSearchTermHeaderKey (normalizeHeader lower c))))
   \<Longrightarrow> findHeaderFrom lower rws k = - 1"
  by (induction rws arbitrary: k) (auto simp: list_ex_iff)

lemma findHeaderFrom_first:
  "i < length rws \<Longrightarrow>
   3 \<le> length (rws ! i) \<Longrightarrow>
   \<exists>c\<in>set (rws ! i). isSearchTermHeaderKey (normalizeHeader lower c) \<Longrightarrow>
   (\<forall>j<i. \<not> (3 \<le> length (rws ! j) \<and>
       (\<exists>c\<in>set (rws ! j). isSearchTermHeaderKey (normalizeHeader lower c)))) \<Longrightarrow>
   findHeaderFrom lower rws k = k + int i"
proof (induction rws arbitrary: i k)
  case Nil
  then show ?case by simp
next
  case (Cons r rws)
  show ?case
  proof (cases i)
    case 0
    with Cons.prems show ?thesis by (auto simp: list_ex_iff)
  next
    case (Suc i')
    from Cons.prems(4) Suc have r: "\<not> (3 \<le> length r \<and>
        (\<exists>c\<in>set r. isSearchTermHeaderKey (normalizeHeader lower c)))"
      by (auto dest: spec [of _ 0])
    have "findHeaderFrom lower rws (k + 1) = (k + 1) + int i'"
    proof (rule Cons.IH)
      show "i' < length rws" using Cons.prems(1) Suc by simp
      show "3 \<le> length (rws ! i')" using Cons.prems(2) Suc by simp
      show "\<exists>c\<in>set (rws ! i'). isSearchTermHeaderKey (normalizeHeader lower c)"
        using Cons.prems(3) Suc by simp
      show "\<forall>j<i'. \<not> (3 \<le> length (rws ! j) \<and>
          (\<exists>c\<in>set (rws ! j). isSearchTermHeaderKey (normalizeHeader lower c)))"
      proof (intro allI impI)
        fix j assume "j < i'"
        then have "Suc j < i" using Suc by simp
        with Cons.prems(4) show "\<not> (3 \<le> length (rws ! j) \<and>
          (\<exists>c\<in>set (rws ! j). isSearchTermHeaderKey (normalizeHeader lower c)))"
          by (auto dest!: spec [of _ "Suc j"])
      qed
    qed
    with r Suc show ?thesis by (auto simp: list_ex_iff)
  qed
qed

text \<open>The rows and fields of the report on the simple-mode path.\<close>

lemma row_keys_distinct:
  "js ''searchTerm'' \<noteq> js ''campaign''" "js ''searchTerm'' \<noteq> js ''adGroup''"
  "js ''campaign'' \<noteq> js ''adGroup''" "js ''__rowType'' \<noteq> js ''searchTerm''"
  "js ''__rowType'' \<noteq> js ''campaign''" "js ''__rowType'' \<noteq> js ''adGroup''"
  "js ''__rowId'' \<noteq> js ''searchTerm''" "js ''__rowId'' \<noteq> js ''campaign''"
  "js ''__rowId'' \<noteq> js ''adGroup''" "js ''__rowId'' \<noteq> js ''__rowType''"
  by (simp_all add: js_def)

lemma simpleRow_keeps:
  assumes "c \<noteq> js ''searchTerm''" and "c \<noteq> js ''campaign''" and "c \<noteq> js ''adGroup''"
    and "r c = Some v"
  shows "simpleRow lower searchTermCol campaignCol adGroupCol i r c = Some v"
  using assms by (simp add: simpleRow_def map_add_def)

lemma simpleRow_derived:
  "simpleRow lower searchTermCol campaignCol adGroupCol i r (js ''searchTerm'') =
     Some (JStr (getStr r searchTermCol))"
  "simpleRow lower searchTermCol campaignCol adGroupCol i r (js ''campaign'') =
     Some (JStr (optionalField campaignCol r))"
  "simpleRow lower searchTermCol campaignCol adGroupCol i r (js ''adGroup'') =
     Some (JStr (optionalField adGroupCol r))"
  by (simp_all add: simpleRow_def row_keys_distinct)

lemma simpleRow_tags:
  "r (js ''__rowType'') = None \<Longrightarrow>
   simpleRow lower searchTermCol campaignCol adGroupCol i r (js ''__rowType'') =
     Some (JStr (if isTotalLabel lower (getStr r searchTermCol) then js ''total'' else js ''data''))"
  "r (js ''__rowId'') = None \<Longrightarrow>
   simpleRow lower searchTermCol campaignCol adGroupCol i r (js ''__rowId'') = Some (JNum (i + 1))"
  by (simp_all add: simpleRow_def row_keys_distinct map_add_def)

lemma parseSimpleHeaderCsv_rows:
  "length (rows (parseSimpleHeaderCsv lower papaObjects textRaw ws)) =
     length (parsedData (papaObjects textRaw))"
  "k < length (parsedData (papaObjects textRaw)) \<Longrightarrow>
   rows (parseSimpleHeaderCsv lower papaObjects textRaw ws) ! k =
     simpleRow lower (detectSearchTermColumn lower (parsedFields (papaObjects textRaw)))
       (detectCampaignColumn lower (parsedFields (papaObjects textRaw)))
       (detectAdGroupColumn lower (parsedFields (papaObjects textRaw)))
       k (parsedData (papaObjects textRaw) ! k)"
  by (simp_all add: parseSimpleHeaderCsv_def Let_def del: detectSearchTermColumn.simps)

lemma parseSimpleHeaderCsv_fields:
  "columns (parseSimpleHeaderCsv lower papaObjects textRaw ws) =
     (if parsedFields (papaObjects textRaw) \<noteq> [] then parsedFields (papaObjects textRaw)
      else [if detectSearchTermColumn lower (parsedFields (papaObjects textRaw)) \<noteq> []
            then detectSearchTermColumn lower (parsedFields (papaObjects textRaw))
            else js ''Search term''])"
  "searchTermColumnName (parseSimpleHeaderCsv lower papaObjects textRaw ws) =
     detectSearchTermColumn lower (parsedFields (papaObjects textRaw))"
  "campaignColumnName (parseSimpleHeaderCsv lower papaObjects textRaw ws) =
     detectCampaignColumn lower (parsedFields (papaObjects textRaw))"
  "adGroupColumnName (parseSimpleHeaderCsv lower papaObjects textRaw ws) =
     detectAdGroupColumn lower (parsedFields (papaObjects textRaw))"
  "warnings (parseSimpleHeaderCsv lower papaObjects textRaw ws) =
     ws @ parseWarning (parsedErrors (papaObjects textRaw))"
  "meta (parseSimpleHeaderCsv lower papaObjects textRaw ws) =
     \<lparr> preambleLines = [], dateRange = None \<rparr>"
  by (simp_all add: parseSimpleHeaderCsv_def Let_def del: detectSearchTermColumn.simps)

text \<open>
  C5. findHeaderRowIndex returns the smallest index of a row that has at least three
  cells, one of which has a normalized text satisfying isSearchTermHeaderKey; a row with
  fewer than three cells never qualifies; when no row qualifies it returns -1. Then
  parseSearchTermsCsv takes the simple-mode path, which treats the first row as the
  header: the columns of the report are the fields of the parse with header (the
  detected search-term label alone when there are none), the detected roles are those
  of these fields, the warnings are those of the scan followed by those of the parse
  with header, there is no preamble and no date range, and the rows are the objects of
  the parse with header, one for one and in their order, each keeping its cells under
  the field names and carrying the derived searchTerm, campaign and adGroup, the row
  type and the row number.
\<close>

theorem findHeaderRowIndex_first_qualifying:
  "(i < length rws \<and> 3 \<le> length (rws ! i) \<and>
    (\<exists>c\<in>set (rws ! i). isSearchTermHeaderKey (normalizeHeader lower c)) \<and>
    (\<forall>j<i. \<not> (3 \<le> length (rws ! j) \<and>
       (\<exists>c\<in>set (rws ! j). isSearchTermHeaderKey (normalizeHeader lower c))))
    \<longrightarrow> findHeaderRowIndex lower rws = int i) \<and>
   ((\<forall>j<length rws. \<not> (3 \<le> length (rws ! j) \<and>
       (\<exists>c\<in>set (rws ! j). isSearchTermHeaderKey (normalizeHeader lower c))))
    \<longrightarrow> findHeaderRowIndex lower rws = - 1) \<and>
   (findHeaderRowIndex lower (scanData (papaRows (stripBom input))) = - 1 \<longrightarrow>
      (let parsed = papaObjects (stripBom input);
           rep = parseSearchTermsCsv lower localeCompare papaRows papaObjects input;
           col = detectSearchTermColumn lower (parsedFields parsed);
           campaignCol = detectCampaignColumn lower (parsedFields parsed);
           adGroupCol = detectAdGroupColumn lower (parsedFields parsed)
       in rep = parseSimpleHeaderCsv lower papaObjects (stripBom input)
                  (parseWarning (scanErrors (papaRows (stripBom input)))) \<and>
          columns rep =
            (if parsedFields parsed \<noteq> [] then parsedFields parsed
             else [if col \<noteq> [] then col else js ''Search term'']) \<and>
          searchTermColumnName rep = col \<and>
          campaignColumnName rep = campaignCol \<and>
          adGroupColumnName rep = adGroupCol \<and>
          warnings rep =
            parseWarning (scanErrors (papaRows (stripBom input))) @
            parseWarning (parsedErrors parsed) \<and>
          meta rep = \<lparr> preambleLines = [], dateRange = None \<rparr> \<and>
          length (rows rep) = length (parsedData parsed) \<and>
          (\<forall>k<length (parsedData parsed).
             (\<forall>c v. c \<noteq> js ''searchTerm'' \<and> c \<noteq> js ''campaign'' \<and> c \<noteq> js ''adGroup'' \<and>
                    (parsedData parsed ! k) c = Some v \<longrightarrow>
                    (rows rep ! k) c = Some v) \<and>
             (rows rep ! k) (js ''searchTerm'') =
               Some (JStr (getStr (parsedData parsed ! k) col)) \<and>
             (rows rep ! k) (js ''campaign'') =
               Some (JStr (optionalField campaignCol (parsedData parsed ! k))) \<and>
             (rows rep ! k) (js ''adGroup'') =
               Some (JStr (optionalField adGroupCol (parsedData parsed ! k))) \<and>
             ((parsedData parsed ! k) (js ''__rowType'') = None \<longrightarrow>
                (rows rep ! k) (js ''__rowType'') =
                  Some (JStr (if isTotalLabel lower (getStr (parsedData parsed ! k) col)
                              then js ''total'' else js ''data''))) \<and>
             ((parsedData parsed ! k) (js ''__rowId'') = None \<longrightarrow>
                (rows rep ! k) (js ''__rowId'') = Some (JNum (k + 1))))))"
proof (intro conjI impI)
  assume "i < length rws \<and> 3 \<le> length (rws ! i) \<and>
    (\<exists>c\<in>set (rws ! i). isSearchTermHeaderKey (normalizeHeader lower c)) \<and>
    (\<forall>j<i. \<not> (3 \<le> length (rws ! j) \<and>
       (\<exists>c\<in>set (rws ! j). isSearchTermHeaderKey (normalizeHeader lower c))))"
  then show "findHeaderRowIndex lower rws = int i"
    using findHeaderFrom_first [of i rws lower 0] by (simp add: findHeaderRowIndex_def)
next
  assume "\<forall>j<length rws. \<not> (3 \<le> length (rws ! j) \<and>
       (\<exists>c\<in>set (rws ! j). isSearchTermHeaderKey (normalizeHeader lower c)))"
  then have "\<forall>r\<in>set rws. \<not> (3 \<le> length r \<and>
       (\<exists>c\<in>set r. isSearchTermHeaderKey (normalizeHeader lower c)))"
    by (metis in_set_conv_nth)
  then show "findHeaderRowIndex lower rws = - 1"
    unfolding findHeaderRowIndex_def by (rule findHeaderFrom_none)
next
  assume "findHeaderRowIndex lower (scanData (papaRows (stripBom input))) = - 1"
  then have simple: "parseSearchTermsCsv lower localeCompare papaRows papaObjects input =
      parseSimpleHeaderCsv lower papaObjects (stripBom input)
        (parseWarning (scanErrors (papaRows (stripBom input))))"
    by (simp add: parseSearchTermsCsv_def Let_def)
  show "let parsed = papaObjects (stripBom input);
           rep = parseSearchTermsCsv lower localeCompare papaRows papaObjects input;
           col = detectSearchTermColumn lower (parsedFields parsed);
           campaignCol = detectCampaignColumn lower (parsedFields parsed);
           adGroupCol = detectAdGroupColumn lower (parsedFields parsed)
       in rep = parseSimpleHeaderCsv lower papaObjects (stripBom input)
                  (parseWarning (scanErrors (papaRows (stripBom input)))) \<and>
          columns rep =
            (if parsedFields parsed \<noteq> [] then parsedFields parsed
             else [if col \<noteq> [] then col else js ''Search term'']) \<and>
          searchTermColumnName rep = col \<and>
          campaignColumnName rep = campaignCol \<and>
          adGroupColumnName rep = adGroupCol \<and>
          warnings rep =
            parseWarning (scanErrors (papaRows (stripBom input))) @
            parseWarning (parsedErrors parsed) \<and>
          meta rep = \<lparr> preambleLines = [], dateRange = None \<rparr> \<and>
          length (rows rep) = length (parsedData parsed) \<and>
          (\<forall>k<length (parsedData parsed).
             (\<forall>c v. c \<noteq> js ''searchTerm'' \<and> c \<noteq> js ''campaign'' \<and> c \<noteq> js ''adGroup'' \<and>
                    (parsedData parsed ! k) c = Some v \<longrightarrow>
                    (rows rep ! k) c = Some v) \<and>
             (rows rep ! k) (js ''searchTerm'') =
               Some (JStr (getStr (parsedData parsed ! k) col)) \<and>
             (rows rep ! k) (js ''campaign'') =
               Some (JStr (optionalField campaignCol (parsedData parsed ! k))) \<and>
             (rows rep ! k) (js ''adGroup'') =
               Some (JStr (optionalField adGroupCol (parsedData parsed ! k))) \<and>
             ((parsedData parsed ! k) (js ''__rowType'') = None \<longrightarrow>
                (rows rep ! k) (js ''__rowType'') =
                  Some (JStr (if isTotalLabel lower (getStr (parsedData parsed ! k) col)
                              then js ''total'' else js ''data''))) \<and>
             ((parsedData parsed ! k) (js ''__rowId'') = None \<longrightarrow>
                (rows rep ! k) (js ''__rowId'') = Some (JNum (k + 1))))"
    unfolding Let_def simple
    by (simp only: parseSimpleHeaderCsv_fields parseSimpleHeaderCsv_rows simpleRow_derived
        simpleRow_keeps simpleRow_tags)
      (simp add: parseSimpleHeaderCsv_rows simpleRow_derived simpleRow_keeps simpleRow_tags
        del: detectSearchTermColumn.simps)
qed

lemmas header_defs = normalizeHeader_def stripBom_def trim_def lowerBasic_def lowerUnit_def
  js_def isWhiteSpace_def

lemma normalizeHeader_Search_term:
  "normalizeHeader lowerBasic (js ''Search term'') = js ''search term''"
  by (simp add: header_defs)

lemma key_search_term: "isSearchTermHeaderKey (js ''search term'')"
  by (simp add: isSearchTermHeaderKey_def exactCandidates_def)

section \<open>Properties of the search term column detection\<close>

lemma find_unique:
  assumes "x \<in> set xs" and "P x" and "\<forall>y\<in>set xs. P y \<longrightarrow> y = x"
  shows "find P xs = Some x"
  using assms(1,3)
proof (induction xs)
  case Nil
  then show ?case by simp
next
  case (Cons a xs)
  show ?case
  proof (cases "P a")
    case True
    with Cons.prems(2) have "a = x" by simp
    with True show ?thesis by simp
  next
    case False
    with \<open>P x\<close> have "a \<noteq> x" by blast
    with Cons.prems(1) have "x \<in> set xs" by simp
    moreover from Cons.prems(2) have "\<forall>y\<in>set xs. P y \<longrightarrow> y = x" by simp
    ultimately have "find P xs = Some x" by (rule Cons.IH)
    with False show ?thesis by simp
  qed
qed

lemma find_none: "\<forall>y\<in>set xs. \<not> P y \<Longrightarrow> find P xs = None"
  by (simp add: find_None_iff)

lemma tier_3: "searchTermTier lower c = 3 \<longleftrightarrow> normalizeHeader lower c \<in> set exactCandidates"
  unfolding searchTermTier_def by (auto split: if_splits)

lemma tier_2:
  "searchTermTier lower c = 2 \<longleftrightarrow>
   normalizeHeader lower c \<notin> set exactCandidates \<and> enHeuristic (normalizeHeader lower c)"
  unfolding searchTermTier_def by (auto split: if_splits)

lemma tier_1:
  "searchTermTier lower c = Suc 0 \<longleftrightarrow>
   normalizeHeader lower c \<notin> set exactCandidates \<and> \<not> enHeuristic (normalizeHeader lower c) \<and>
   ruHeuristic (normalizeHeader lower c)"
  unfolding searchTermTier_def by (auto split: if_splits)

lemma tier_cases:
  "searchTermTier lower c = 0 \<or> searchTermTier lower c = Suc 0 \<or> searchTermTier lower c = 2 \<or>
   searchTermTier lower c = 3"
  unfolding searchTermTier_def by (auto split: if_splits)

lemma detectSearchTermColumn_unique_top:
  assumes c: "c \<in> set cols" and pos: "0 < searchTermTier lower c"
    and top: "\<forall>d\<in>set cols. searchTermTier lower d \<le> searchTermTier lower c"
    and uniq: "\<forall>d\<in>set cols. searchTermTier lower d = searchTermTier lower c \<longrightarrow> d = c"
  shows "detectSearchTermColumn lower cols = c"
proof -
  let ?ex = "\<lambda>c. normalizeHeader lower c \<in> set exactCandidates"
  let ?en = "\<lambda>c. enHeuristic (normalizeHeader lower c)"
  let ?ru = "\<lambda>c. ruHeuristic (normalizeHeader lower c)"
  from c obtain c0 cs where cols: "cols = c0 # cs" by (cases cols) auto
  from pos tier_cases [of lower c]
  consider (exact) "searchTermTier lower c = 3" | (en) "searchTermTier lower c = 2"
    | (ru) "searchTermTier lower c = Suc 0"
    by auto
  then show ?thesis
  proof cases
    case exact
    then have "?ex c" by (simp add: tier_3)
    moreover have "\<forall>d\<in>set cols. ?ex d \<longrightarrow> d = c"
    proof (intro ballI impI)
      fix d assume "d \<in> set cols" "?ex d"
      then have "searchTermTier lower d = 3" by (simp add: tier_3)
      then have "searchTermTier lower d = searchTermTier lower c"
        using exact by simp
      with uniq \<open>d \<in> set cols\<close> show "d = c" by blast
    qed
    ultimately have "find ?ex cols = Some c" using c by (intro find_unique)
    then show ?thesis unfolding cols detectSearchTermColumn.simps by (simp only: option.case)
  next
    case en
    then have enc: "?en c" by (simp add: tier_2)
    have noex: "\<forall>d\<in>set cols. \<not> ?ex d"
    proof (intro ballI notI)
      fix d assume "d \<in> set cols" "?ex d"
      then have "searchTermTier lower d = 3" by (simp add: tier_3)
      with top \<open>d \<in> set cols\<close> en show False by fastforce
    qed
    have "\<forall>d\<in>set cols. ?en d \<longrightarrow> d = c"
    proof (intro ballI impI)
      fix d assume d: "d \<in> set cols" "?en d"
      with noex have "searchTermTier lower d = 2" by (simp add: tier_2)
      with uniq d en show "d = c" by simp
    qed
    with enc c have "find ?en cols = Some c" by (intro find_unique)
    moreover from noex have "find ?ex cols = None" by (rule find_none)
    ultimately show ?thesis unfolding cols detectSearchTermColumn.simps
      by (simp only: option.case)
  next
    case ru
    then have ruc: "?ru c" by (simp add: tier_1)
    have noex: "\<forall>d\<in>set cols. \<not> ?ex d"
    proof (intro ballI notI)
      fix d assume "d \<in> set cols" "?ex d"
      then have "searchTermTier lower d = 3" by (simp add: tier_3)
      with top \<open>d \<in> set cols\<close> ru show False by fastforce
    qed
    have noen: "\<forall>d\<in>set cols. \<not> ?en d"
    proof (intro ballI notI)
      fix d assume d: "d \<in> set cols" "?en d"
      with noex have "searchTermTier lower d = 2" by (simp add: tier_2)
      with top d ru show False by fastforce
    qed
    have "\<forall>d\<in>set cols. ?ru d \<longrightarrow> d = c"
    proof (intro ballI impI)
      fix d assume d: "d \<in> set cols" "?ru d"
      with noex noen have "searchTermTier lower d = Suc 0" by (simp add: tier_1)
      with uniq d ru show "d = c" by simp
    qed
    with ruc c have "find ?ru cols = Some c" by (intro find_unique)
    moreover from noex have "find ?ex cols = None" by (rule find_none)
    moreover from noen have "find ?en cols = None" by (rule find_none)
    ultimately show ?thesis unfolding cols detectSearchTermColumn.simps
      by (simp only: option.case)
  qed
qed

lemma detectSearchTermColumn_fallback:
  assumes "\<forall>d\<in>set (c0 # cs). searchTermTier lower d = 0"
  shows "detectSearchTermColumn lower (c0 # cs) = c0"
proof -
  have z: "normalizeHeader lower d \<notin> set exactCandidates \<and>
      \<not> enHeuristic (normalizeHeader lower d) \<and> \<not> ruHeuristic (normalizeHeader lower d)"
    if "d \<in> set (c0 # cs)" for d
  proof -
    from assms that have "searchTermTier lower d = 0" by blast
    then show ?thesis unfolding searchTermTier_def by (auto split: if_splits)
  qed
  have "find (\<lambda>c. normalizeHeader lower c \<in> set exactCandidates) (c0 # cs) = None"
    by (rule find_none) (use z in blast)
  moreover have "find (\<lambda>c. enHeuristic (normalizeHeader lower c)) (c0 # cs) = None"
    by (rule find_none) (use z in blast)
  moreover have "find (\<lambda>c. ruHeuristic (normalizeHeader lower c)) (c0 # cs) = None"
    by (rule find_none) (use z in blast)
  ultimately show ?thesis unfolding detectSearchTermColumn.simps by (simp only: option.case)
qed

text \<open>
  C8, amended. When some column matches a rule of detectSearchTermColumn and the columns
  of the highest tier all carry one label, detectSearchTermColumn returns that label on
  the list and on every permutation of it. When no column matches any rule, it returns
  the first column of the list as given, which depends on the order.
\<close>

theorem detectSearchTermColumn_permutation:
  "(mset cols' = mset cols \<and> c \<in> set cols \<and> 0 < searchTermTier lower c \<and>
    (\<forall>d\<in>set cols. searchTermTier lower d \<le> searchTermTier lower c) \<and>
    (\<forall>d\<in>set cols. searchTermTier lower d = searchTermTier lower c \<longrightarrow> d = c)
    \<longrightarrow> detectSearchTermColumn lower cols' = c \<and> detectSearchTermColumn lower cols = c) \<and>
   ((\<forall>d\<in>set (c0 # cs). searchTermTier lower d = 0)
    \<longrightarrow> detectSearchTermColumn lower (c0 # cs) = c0)"
proof (intro conjI impI)
  assume a: "mset cols' = mset cols \<and> c \<in> set cols \<and> 0 < searchTermTier lower c \<and>
    (\<forall>d\<in>set cols. searchTermTier lower d \<le> searchTermTier lower c) \<and>
    (\<forall>d\<in>set cols. searchTermTier lower d = searchTermTier lower c \<longrightarrow> d = c)"
  then have m: "mset cols' = mset cols" and c: "c \<in> set cols"
    and pos: "0 < searchTermTier lower c"
    and top: "\<forall>d\<in>set cols. searchTermTier lower d \<le> searchTermTier lower c"
    and uniq: "\<forall>d\<in>set cols. searchTermTier lower d = searchTermTier lower c \<longrightarrow> d = c"
    by simp_all
  from m have s: "set cols' = set cols" by (rule mset_eq_setD)
  show "detectSearchTermColumn lower cols = c"
    using c pos top uniq by (rule detectSearchTermColumn_unique_top)
  show "detectSearchTermColumn lower cols' = c"
    using c pos top uniq unfolding s [symmetric] by (rule detectSearchTermColumn_unique_top)
next
  assume "\<forall>d\<in>set (c0 # cs). searchTermTier lower d = 0"
  then show "detectSearchTermColumn lower (c0 # cs) = c0"
    by (rule detectSearchTermColumn_fallback)
qed

lemmas ru_header_defs = ru_poiskovyi_zapros_def ru_poiskovye_zaprosy_def ru_poiskovyi_termin_def
  ru_poiskovye_terminy_def ru_poiskovaya_fraza_def ru_poiskovye_frazy_def ru_poisk_def
  ru_poiskov_def ru_zapros_def ru_termin_def ru_fraz_def

lemmas tier_defs = searchTermTier_def exactCandidates_def enHeuristic_def ruHeuristic_def
  ru_header_defs js_def

lemma normalizeHeader_examples:
  "normalizeHeader lowerBasic (js ''Keyword'') = js ''keyword''"
  "normalizeHeader lowerBasic (js ''Cost'') = js ''cost''"
  "normalizeHeader lowerBasic (js ''Campaign'') = js ''campaign''"
  by (simp_all add: header_defs)

lemma tier_Keyword: "searchTermTier lowerBasic (js ''Keyword'') = 0"
  unfolding searchTermTier_def normalizeHeader_examples by (simp add: tier_defs)

lemma tier_Cost: "searchTermTier lowerBasic (js ''Cost'') = 0"
  unfolding searchTermTier_def normalizeHeader_examples by (simp add: tier_defs)

lemma tier_Campaign: "searchTermTier lowerBasic (js ''Campaign'') = 0"
  unfolding searchTermTier_def normalizeHeader_examples by (simp add: tier_defs)

lemma tier_Search_term: "searchTermTier lowerBasic (js ''Search term'') = 3"
  unfolding searchTermTier_def normalizeHeader_Search_term by (simp add: exactCandidates_def)

text \<open>
  C8, as stated, fails when no column matches any rule: the function then returns the
  first column, whichever it is.
\<close>

theorem detectSearchTermColumn_order_counterexample:
  "mset [js ''Cost'', js ''Keyword''] = mset [js ''Keyword'', js ''Cost''] \<and>
   detectSearchTermColumn lowerBasic [js ''Keyword'', js ''Cost''] = js ''Keyword'' \<and>
   detectSearchTermColumn lowerBasic [js ''Cost'', js ''Keyword''] = js ''Cost'' \<and>
   js ''Keyword'' \<noteq> js ''Cost''"
proof -
  have "detectSearchTermColumn lowerBasic [js ''Keyword'', js ''Cost''] = js ''Keyword''"
    by (rule detectSearchTermColumn_fallback) (simp add: tier_Keyword tier_Cost)
  moreover have "detectSearchTermColumn lowerBasic [js ''Cost'', js ''Keyword''] = js ''Cost''"
    by (rule detectSearchTermColumn_fallback) (simp add: tier_Keyword tier_Cost)
  moreover have "js ''Keyword'' \<noteq> js ''Cost''" by (simp add: js_def)
  ultimately show ?thesis by simp
qed

theorem detectSearchTermColumn_permutation_witness:
  "detectSearchTermColumn lowerBasic [js ''Search term'', js ''Campaign''] = js ''Search term'' \<and>
   detectSearchTermColumn lowerBasic [js ''Campaign'', js ''Search term''] = js ''Search term'' \<and>
   detectSearchTermColumn lowerBasic [js ''Keyword'', js ''Cost''] = js ''Keyword''"
proof -
  have ne: "js ''Campaign'' \<noteq> js ''Search term''" by (simp add: js_def)
  show ?thesis
    using detectSearchTermColumn_permutation
      [of "[js ''Search term'', js ''Campaign'']" "[js ''Campaign'', js ''Search term'']"
        "js ''Search term''" lowerBasic "js ''Keyword''" "[js ''Cost'']"]
    by (simp add: tier_Search_term tier_Campaign tier_Keyword tier_Cost ne)
qed

section \<open>Properties of the totals order\<close>

lemma totalsCompare_le:
  "totalsCompare lower lc col a b \<le> 0 \<longleftrightarrow>
   rank lower col a < rank lower col b \<or>
   (rank lower col a = rank lower col b \<and>
    lc (totalBucket lower (totalLabel col a)) (totalBucket lower (totalLabel col b)) \<le> 0)"
  by (auto simp: totalsCompare_def Let_def)

lemma totalsCompare_trans:
  assumes "\<forall>a b c. lc a b \<le> 0 \<and> lc b c \<le> 0 \<longrightarrow> lc a c \<le> 0"
    and "totalsCompare lower lc col a b \<le> 0" and "totalsCompare lower lc col b c \<le> 0"
  shows "totalsCompare lower lc col a c \<le> 0"
proof -
  let ?B = "\<lambda>r. totalBucket lower (totalLabel col r)"
  from assms(2,3) consider "rank lower col a < rank lower col c"
    | "rank lower col a = rank lower col c" "lc (?B a) (?B b) \<le> 0" "lc (?B b) (?B c) \<le> 0"
    unfolding totalsCompare_le by force
  then show ?thesis
  proof cases
    case 1
    then show ?thesis by (simp add: totalsCompare_le)
  next
    case 2
    with assms(1) have "lc (?B a) (?B c) \<le> 0" by blast
    with 2 show ?thesis by (simp add: totalsCompare_le)
  qed
qed

lemma totalsCompare_total:
  assumes "\<forall>a b. 0 < lc a b \<longrightarrow> lc b a \<le> 0"
    and "0 < totalsCompare lower lc col a b"
  shows "totalsCompare lower lc col b a \<le> 0"
  using assms by (auto simp: totalsCompare_def Let_def split: if_splits)

lemma indexOf_notin: "x \<notin> set ys \<Longrightarrow> indexOf ys x = - 1"
  by (induction ys) auto

lemma indexOf_in: "x \<in> set ys \<Longrightarrow> 0 \<le> indexOf ys x \<and> indexOf ys x < int (length ys) \<and> ys ! nat (indexOf ys x) = x"
proof (induction ys)
  case Nil
  then show ?case by simp
next
  case (Cons y ys)
  show ?case
  proof (cases "y = x")
    case True
    then show ?thesis by simp
  next
    case False
    with Cons.prems have "x \<in> set ys" by simp
    from Cons.IH [OF this] False show ?thesis
      by (auto simp: Let_def nat_add_distrib)
  qed
qed

lemma codeUnitCompare_flip: "codeUnitCompare b a = - codeUnitCompare a b"
  by (induction a b rule: codeUnitCompare.induct) auto

lemma codeUnitCompare_trans:
  "codeUnitCompare a b \<le> 0 \<Longrightarrow> codeUnitCompare b c \<le> 0 \<Longrightarrow> codeUnitCompare a c \<le> 0"
proof (induction a arbitrary: b c)
  case Nil
  then show ?case by (cases c) auto
next
  case (Cons x xs)
  from Cons.prems(1) obtain y ys where b: "b = y # ys" by (cases b) auto
  from Cons.prems(2) b obtain z zs where c: "c = z # zs" by (cases c) auto
  from Cons.prems b c have xy: "x \<le> y" and yz: "y \<le> z"
    by (auto split: if_splits)
  show ?case
  proof (cases "x < z")
    case True
    then show ?thesis by (simp add: c)
  next
    case False
    with xy yz have e: "x = y" "y = z" by auto
    with Cons.prems b c have "codeUnitCompare xs ys \<le> 0" "codeUnitCompare ys zs \<le> 0"
      by auto
    then have "codeUnitCompare xs zs \<le> 0" by (rule Cons.IH)
    with e show ?thesis by (simp add: c)
  qed
qed

lemma codeUnitCompare_consistent:
  "\<forall>a b c. codeUnitCompare a b \<le> 0 \<and> codeUnitCompare b c \<le> 0 \<longrightarrow> codeUnitCompare a c \<le> 0"
  "\<forall>a b. 0 < codeUnitCompare a b \<longrightarrow> codeUnitCompare b a \<le> 0"
proof -
  show "\<forall>a b c. codeUnitCompare a b \<le> 0 \<and> codeUnitCompare b c \<le> 0 \<longrightarrow>
      codeUnitCompare a c \<le> 0"
  proof (intro allI impI)
    fix a b c
    assume "codeUnitCompare a b \<le> 0 \<and> codeUnitCompare b c \<le> 0"
    then have "codeUnitCompare a b \<le> 0" "codeUnitCompare b c \<le> 0" by simp_all
    then show "codeUnitCompare a c \<le> 0" by (rule codeUnitCompare_trans)
  qed
  show "\<forall>a b. 0 < codeUnitCompare a b \<longrightarrow> codeUnitCompare b a \<le> 0"
  proof (intro allI impI)
    fix a b
    assume "0 < codeUnitCompare a b"
    moreover have "codeUnitCompare b a = - codeUnitCompare a b" by (rule codeUnitCompare_flip)
    ultimately show "codeUnitCompare b a \<le> 0" by linarith
  qed
qed

lemma rank_known:
  assumes "totalBucket lower (totalLabel col r) \<in> set order"
  shows "0 \<le> rank lower col r \<and> rank lower col r < 6 \<and>
         order ! nat (rank lower col r) = totalBucket lower (totalLabel col r)"
proof -
  have "length order = 6" by (simp add: order_def)
  with indexOf_in [OF assms] show ?thesis
    by (auto simp: rank_def Let_def)
qed

lemma rank_unknown:
  assumes "totalBucket lower (totalLabel col r) \<notin> set order"
  shows "rank lower col r = 999"
  using indexOf_notin [OF assms] by (simp add: rank_def Let_def)

lemmas bucket_defs = totalBucket_def normalizeHeader_def stripBom_def trim_def lowerBasic_def
  lowerUnit_def js_def isWhiteSpace_def Let_def

lemma bucket_examples:
  "totalBucket lowerBasic (js ''Total: Performance Max'') = js ''performance max''"
  "totalBucket lowerBasic (js ''Total: Search'') = js ''search''"
  "totalBucket lowerBasic (js ''Total: Shopping'') = js ''shopping''"
  "totalBucket lowerBasic (js ''Total: Audio'') = js ''audio''"
  by (simp_all add: bucket_defs)

lemma index_examples:
  "indexOf order (js ''performance max'') = 0"
  "indexOf order (js ''search'') = 5"
  "indexOf order (js ''shopping'') = - 1"
  "indexOf order (js ''audio'') = - 1"
  by (simp_all add: order_def js_def)

lemma rank_examples:
  "totalLabel col r = js ''Total: Performance Max'' \<Longrightarrow> rank lowerBasic col r = 0"
  "totalLabel col r = js ''Total: Search'' \<Longrightarrow> rank lowerBasic col r = 5"
  "totalLabel col r = js ''Total: Shopping'' \<Longrightarrow> rank lowerBasic col r = 999"
  "totalLabel col r = js ''Total: Audio'' \<Longrightarrow> rank lowerBasic col r = 999"
  by (simp_all add: rank_def bucket_examples index_examples)

text \<open>
  C6. For a consistent localeCompare, sortTotals returns the total rows rearranged so
  that they are sorted by the rank of their bucket and, within one rank, by
  localeCompare of the bucket text; rows that the comparator does not order either way
  keep their order. The rank of a bucket of the fixed list (performance max, display,
  demand gen, account, filtered search terms, search) is its position there, 0 to 5,
  and the rank of every other bucket is 999. A row labelled "Total: Performance Max"
  compares before one labelled "Total: Search", and "Total: Shopping" has rank 999.
\<close>

theorem sortTotals_by_bucket_priority:
  assumes "\<forall>a b c. localeCompare a b \<le> 0 \<and> localeCompare b c \<le> 0 \<longrightarrow> localeCompare a c \<le> 0"
    and "\<forall>a b. 0 < localeCompare a b \<longrightarrow> localeCompare b a \<le> 0"
  shows
    "mset (sortTotals lower localeCompare totalRows col) = mset totalRows \<and>
     sorted_wrt
       (\<lambda>a b. rank lower col a < rank lower col b \<or>
          (rank lower col a = rank lower col b \<and>
           localeCompare (totalBucket lower (totalLabel col a))
             (totalBucket lower (totalLabel col b)) \<le> 0))
       (sortTotals lower localeCompare totalRows col) \<and>
     filter (\<lambda>r. totalsCompare lower localeCompare col x r \<le> 0 \<and>
                 totalsCompare lower localeCompare col r x \<le> 0)
       (sortTotals lower localeCompare totalRows col) =
     filter (\<lambda>r. totalsCompare lower localeCompare col x r \<le> 0 \<and>
                 totalsCompare lower localeCompare col r x \<le> 0) totalRows \<and>
     (totalBucket lower (totalLabel col r) \<in> set order \<longrightarrow>
        0 \<le> rank lower col r \<and> rank lower col r < 6 \<and>
        order ! nat (rank lower col r) = totalBucket lower (totalLabel col r)) \<and>
     (totalBucket lower (totalLabel col r) \<notin> set order \<longrightarrow> rank lower col r = 999) \<and>
     (totalLabel col a = js ''Total: Performance Max'' \<and> totalLabel col b = js ''Total: Search'' \<longrightarrow>
        rank lowerBasic col a = 0 \<and> rank lowerBasic col b = 5 \<and>
        totalsCompare lowerBasic localeCompare col a b < 0) \<and>
     (totalLabel col s = js ''Total: Shopping'' \<longrightarrow> rank lowerBasic col s = 999)"
proof -
  let ?cmp = "totalsCompare lower localeCompare col"
  have m: "mset (sortTotals lower localeCompare totalRows col) = mset totalRows"
    by (simp add: sortTotals_def mset_jsSort)
  have "sorted_wrt (\<lambda>a b. ?cmp a b \<le> 0) (jsSort ?cmp totalRows)"
  proof (rule jsSort_sorted_wrt)
    show "?cmp a b \<le> 0 \<Longrightarrow> ?cmp b c \<le> 0 \<Longrightarrow> ?cmp a c \<le> 0" for a b c
      using assms(1) by (rule totalsCompare_trans)
    show "0 < ?cmp x y \<Longrightarrow> ?cmp y x \<le> 0" for x y
      using assms(2) by (rule totalsCompare_total)
  qed simp
  then have s: "sorted_wrt
       (\<lambda>a b. rank lower col a < rank lower col b \<or>
          (rank lower col a = rank lower col b \<and>
           localeCompare (totalBucket lower (totalLabel col a))
             (totalBucket lower (totalLabel col b)) \<le> 0))
       (sortTotals lower localeCompare totalRows col)"
    by (simp add: sortTotals_def totalsCompare_le)
  have f: "filter (\<lambda>r. ?cmp x r \<le> 0 \<and> ?cmp r x \<le> 0) (jsSort ?cmp totalRows) =
           filter (\<lambda>r. ?cmp x r \<le> 0 \<and> ?cmp r x \<le> 0) totalRows"
  proof (rule filter_jsSort)
    fix y z
    assume "?cmp x y \<le> 0 \<and> ?cmp y x \<le> 0" "?cmp x z \<le> 0 \<and> ?cmp z x \<le> 0"
    then have "?cmp y x \<le> 0" "?cmp x z \<le> 0" by simp_all
    with assms(1) show "?cmp y z \<le> 0" by (rule totalsCompare_trans)
  qed
  have p: "totalsCompare lowerBasic localeCompare col a b < 0"
    if "totalLabel col a = js ''Total: Performance Max''" "totalLabel col b = js ''Total: Search''"
    using that by (simp add: totalsCompare_def rank_examples)
  from m s f p show ?thesis
    by (simp add: sortTotals_def rank_known rank_unknown rank_examples)
qed

lemma codeUnitCompare_shopping_audio:
  "codeUnitCompare (js ''shopping'') (js ''audio'') = 1"
  "codeUnitCompare (js ''audio'') (js ''shopping'') = - 1"
  by (simp_all add: js_def)

theorem sortTotals_by_bucket_priority_witness:
  "sortTotals lowerBasic codeUnitCompare
     [[js ''Search term'' \<mapsto> JStr (js ''Total: Shopping'')],
      [js ''Search term'' \<mapsto> JStr (js ''Total: Search'')],
      [js ''Search term'' \<mapsto> JStr (js ''Total: Audio'')],
      [js ''Search term'' \<mapsto> JStr (js ''Total: Performance Max'')]]
     (js ''Search term'') =
     [[js ''Search term'' \<mapsto> JStr (js ''Total: Performance Max'')],
      [js ''Search term'' \<mapsto> JStr (js ''Total: Search'')],
      [js ''Search term'' \<mapsto> JStr (js ''Total: Audio'')],
      [js ''Search term'' \<mapsto> JStr (js ''Total: Shopping'')]] \<and>
   rank lowerBasic (js ''Search term'')
     [js ''Search term'' \<mapsto> JStr (js ''Total: Performance Max'')] = 0 \<and>
   rank lowerBasic (js ''Search term'') [js ''Search term'' \<mapsto> JStr (js ''Total: Search'')] = 5 \<and>
   rank lowerBasic (js ''Search term'')
     [js ''Search term'' \<mapsto> JStr (js ''Total: Shopping'')] = 999 \<and>
   totalsCompare lowerBasic codeUnitCompare (js ''Search term'')
     [js ''Search term'' \<mapsto> JStr (js ''Total: Performance Max'')]
     [js ''Search term'' \<mapsto> JStr (js ''Total: Search'')] < 0"
proof -
  let ?col = "js ''Search term''"
  let ?shop = "[?col \<mapsto> JStr (js ''Total: Shopping'')]"
  let ?search = "[?col \<mapsto> JStr (js ''Total: Search'')]"
  let ?audio = "[?col \<mapsto> JStr (js ''Total: Audio'')]"
  let ?pmax = "[?col \<mapsto> JStr (js ''Total: Performance Max'')]"
  have l: "totalLabel ?col ?shop = js ''Total: Shopping''"
    "totalLabel ?col ?search = js ''Total: Search''"
    "totalLabel ?col ?audio = js ''Total: Audio''"
    "totalLabel ?col ?pmax = js ''Total: Performance Max''"
    by (simp_all add: totalLabel_def toStr_def)
  have r: "rank lowerBasic ?col ?shop = 999" "rank lowerBasic ?col ?search = 5"
    "rank lowerBasic ?col ?audio = 999" "rank lowerBasic ?col ?pmax = 0"
    by (simp_all add: rank_examples l)
  have c: "totalsCompare lowerBasic codeUnitCompare ?col ?audio ?pmax = 999"
    "totalsCompare lowerBasic codeUnitCompare ?col ?search ?pmax = 5"
    "totalsCompare lowerBasic codeUnitCompare ?col ?search ?audio = - 994"
    "totalsCompare lowerBasic codeUnitCompare ?col ?shop ?pmax = 999"
    "totalsCompare lowerBasic codeUnitCompare ?col ?shop ?search = 994"
    "totalsCompare lowerBasic codeUnitCompare ?col ?shop ?audio = 1"
    by (simp_all add: totalsCompare_def Let_def r l bucket_examples codeUnitCompare_shopping_audio)
  have s: "sortTotals lowerBasic codeUnitCompare [?shop, ?search, ?audio, ?pmax] ?col =
      [?pmax, ?search, ?audio, ?shop]"
    by (simp add: sortTotals_def jsSort_def c)
  from sortTotals_by_bucket_priority
    [where localeCompare = codeUnitCompare and col = ?col and a = ?pmax and b = ?search
      and s = ?shop, OF codeUnitCompare_consistent]
  have "rank lowerBasic ?col ?pmax = 0 \<and> rank lowerBasic ?col ?search = 5 \<and>
      totalsCompare lowerBasic codeUnitCompare ?col ?pmax ?search < 0"
    and "rank lowerBasic ?col ?shop = 999"
    using l by simp_all
  with s show ?thesis by simp
qed

section \<open>The report on the simple-mode path\<close>

lemmas ru_role_defs = ru_kampaniya_def ru_kampanii_def ru_imya_kampanii_def ru_kampan_def
  ru_gruppa_obyavlenii_def ru_gruppy_obyavlenii_def ru_gruppa_def ru_grupp_def ru_obyav_def
  ru_itogo_def ru_vsego_def

lemma detect_roles_example:
  "detectSearchTermColumn lowerBasic [js ''Search term'', js ''Cost''] = js ''Search term''"
  "detectCampaignColumn lowerBasic [js ''Search term'', js ''Cost''] = None"
  "detectAdGroupColumn lowerBasic [js ''Search term'', js ''Cost''] = None"
  by (simp_all only: detectSearchTermColumn.simps detectCampaignColumn_def
      detectAdGroupColumn_def find.simps normalizeHeader_Search_term normalizeHeader_examples)
    (simp_all add: exactCandidates_def campaignCandidates_def adGroupCandidates_def
      ru_role_defs ru_header_defs js_def)

lemma isTotalLabel_examples:
  "isTotalLabel lowerBasic (js ''Total: Search'')"
  "\<not> isTotalLabel lowerBasic (js ''shoes'')"
  by (simp_all add: isTotalLabel_def header_defs ru_role_defs)

lemma short_rows_no_header:
  "findHeaderRowIndex lowerBasic
     [[js ''Search term'', js ''Cost''], [js ''Total: Search'', js ''5''], [js ''shoes'', js ''1'']]
   = - 1"
  by (simp add: findHeaderRowIndex_def)

text \<open>
  C7. The report is meant to hold, in this order, the meta row, the data rows and the
  total rows. On the simple-mode path it does not: parseSimpleHeaderCsv tags every row
  and leaves it where it is. The text below has a header of two cells, so no header row
  is detected; its first row after the header is a total row, its second a data row,
  and the report lists them in that order.
\<close>

theorem parseSearchTermsCsv_simple_mode_total_before_data:
  "map (\<lambda>r. (r (js ''__rowType''), r (js ''searchTerm'')))
     (rows (parseSearchTermsCsv lowerBasic codeUnitCompare
        (\<lambda>t. \<lparr> scanData =
                  [[js ''Search term'', js ''Cost''], [js ''Total: Search'', js ''5''],
                   [js ''shoes'', js ''1'']],
                scanErrors = [] \<rparr>)
        (\<lambda>t. \<lparr> parsedData =
                  [[js ''Search term'' \<mapsto> JStr (js ''Total: Search''),
                    js ''Cost'' \<mapsto> JStr (js ''5'')],
                   [js ''Search term'' \<mapsto> JStr (js ''shoes''),
                    js ''Cost'' \<mapsto> JStr (js ''1'')]],
                parsedFields = [js ''Search term'', js ''Cost''],
                parsedErrors = [] \<rparr>)
        (js ''Search term,Cost'' @ [10] @ js ''Total: Search,5'' @ [10] @ js ''shoes,1'' @ [10])))
   = [(Some (JStr (js ''total'')), Some (JStr (js ''Total: Search''))),
      (Some (JStr (js ''data'')), Some (JStr (js ''shoes'')))]"
proof -
  let ?r1 = "[js ''Search term'' \<mapsto> JStr (js ''Total: Search''), js ''Cost'' \<mapsto> JStr (js ''5'')]"
  let ?r2 = "[js ''Search term'' \<mapsto> JStr (js ''shoes''), js ''Cost'' \<mapsto> JStr (js ''1'')]"
  let ?objs = "\<lambda>t::jstring. \<lparr> parsedData = [?r1, ?r2],
      parsedFields = [js ''Search term'', js ''Cost''], parsedErrors = [] \<rparr>"
  have k: "js ''__rowType'' \<noteq> js ''searchTerm''" "js ''__rowType'' \<noteq> js ''campaign''"
    "js ''__rowType'' \<noteq> js ''adGroup''" "js ''__rowType'' \<noteq> js ''Search term''"
    "js ''__rowType'' \<noteq> js ''Cost''" "js ''__rowType'' \<noteq> js ''__rowId''"
    "js ''searchTerm'' \<noteq> js ''campaign''" "js ''searchTerm'' \<noteq> js ''adGroup''"
    "js ''Search term'' \<noteq> js ''Cost''"
    by (simp_all add: js_def)
  have u: "[0..<2] = [0, 1]" by (simp add: upt_rec)
  have simple: "rows (parseSimpleHeaderCsv lowerBasic ?objs input ws) =
      [simpleRow lowerBasic (js ''Search term'') None None 0 ?r1,
       simpleRow lowerBasic (js ''Search term'') None None (Suc 0) ?r2]" for input ws
    by (simp add: parseSimpleHeaderCsv_def Let_def detect_roles_example u
        del: detectSearchTermColumn.simps)
  have t1: "getStr ?r1 (js ''Search term'') = js ''Total: Search''"
    and t2: "getStr ?r2 (js ''Search term'') = js ''shoes''"
    by (simp_all add: getStr_def toStr_def k)
  have row1: "simpleRow lowerBasic (js ''Search term'') None None 0 ?r1 (js ''__rowType'') =
      Some (JStr (js ''total''))"
    "simpleRow lowerBasic (js ''Search term'') None None 0 ?r1 (js ''searchTerm'') =
      Some (JStr (js ''Total: Search''))"
    by (simp_all add: simpleRow_def t1 isTotalLabel_examples k map_add_def)
  have row2: "simpleRow lowerBasic (js ''Search term'') None None (Suc 0) ?r2 (js ''__rowType'') =
      Some (JStr (js ''data''))"
    "simpleRow lowerBasic (js ''Search term'') None None (Suc 0) ?r2 (js ''searchTerm'') =
      Some (JStr (js ''shoes''))"
    by (simp_all add: simpleRow_def t2 isTotalLabel_examples k map_add_def)
  show ?thesis
    by (simp add: parseSearchTermsCsv_def Let_def short_rows_no_header simple row1 row2)
qed

section \<open>Header detection and the simple-mode path on a file without preamble\<close>

theorem findHeaderRowIndex_first_qualifying_witness:
  "findHeaderRowIndex lowerBasic
     [[js ''Search terms report''], [js ''Search term'', js ''Campaign'', js ''Cost'']] = 1 \<and>
   findHeaderRowIndex lowerBasic [[js ''Search term'', js ''Cost''], [js ''shoes'', js ''1'']] = - 1 \<and>
   columns
     (parseSearchTermsCsv lowerBasic (\<lambda>a b. 0)
        (\<lambda>t. \<lparr> scanData = [[js ''Search term'', js ''Cost''], [js ''shoes'', js ''1'']],
                scanErrors = [] \<rparr>)
        (\<lambda>t. \<lparr> parsedData = [[js ''Search term'' \<mapsto> JStr (js ''shoes''),
                               js ''Cost'' \<mapsto> JStr (js ''1'')]],
                parsedFields = [js ''Search term'', js ''Cost''], parsedErrors = [] \<rparr>)
        (js ''Search term,Cost'' @ [10] @ js ''shoes,1'')) =
     [js ''Search term'', js ''Cost''] \<and>
   map (\<lambda>r. (r (js ''__rowId''), r (js ''__rowType''), r (js ''Search term''), r (js ''Cost''),
              r (js ''searchTerm''), r (js ''campaign''), r (js ''adGroup'')))
     (rows
        (parseSearchTermsCsv lowerBasic (\<lambda>a b. 0)
           (\<lambda>t. \<lparr> scanData = [[js ''Search term'', js ''Cost''], [js ''shoes'', js ''1'']],
                   scanErrors = [] \<rparr>)
           (\<lambda>t. \<lparr> parsedData = [[js ''Search term'' \<mapsto> JStr (js ''shoes''),
                                  js ''Cost'' \<mapsto> JStr (js ''1'')]],
                   parsedFields = [js ''Search term'', js ''Cost''], parsedErrors = [] \<rparr>)
           (js ''Search term,Cost'' @ [10] @ js ''shoes,1''))) =
     [(Some (JNum 1), Some (JStr (js ''data'')), Some (JStr (js ''shoes'')),
       Some (JStr (js ''1'')), Some (JStr (js ''shoes'')), Some (JStr []), Some (JStr []))]"
proof -
  let ?rws = "[[js ''Search terms report''], [js ''Search term'', js ''Campaign'', js ''Cost'']]"
  let ?short = "[[js ''Search term'', js ''Cost''], [js ''shoes'', js ''1'']]"
  let ?r = "[js ''Search term'' \<mapsto> JStr (js ''shoes''), js ''Cost'' \<mapsto> JStr (js ''1'')]"
  let ?scan = "\<lambda>t::jstring. \<lparr> scanData = ?short, scanErrors = [] \<rparr>"
  let ?objs = "\<lambda>t::jstring. \<lparr> parsedData = [?r],
      parsedFields = [js ''Search term'', js ''Cost''], parsedErrors = [] \<rparr>"
  let ?input = "js ''Search term,Cost'' @ [10] @ js ''shoes,1''"
  let ?rep = "parseSearchTermsCsv lowerBasic (\<lambda>a b. 0) ?scan ?objs ?input"
  have a: "findHeaderRowIndex lowerBasic ?rws = 1"
    using findHeaderRowIndex_first_qualifying [where i = 1 and rws = ?rws and lower = lowerBasic]
      normalizeHeader_Search_term key_search_term
    by simp
  have b: "findHeaderRowIndex lowerBasic ?short = - 1"
    using findHeaderRowIndex_first_qualifying [where i = 0 and rws = ?short and lower = lowerBasic]
    by (simp add: less_Suc_eq)
  have b': "findHeaderRowIndex lowerBasic (scanData (?scan (stripBom ?input))) = - 1"
    using b by simp
  note simple = findHeaderRowIndex_first_qualifying
    [where i = 0 and rws = ?short and lower = lowerBasic and papaRows = ?scan and
        input = ?input and localeCompare = "\<lambda>a b. 0" and papaObjects = ?objs,
      THEN conjunct2, THEN conjunct2, THEN mp, OF b', unfolded Let_def]
  note fields = simple [THEN conjunct2]
  note row = simple [THEN conjunct2, THEN conjunct2, THEN conjunct2, THEN conjunct2,
      THEN conjunct2, THEN conjunct2, THEN conjunct2, THEN conjunct2, rule_format, of 0]
  have k: "js ''Search term'' \<noteq> js ''Cost''" "js ''Search term'' \<noteq> js ''searchTerm''"
    "js ''Search term'' \<noteq> js ''campaign''" "js ''Search term'' \<noteq> js ''adGroup''"
    "js ''Cost'' \<noteq> js ''searchTerm''" "js ''Cost'' \<noteq> js ''campaign''"
    "js ''Cost'' \<noteq> js ''adGroup''" "js ''__rowType'' \<noteq> js ''Search term''"
    "js ''__rowType'' \<noteq> js ''Cost''" "js ''__rowId'' \<noteq> js ''Search term''"
    "js ''__rowId'' \<noteq> js ''Cost''"
    by (simp_all add: js_def)
  have shoes: "getStr ?r (js ''Search term'') = js ''shoes''"
    by (simp add: getStr_def toStr_def k)
  from fields have cols: "columns ?rep = [js ''Search term'', js ''Cost'']"
    by simp
  from fields have len: "length (rows ?rep) = 1"
    by simp
  from row have r0:
    "(rows ?rep ! 0) (js ''Search term'') = Some (JStr (js ''shoes''))"
    "(rows ?rep ! 0) (js ''Cost'') = Some (JStr (js ''1''))"
    "(rows ?rep ! 0) (js ''searchTerm'') = Some (JStr (js ''shoes''))"
    "(rows ?rep ! 0) (js ''campaign'') = Some (JStr [])"
    "(rows ?rep ! 0) (js ''adGroup'') = Some (JStr [])"
    "(rows ?rep ! 0) (js ''__rowType'') = Some (JStr (js ''data''))"
    "(rows ?rep ! 0) (js ''__rowId'') = Some (JNum 1)"
    by (simp_all add: k detect_roles_example shoes optionalField_def isTotalLabel_examples
        del: detectSearchTermColumn.simps)
  from len obtain x where x: "rows ?rep = [x]"
    by (cases "rows ?rep") simp_all
  with r0 have "x (js ''Search term'') = Some (JStr (js ''shoes''))"
    "x (js ''Cost'') = Some (JStr (js ''1''))"
    "x (js ''searchTerm'') = Some (JStr (js ''shoes''))"
    "x (js ''campaign'') = Some (JStr [])"
    "x (js ''adGroup'') = Some (JStr [])"
    "x (js ''__rowType'') = Some (JStr (js ''data''))"
    "x (js ''__rowId'') = Some (JNum 1)"
    by simp_all
  with a b cols x show ?thesis by (simp only: list.map)
qed

section \<open>The reducer keeps the texts of every list unique\<close>

lemma textsUnique_append:
  assumes "textsUnique lower l" and "\<not> existsInList lower t l"
  shows "textsUnique lower (l @ [\<lparr> negId = u, negText = t, negMatchType = m \<rparr>])"
  using assms by (auto simp: existsInList_def list_ex_iff)

lemma textsUnique_filter: "textsUnique lower l \<Longrightarrow> textsUnique lower (filter P l)"
  by (rule distinct_map_filter)

lemma textsUnique_update:
  assumes "textsUnique lower l"
  shows "textsUnique lower (map (\<lambda>x. if negId x = i then x\<lparr> negMatchType := m \<rparr> else x) l)"
proof -
  have e: "map (\<lambda>x. normKey lower (negText x))
          (map (\<lambda>x. if negId x = i then x\<lparr> negMatchType := m \<rparr> else x) l) =
        map (\<lambda>x. normKey lower (negText x)) l"
    by (induction l) simp_all
  show ?thesis unfolding e by (rule assms)
qed

lemma campaignList_unique:
  assumes "listsUnique lower st" and "campaignList (byCampaign (negatives st)) c = Inr l"
  shows "textsUnique lower l"
  using assms by (auto simp: campaignList_def split: option.splits if_splits)

lemma listsUnique_campaign_update:
  assumes "listsUnique lower st" and "textsUnique lower next"
  shows "listsUnique lower
     (st\<lparr> negatives := (negatives st)\<lparr> byCampaign := (byCampaign (negatives st))(c \<mapsto> next) \<rparr>,
          ui := u \<rparr>)"
  using assms by auto

lemma addNegative_unique:
  assumes inv: "listsUnique lower st" and run: "addNegative lower st p uuid = Inr st'"
  shows "listsUnique lower st'"
proof -
  let ?t = "trim (orEmpty (addText p))"
  let ?campaign = "normCampaignName (orEmpty (addCampaign p))"
  let ?marked = "case addRowId p of None \<Rightarrow> markedRowIds (ui st)
    | Some rid \<Rightarrow> if markRow p then insert rid (markedRowIds (ui st)) else markedRowIds (ui st)"
  let ?item = "\<lparr> negId = uuid, negText = ?t, negMatchType = orElse (addMatchType p) (js ''phrase'') \<rparr>"
  show ?thesis
  proof (cases "?t = []")
    case True
    with run inv show ?thesis by (simp add: addNegative_def)
  next
    case ne: False
    show ?thesis
    proof (cases "orElse (addScope p) (mode (ui st)) = js ''campaign''")
      case True
      with run ne obtain current where
        cur: "campaignList (byCampaign (negatives st)) ?campaign = Inr current"
        by (auto simp: addNegative_def Let_def split: sum.splits)
      from campaignList_unique [OF inv cur] have u: "textsUnique lower current" .
      show ?thesis
      proof (cases "existsInList lower ?t current")
        case True
        with run ne \<open>orElse (addScope p) (mode (ui st)) = js ''campaign''\<close> cur inv
        show ?thesis by (auto simp: addNegative_def Let_def)
      next
        case False
        from textsUnique_append [OF u False]
        have n: "textsUnique lower (current @ [?item])" .
        from run ne \<open>orElse (addScope p) (mode (ui st)) = js ''campaign''\<close> cur False
        have "st' = st\<lparr> negatives := (negatives st)
            \<lparr> byCampaign := (byCampaign (negatives st))(?campaign \<mapsto> current @ [?item]) \<rparr>,
            ui := (ui st)\<lparr> markedRowIds := ?marked \<rparr> \<rparr>"
          by (simp add: addNegative_def Let_def)
        then show ?thesis using listsUnique_campaign_update [OF inv n] by simp
      qed
    next
      case acct: False
      show ?thesis
      proof (cases "existsInList lower ?t (items (negatives st))")
        case True
        with run ne acct inv show ?thesis by (auto simp: addNegative_def Let_def)
      next
        case False
        from inv have "textsUnique lower (items (negatives st))" by simp
        from textsUnique_append [OF this False]
        have "textsUnique lower (items (negatives st) @ [?item])" .
        with run ne acct inv False show ?thesis by (auto simp: addNegative_def Let_def)
      qed
    qed
  qed
qed


lemma removeNegativeByText_unique:
  assumes inv: "listsUnique lower st" and run: "removeNegativeByText lower st p = Inr st'"
  shows "listsUnique lower st'"
proof -
  let ?t = "lower (trim (orEmpty (rmText p)))"
  let ?campaign = "normCampaignName (orEmpty (rmCampaign p))"
  let ?keep = "filter (\<lambda>x. normKey lower (negText x) \<noteq> normKey lower ?t)"
  let ?marked = "case rmRowId p of None \<Rightarrow> markedRowIds (ui st)
    | Some rid \<Rightarrow> if unmarkRow p then markedRowIds (ui st) - {rid} else markedRowIds (ui st)"
  show ?thesis
  proof (cases "?t = []")
    case True
    with run inv show ?thesis by (simp add: removeNegativeByText_def)
  next
    case ne: False
    show ?thesis
    proof (cases "orElse (rmScope p) (mode (ui st)) = js ''campaign''")
      case True
      with run ne obtain current where
        cur: "campaignList (byCampaign (negatives st)) ?campaign = Inr current"
        by (auto simp: removeNegativeByText_def Let_def split: sum.splits)
      from campaignList_unique [OF inv cur] have "textsUnique lower current" .
      then have n: "textsUnique lower (?keep current)" by (rule textsUnique_filter)
      from run ne True cur
      have "st' = st\<lparr> negatives := (negatives st)
          \<lparr> byCampaign := (byCampaign (negatives st))(?campaign \<mapsto> ?keep current) \<rparr>,
          ui := (ui st)\<lparr> markedRowIds := ?marked \<rparr> \<rparr>"
        by (simp add: removeNegativeByText_def Let_def)
      then show ?thesis using listsUnique_campaign_update [OF inv n] by simp
    next
      case acct: False
      from inv have "textsUnique lower (items (negatives st))" by simp
      then have "textsUnique lower (?keep (items (negatives st)))" by (rule textsUnique_filter)
      with run ne acct inv show ?thesis by (auto simp: removeNegativeByText_def Let_def)
    qed
  qed
qed

lemma removeNegative_unique:
  assumes inv: "listsUnique lower st" and run: "removeNegative lower st p = Inr st'"
  shows "listsUnique lower st'"
proof -
  let ?scope = "orElse (delScope p) (mode (ui st))"
  let ?campaign = "normCampaignName (orEmpty (delCampaign p))"
  let ?keep = "filter (\<lambda>x. negId x \<noteq> delId p)"
  show ?thesis
  proof (cases "?scope = js ''campaign''")
    case True
    with run obtain current where
      cur: "campaignList (byCampaign (negatives st)) ?campaign = Inr current"
      by (auto simp: removeNegative_def Let_def split: sum.splits)
    from campaignList_unique [OF inv cur] have "textsUnique lower current" .
    then have n: "textsUnique lower (?keep current)" by (rule textsUnique_filter)
    from run True cur
    have "st' = st\<lparr> negatives := (negatives st)
        \<lparr> byCampaign := (byCampaign (negatives st))(?campaign \<mapsto> ?keep current) \<rparr>,
        ui := (ui st)\<lparr> markedRowIds :=
          unmarkRows lower ?scope ?campaign (find (\<lambda>x. negId x = delId p) current)
            (stRows (report st)) (markedRowIds (ui st)) \<rparr> \<rparr>"
      by (simp add: removeNegative_def Let_def)
    then show ?thesis using listsUnique_campaign_update [OF inv n] by simp
  next
    case acct: False
    from inv have "textsUnique lower (items (negatives st))" by simp
    then have "textsUnique lower (?keep (items (negatives st)))" by (rule textsUnique_filter)
    with run acct inv show ?thesis by (auto simp: removeNegative_def Let_def)
  qed
qed

lemma updateNegativeMatchType_unique:
  assumes inv: "listsUnique lower st" and run: "updateNegativeMatchType st p = Inr st'"
  shows "listsUnique lower st'"
proof -
  let ?campaign = "normCampaignName (orEmpty (updCampaign p))"
  let ?change = "map (\<lambda>x. if negId x = updId p then x\<lparr> negMatchType := updMatchType p \<rparr> else x)"
  show ?thesis
  proof (cases "orElse (updScope p) (mode (ui st)) = js ''campaign''")
    case True
    with run obtain current where
      cur: "campaignList (byCampaign (negatives st)) ?campaign = Inr current"
      by (auto simp: updateNegativeMatchType_def Let_def split: sum.splits)
    from campaignList_unique [OF inv cur] have "textsUnique lower current" .
    then have n: "textsUnique lower (?change current)" by (rule textsUnique_update)
    from run True cur
    have "st' = st\<lparr> negatives := (negatives st)
        \<lparr> byCampaign := (byCampaign (negatives st))(?campaign \<mapsto> ?change current) \<rparr> \<rparr>"
      by (simp add: updateNegativeMatchType_def Let_def)
    with inv n show ?thesis by auto
  next
    case acct: False
    from inv have "textsUnique lower (items (negatives st))" by simp
    then have n: "textsUnique lower (?change (items (negatives st)))" by (rule textsUnique_update)
    from run acct
    have "st' = st\<lparr> negatives := (negatives st)\<lparr> items := ?change (items (negatives st)) \<rparr> \<rparr>"
      by (simp add: updateNegativeMatchType_def Let_def)
    with inv n show ?thesis by simp
  qed
qed

lemma reducer_unique:
  assumes inv: "listsUnique lower st" and run: "reducer lower localeCompare st a = Inr st'"
  shows "listsUnique lower st'"
proof (cases a)
  case (REPORT_LOADED p fname)
  with run show ?thesis by (auto simp: Let_def)
next
  case (REPORT_ERROR fname err)
  with run show ?thesis by auto
next
  case (SET_MODE m)
  with run inv show ?thesis by (auto simp: Let_def split: if_splits)
next
  case (SET_SELECTED_CAMPAIGN c)
  with run inv show ?thesis by auto
next
  case (ADD_NEGATIVE p uuid)
  with run have "addNegative lower st p uuid = Inr st'" by simp
  with inv show ?thesis by (rule addNegative_unique)
next
  case (REMOVE_NEGATIVE_BY_TEXT p)
  with run have "removeNegativeByText lower st p = Inr st'" by simp
  with inv show ?thesis by (rule removeNegativeByText_unique)
next
  case (REMOVE_NEGATIVE p)
  with run have "removeNegative lower st p = Inr st'" by simp
  with inv show ?thesis by (rule removeNegative_unique)
next
  case (UPDATE_NEGATIVE_MATCH_TYPE p)
  with run have "updateNegativeMatchType st p = Inr st'" by simp
  with inv show ?thesis by (rule updateNegativeMatchType_unique)
next
  case OTHER_ACTION
  with run inv show ?thesis by simp
qed

lemma initialState_unique: "listsUnique lower initialState"
  by (simp add: initialState_def)

lemma reachable_unique:
  "reachable lower localeCompare st \<Longrightarrow> listsUnique lower st"
proof (induction rule: reachable.induct)
  case initial
  show ?case by (rule initialState_unique)
next
  case (step st a st')
  from step.IH step.hyps(2) show ?case by (rule reducer_unique)
qed

lemma addNegative_duplicate:
  assumes "existsInList lower (trim (orEmpty (addText p)))
     (if orElse (addScope p) (mode (ui st)) = js ''campaign''
      then (case campaignList (byCampaign (negatives st))
                   (normCampaignName (orEmpty (addCampaign p))) of
              Inl e \<Rightarrow> [] | Inr current \<Rightarrow> current)
      else items (negatives st))"
  shows "\<exists>marked. addNegative lower st p uuid =
     Inr (st\<lparr> ui := (ui st)\<lparr> markedRowIds := marked \<rparr> \<rparr>)"
proof (cases "trim (orEmpty (addText p)) = []")
  case True
  have "st = st\<lparr> ui := (ui st)\<lparr> markedRowIds := markedRowIds (ui st) \<rparr> \<rparr>" by simp
  moreover from True have "addNegative lower st p uuid = Inr st" by (simp add: addNegative_def)
  ultimately show ?thesis by metis
next
  case False
  with assms show ?thesis
    by (auto simp: addNegative_def Let_def existsInList_def split: sum.splits)
qed

text \<open>
  C10. In every state that the reducer reaches from the initial state, the account list
  and every campaign list hold no two entries whose texts are equal after trimming and
  lower-casing. And in any state, an ADD_NEGATIVE whose trimmed text is, up to case,
  already in the list it targets (the list of the campaign when the scope is "campaign",
  the account list otherwise) returns the state with nothing but the set of marked rows
  replaced.
\<close>

theorem reducer_texts_unique:
  "(reachable lower localeCompare st \<longrightarrow> listsUnique lower st) \<and>
   (existsInList lower (trim (orEmpty (addText p)))
      (if orElse (addScope p) (mode (ui st)) = js ''campaign''
       then (case campaignList (byCampaign (negatives st))
                    (normCampaignName (orEmpty (addCampaign p))) of
               Inl e \<Rightarrow> [] | Inr current \<Rightarrow> current)
       else items (negatives st)) \<longrightarrow>
    (\<exists>marked. reducer lower localeCompare st (ADD_NEGATIVE p uuid) =
       Inr (st\<lparr> ui := (ui st)\<lparr> markedRowIds := marked \<rparr> \<rparr>)))"
proof (intro conjI impI)
  assume "reachable lower localeCompare st"
  then have u: "listsUnique lower st" by (rule reachable_unique)
  from u show "textsUnique lower (items (negatives st))" by simp
  from u show "\<forall>c l. byCampaign (negatives st) c = Some l \<longrightarrow> textsUnique lower l" by simp
next
  assume "existsInList lower (trim (orEmpty (addText p)))
      (if orElse (addScope p) (mode (ui st)) = js ''campaign''
       then (case campaignList (byCampaign (negatives st))
                    (normCampaignName (orEmpty (addCampaign p))) of
               Inl e \<Rightarrow> [] | Inr current \<Rightarrow> current)
       else items (negatives st))"
  then show "\<exists>marked. reducer lower localeCompare st (ADD_NEGATIVE p uuid) =
       Inr (st\<lparr> ui := (ui st)\<lparr> markedRowIds := marked \<rparr> \<rparr>)"
    unfolding reducer.simps by (rule addNegative_duplicate)
qed


lemma trim_Shoes:
  "trim (js ''Shoes'') = js ''Shoes''" "trim (js '' shoes '') = js ''shoes''"
  "trim (js ''shoes'') = js ''shoes''"
  by (simp_all add: trim_def isWhiteSpace_def js_def)

lemma lowerBasic_Shoes:
  "lowerBasic (js ''Shoes'') = js ''shoes''" "lowerBasic (js ''shoes'') = js ''shoes''"
  by (simp_all add: lowerBasic_def lowerUnit_def js_def)

theorem reducer_texts_unique_witness:
  "reducer lowerBasic codeUnitCompare initialState
     (ADD_NEGATIVE
        \<lparr> addText = Some (js ''Shoes''), addMatchType = None, addScope = None,
          addCampaign = None, markRow = False, addRowId = None \<rparr>
        (js ''id-1'')) =
     Inr (initialState
            \<lparr> negatives :=
                \<lparr> items = [\<lparr> negId = js ''id-1'', negText = js ''Shoes'',
                             negMatchType = js ''phrase'' \<rparr>],
                  byCampaign = Map.empty \<rparr> \<rparr>) \<and>
   textsUnique lowerBasic
     (items (negatives
        (initialState
           \<lparr> negatives :=
               \<lparr> items = [\<lparr> negId = js ''id-1'', negText = js ''Shoes'',
                            negMatchType = js ''phrase'' \<rparr>],
                 byCampaign = Map.empty \<rparr> \<rparr>))) \<and>
   (\<exists>marked.
      reducer lowerBasic codeUnitCompare
        (initialState
           \<lparr> negatives :=
               \<lparr> items = [\<lparr> negId = js ''id-1'', negText = js ''Shoes'',
                            negMatchType = js ''phrase'' \<rparr>],
                 byCampaign = Map.empty \<rparr> \<rparr>)
        (ADD_NEGATIVE
           \<lparr> addText = Some (js '' shoes ''), addMatchType = Some (js ''exact''),
             addScope = None, addCampaign = None, markRow = True,
             addRowId = Some (JNum 7) \<rparr>
           (js ''id-2'')) =
      Inr (initialState
             \<lparr> negatives :=
                 \<lparr> items = [\<lparr> negId = js ''id-1'', negText = js ''Shoes'',
                              negMatchType = js ''phrase'' \<rparr>],
                   byCampaign = Map.empty \<rparr>,
               ui := \<lparr> markedRowIds = marked, mode = js ''account'',
                       selectedCampaign = [] \<rparr> \<rparr>))"
proof -
  let ?p1 = "\<lparr> addText = Some (js ''Shoes''), addMatchType = None, addScope = None,
          addCampaign = None, markRow = False, addRowId = None \<rparr>"
  let ?p2 = "\<lparr> addText = Some (js '' shoes ''), addMatchType = Some (js ''exact''),
             addScope = None, addCampaign = None, markRow = True,
             addRowId = Some (JNum 7) \<rparr>"
  let ?st1 = "initialState
           \<lparr> negatives :=
               \<lparr> items = [\<lparr> negId = js ''id-1'', negText = js ''Shoes'',
                            negMatchType = js ''phrase'' \<rparr>],
                 byCampaign = Map.empty \<rparr> \<rparr>"
  have account: "js ''account'' \<noteq> js ''campaign''"
    by (simp add: js_def)
  have first: "reducer lowerBasic codeUnitCompare initialState (ADD_NEGATIVE ?p1 (js ''id-1'')) =
      Inr ?st1"
    by (simp add: addNegative_def Let_def orEmpty_def orElse_def trim_Shoes existsInList_def
        initialState_def account)
      (simp add: js_def)
  from reachable.step [OF reachable.initial first]
  have reach: "reachable lowerBasic codeUnitCompare ?st1" .
  have dup: "existsInList lowerBasic (trim (orEmpty (addText ?p2)))
      (if orElse (addScope ?p2) (mode (ui ?st1)) = js ''campaign''
       then (case campaignList (byCampaign (negatives ?st1))
                    (normCampaignName (orEmpty (addCampaign ?p2))) of
               Inl e \<Rightarrow> [] | Inr current \<Rightarrow> current)
       else items (negatives ?st1))"
    by (simp add: orEmpty_def orElse_def trim_Shoes existsInList_def normKey_def
        lowerBasic_Shoes initialState_def account)
  have same: "?st1\<lparr> ui := (ui ?st1)\<lparr> markedRowIds := marked \<rparr> \<rparr> =
      initialState
             \<lparr> negatives :=
                 \<lparr> items = [\<lparr> negId = js ''id-1'', negText = js ''Shoes'',
                              negMatchType = js ''phrase'' \<rparr>],
                   byCampaign = Map.empty \<rparr>,
               ui := \<lparr> markedRowIds = marked, mode = js ''account'',
                       selectedCampaign = [] \<rparr> \<rparr>" for marked
    by (simp add: initialState_def)
  from reducer_texts_unique [of lowerBasic codeUnitCompare ?st1 ?p2 "js ''id-2''"] reach dup
  have "textsUnique lowerBasic (items (negatives ?st1))"
    and "\<exists>marked. reducer lowerBasic codeUnitCompare ?st1 (ADD_NEGATIVE ?p2 (js ''id-2'')) =
       Inr (?st1\<lparr> ui := (ui ?st1)\<lparr> markedRowIds := marked \<rparr> \<rparr>)"
    by blast+
  with first same show ?thesis by (simp only:)
qed

end
